theory Spec2Isabelle
  imports Complex_Main "HOL-Library.Word"
begin

section \<open>JavaScript values used by the symbol layout pass\<close>

text \<open>
  Numbers that flow out of style expressions and out of a division can be \<open>undefined\<close>,
  \<open>NaN\<close> or infinite. Finite values are ideal reals: no rounding, no signed zero.
  \<open>Undefined\<close> is kept apart from \<open>NaN\<close> because \<open>addFeature\<close> tests
  \<open>textMaxSize === undefined\<close>; every arithmetic operator turns it into \<open>NaN\<close>.
\<close>

datatype jsnum = Num real | Infinity | NegInfinity | NaN | Undefined

datatype error = TypeError

fun js_isNaN :: "jsnum \<Rightarrow> bool" where
  "js_isNaN NaN = True"
| "js_isNaN Undefined = True"
| "js_isNaN _ = False"

fun js_sign :: "jsnum \<Rightarrow> real" where
  "js_sign (Num r) = sgn r"
| "js_sign Infinity = 1"
| "js_sign NegInfinity = - 1"
| "js_sign _ = 0"

definition js_infinite :: "real \<Rightarrow> jsnum" where
  "js_infinite s = (if 0 < s then Infinity else if s < 0 then NegInfinity else NaN)"

definition js_mul :: "jsnum \<Rightarrow> jsnum \<Rightarrow> jsnum" where
  "js_mul a b =
     (if js_isNaN a \<or> js_isNaN b then NaN
      else case (a, b) of
             (Num r, Num s) \<Rightarrow> Num (r * s)
           | _ \<Rightarrow> js_infinite (js_sign a * js_sign b))"

definition js_div :: "jsnum \<Rightarrow> jsnum \<Rightarrow> jsnum" where
  "js_div a b =
     (if js_isNaN a \<or> js_isNaN b then NaN
      else case (a, b) of
             (Num r, Num s) \<Rightarrow> (if s = 0 then js_infinite (sgn r) else Num (r / s))
           | (Num r, _) \<Rightarrow> Num 0
           | (_, Num s) \<Rightarrow> (if s < 0 then js_infinite (- js_sign a) else a)
           | _ \<Rightarrow> NaN)"

text \<open>\<open>a < b\<close> of JavaScript; \<open>a > b\<close> is \<open>js_lt b a\<close>.\<close>

fun js_lt :: "jsnum \<Rightarrow> jsnum \<Rightarrow> bool" where
  "js_lt (Num r) (Num s) = (r < s)"
| "js_lt (Num r) Infinity = True"
| "js_lt NegInfinity (Num s) = True"
| "js_lt NegInfinity Infinity = True"
| "js_lt _ _ = False"

fun or_else :: "'a option \<Rightarrow> 'a option \<Rightarrow> 'a option" where
  "or_else (Some v) _ = Some v"
| "or_else None d = d"

text \<open>A \<open>for ... of\<close> loop whose body may throw: the first error ends the loop.\<close>

fun forEach :: "('a \<Rightarrow> 's \<Rightarrow> error + 's) \<Rightarrow> 'a list \<Rightarrow> 's \<Rightarrow> error + 's" where
  "forEach body [] s = Inr s"
| "forEach body (v # vs) s =
     (case body v s of Inl e \<Rightarrow> Inl e | Inr s' \<Rightarrow> forEach body vs s')"

section \<open>Data model\<close>

record point =
  point_x :: real
  point_y :: real

text \<open>\<open>class Anchor extends Point\<close>; \<open>segment\<close> is \<open>undefined\<close> when the constructor gets three arguments.\<close>

record anchor = point +
  angle :: real
  segment :: "nat option"

definition Anchor :: "real \<Rightarrow> real \<Rightarrow> real \<Rightarrow> anchor" where
  "Anchor ax ay an = \<lparr>point_x = ax, point_y = ay, angle = an, segment = None\<rparr>"

text \<open>\<open>Point.dist\<close> of the point-geometry library.\<close>

definition point_dist :: "'a point_scheme \<Rightarrow> 'b point_scheme \<Rightarrow> real" where
  "point_dist p q = sqrt ((point_x q - point_x p)\<^sup>2 + (point_y q - point_y p)\<^sup>2)"

type_synonym line = "point list"

datatype formatted = Formatted (sections: "string list")

text \<open>
  Modelled from the spec: \<open>Formatted.toString\<close> is not among the sources; "formatted rich
  text reduces to its plain-text form", the texts of its sections in order.
\<close>

definition formatted_toString :: "formatted \<Rightarrow> string" where
  "formatted_toString t = concat (sections t)"

datatype ftext = PlainText string | FormattedText formatted

datatype featureType = Unknown | Point | LineString | Polygon

record feature =
  feature_text :: "ftext option"
  feature_icon :: "string option"
  feature_index :: nat
  sourceLayerIndex :: nat
  geometry :: "line list"
  feature_type :: featureType

text \<open>Truthiness of \<open>feature.text\<close> and \<open>feature.icon\<close>: \<open>undefined\<close> and the empty string are falsy.\<close>

fun text_truthy :: "ftext option \<Rightarrow> bool" where
  "text_truthy None = False"
| "text_truthy (Some (PlainText s)) = (s \<noteq> [])"
| "text_truthy (Some (FormattedText t)) = True"

fun icon_truthy :: "string option \<Rightarrow> bool" where
  "icon_truthy None = False"
| "icon_truthy (Some s) = (s \<noteq> [])"

text \<open>
  Modelled from the spec: \<open>PossiblyEvaluatedPropertyValue\<close> is not among the sources. A
  layout property is either constant or evaluated against the feature
  (\<open>layout.get(name).evaluate(feature, context)\<close>); \<open>constantOr\<close> gives the constant, or its
  argument for a feature-dependent value.
\<close>

datatype 'a propertyValue = ConstantValue 'a | FeatureValue "feature \<Rightarrow> 'a"

fun evaluate :: "'a propertyValue \<Rightarrow> feature \<Rightarrow> 'a" where
  "evaluate (ConstantValue v) f = v"
| "evaluate (FeatureValue g) f = g f"

fun constantOr :: "'a propertyValue \<Rightarrow> 'a \<Rightarrow> 'a" where
  "constantOr (ConstantValue v) d = v"
| "constantOr (FeatureValue g) d = d"

datatype placement = PlacementPoint | PlacementLine | PlacementLineCenter

datatype alignment = AlignMap | AlignViewport | AlignAuto

record layoutProperties =
  symbol_placement :: placement
  symbol_spacing :: real
  text_rotation_alignment :: alignment
  icon_rotation_alignment :: alignment
  text_keep_upright :: bool
  text_line_height :: real
  text_padding :: real
  icon_padding :: real
  text_max_angle :: real
  text_font :: "string list propertyValue"
  text_offset :: "(real \<times> real) propertyValue"
  text_letter_spacing :: "real propertyValue"
  text_anchor :: "string propertyValue"
  text_justify :: "string propertyValue"
  text_max_width :: "real propertyValue"
  text_rotate :: "real propertyValue"
  text_size :: "jsnum propertyValue"
  icon_offset :: "(real \<times> real) propertyValue"
  icon_anchor :: "string propertyValue"
  icon_rotate :: "real propertyValue"
  icon_size :: "jsnum propertyValue"

text \<open>
  \<open>_unevaluatedLayout._values[name].possiblyEvaluate(new EvaluationParameters(z))\<close>, as a
  function of the zoom \<open>z\<close>.
\<close>

record unevaluatedLayout =
  unevaluated_text_size :: "real \<Rightarrow> jsnum propertyValue"
  unevaluated_icon_size :: "real \<Rightarrow> jsnum propertyValue"

record layer =
  layout :: layoutProperties
  unevaluated :: unevaluatedLayout

text \<open>
  \<open>SizeData\<close>: only the composite form carries a zoom range.
\<close>

datatype functionKind = Constant | Source | Camera | Composite

datatype sizeData = ConstantSize | SourceSize | CameraSize | CompositeSize (zoomRange_min: real) (zoomRange_max: real)

fun functionType :: "sizeData \<Rightarrow> functionKind" where
  "functionType ConstantSize = Constant"
| "functionType SourceSize = Source"
| "functionType CameraSize = Camera"
| "functionType (CompositeSize lo hi) = Composite"

record sizes =
  layoutTextSize :: "jsnum propertyValue"
  layoutIconSize :: "jsnum propertyValue"
  textMaxSize :: "jsnum propertyValue"
  compositeTextSizes :: "(jsnum propertyValue \<times> jsnum propertyValue) option"
  compositeIconSizes :: "(jsnum propertyValue \<times> jsnum propertyValue) option"

datatype writingMode = WM_horizontal | WM_vertical | WM_horizontalOnly

text \<open>The writing-mode argument of \<open>addSymbols\<close>: a writing mode for text, \<open>false\<close> for an icon.\<close>

datatype writingModeArg = Mode writingMode | ModeFalse

record shaping =
  shaping_text :: string
  shaping_bounds :: "real \<times> real \<times> real \<times> real"

record positionedIcon =
  icon_image :: string
  icon_bounds :: "real \<times> real \<times> real \<times> real"

datatype shaped = ShapedText shaping | ShapedIcon positionedIcon

record shapedTextOrientations =
  horizontal :: "shaping option"
  vertical :: "shaping option"

record styleImage =
  sdf :: bool
  image_pixelRatio :: real

typedecl styleGlyph
typedecl glyphPosition
typedecl imagePosition

type_synonym glyphMap = "string \<Rightarrow> (nat \<Rightarrow> styleGlyph option option) option"
type_synonym glyphPositions = "string \<Rightarrow> (nat \<Rightarrow> glyphPosition option) option"
type_synonym imageMap = "string \<Rightarrow> styleImage option"
type_synonym imagePositions = "string \<Rightarrow> imagePosition option"

record quad =
  glyphOffset :: "real \<times> real"

record collisionBox =
  box_rect :: "real \<times> real \<times> real \<times> real"
  box_featureIndex :: nat
  box_sourceLayerIndex :: nat
  box_bucketIndex :: nat

record collisionFeature =
  boxStartIndex :: nat
  boxEndIndex :: nat

record collisionFeatureArgs =
  cf_line :: line
  cf_anchor :: anchor
  cf_featureIndex :: nat
  cf_sourceLayerIndex :: nat
  cf_bucketIndex :: nat
  cf_shaped :: shaped
  cf_boxScale :: jsnum
  cf_padding :: jsnum
  cf_alignLine :: bool
  cf_overscaling :: real
  cf_rotate :: real

record lineArray =
  lineStartIndex :: nat
  lineLength :: nat

record placedSymbol =
  ps_anchor :: anchor
  ps_numQuads :: nat
  ps_sizeData :: "jsnum list option"
  ps_offset :: "real \<times> real"
  ps_alongLine :: bool
  ps_featureIndex :: nat
  ps_writingMode :: writingModeArg
  ps_lineStartIndex :: nat
  ps_lineLength :: nat

record symbolBuffers =
  placedSymbolArray :: "placedSymbol list"
  vertexQuads :: "quad list"

record symbolInstance =
  key :: nat
  textBoxStartIndex :: nat
  textBoxEndIndex :: nat
  iconBoxStartIndex :: nat
  iconBoxEndIndex :: nat
  anchor :: anchor
  featureIndex :: nat
  numGlyphVertices :: nat
  numVerticalGlyphVertices :: nat
  numIconVertices :: nat
  placedTextSymbolIndices :: "int list"
  crossTileID :: nat

text \<open>
  The fields of \<open>SymbolBucket\<close> that the layout pass reads or writes, and with them the
  messages handed to \<open>warnOnce\<close>, in call order.
\<close>

record bucket =
  features :: "feature list"
  layers :: "layer list"
  layerIds :: "string list"
  overscaling :: real
  zoom :: real
  pixelRatio :: real
  bucket_index :: nat
  textSizeData :: sizeData
  iconSizeData :: sizeData
  collisionBoxArray :: "collisionBox list"
  sdfIcons :: "bool option"
  symbolInstances :: "symbolInstance list"
  tilePixelRatio :: jsnum
  compareText :: "string \<Rightarrow> anchor list option"
  iconsNeedLinear :: bool
  bucket_text :: symbolBuffers
  bucket_icon :: symbolBuffers
  glyphOffsetArray :: "real list"
  lineVertexArray :: "(real \<times> real \<times> real) list"
  collisionDebugBuffers :: bool
  warnOnce_calls :: "string list"

text \<open>
  The collaborators of the layout pass that are imported from other modules, as pure
  functions of their arguments, and the imported constants whose values the sources do
  not show.
\<close>

record env =
  EXTENT :: real
  MAX_GLYPHS :: nat
  murmur3 :: "string \<Rightarrow> nat"
  allowsVerticalWritingMode :: "string \<Rightarrow> bool"
  allowsLetterSpacing :: "string \<Rightarrow> bool"
  shapeText :: "ftext \<Rightarrow> glyphMap \<Rightarrow> string \<Rightarrow> real \<Rightarrow> real \<Rightarrow> string \<Rightarrow> string \<Rightarrow> real
                 \<Rightarrow> real \<times> real \<Rightarrow> real \<Rightarrow> writingMode \<Rightarrow> shaping option"
  shapeIcon :: "imagePosition option \<Rightarrow> real \<times> real \<Rightarrow> string \<Rightarrow> positionedIcon"
  getGlyphQuads :: "anchor \<Rightarrow> shaping \<Rightarrow> layer \<Rightarrow> bool \<Rightarrow> feature \<Rightarrow> glyphPositions \<Rightarrow> quad list"
  getIconQuads :: "anchor \<Rightarrow> positionedIcon \<Rightarrow> layer \<Rightarrow> bool \<Rightarrow> shaping option \<Rightarrow> feature \<Rightarrow> quad list"
  collisionRects :: "collisionFeatureArgs \<Rightarrow> (real \<times> real \<times> real \<times> real) list"
  lineVertices :: "anchor \<Rightarrow> line \<Rightarrow> (real \<times> real \<times> real) list"
  clipLine :: "line list \<Rightarrow> real \<Rightarrow> real \<Rightarrow> real \<Rightarrow> real \<Rightarrow> line list"
  getAnchors :: "line \<Rightarrow> jsnum \<Rightarrow> real \<Rightarrow> shaping option \<Rightarrow> positionedIcon option \<Rightarrow> real
                  \<Rightarrow> jsnum \<Rightarrow> real \<Rightarrow> real \<Rightarrow> anchor list"
  getCenterAnchor :: "line \<Rightarrow> real \<Rightarrow> shaping option \<Rightarrow> positionedIcon option \<Rightarrow> real
                  \<Rightarrow> jsnum \<Rightarrow> anchor option"
  classifyRings :: "line list \<Rightarrow> nat \<Rightarrow> (line \<times> line list) list"
  findPoleOfInaccessibility :: "line \<times> line list \<Rightarrow> real \<Rightarrow> point"

section \<open>Bucket methods and constructors used by the layout pass\<close>

text \<open>
  Modelled from the spec: \<open>SIZE_PACK_FACTOR\<close> is imported from \<open>symbol_size\<close>, which is not
  among the sources. The warning of \<open>addTextVertices\<close> ("is >= 256") and the spec ("a
  text-size evaluating to 256 or above must trigger the overflow warning", against the
  16-bit bound 65535) fix the scale to 256.
\<close>

definition SIZE_PACK_FACTOR :: real where
  "SIZE_PACK_FACTOR = 256"

definition MAX_PACKED_SIZE :: real where
  "MAX_PACKED_SIZE = 65535"

definition warnOnce :: "bucket \<Rightarrow> string \<Rightarrow> bucket" where
  "warnOnce b message = b\<lparr>warnOnce_calls := warnOnce_calls b @ [message]\<rparr>"

text \<open>\<open>${bucket.layerIds[0]}\<close> in a template literal: a missing element prints as \<open>undefined\<close>.\<close>

definition layerId0 :: "bucket \<Rightarrow> string" where
  "layerId0 b = (case layerIds b of [] \<Rightarrow> ''undefined'' | i # _ \<Rightarrow> i)"

definition textSizeWarning :: "bucket \<Rightarrow> string" where
  \<open>textSizeWarning b = layerId0 b @ '': Value for "text-size" is >= 256. Reduce your "text-size".''\<close>

definition iconSizeWarning :: "bucket \<Rightarrow> string" where
  \<open>iconSizeWarning b = layerId0 b @ '': Value for "icon-size" is >= 256. Reduce your "icon-size".''\<close>

definition tooManyGlyphsWarning :: string where
  "tooManyGlyphsWarning =
     ''Too many glyphs being rendered in a tile. See https://github.com/mapbox/mapbox-gl-js/issues/2907''"

definition mixedSdfWarning :: string where
  "mixedSdfWarning = ''Style sheet warning: Cannot mix SDF and non-SDF icons in one buffer''"

text \<open>
  Modelled from the spec: \<open>SymbolBucket.createArrays\<close> is not among the sources. The
  bucket's GPU-facing arrays (the text and icon buffers, the glyph offsets and the line
  vertices) are created empty for the pass; the collision-box store is shared and
  append-only, and is left as it is.
\<close>

definition createArrays :: "bucket \<Rightarrow> bucket" where
  "createArrays b =
     b\<lparr>bucket_text := \<lparr>placedSymbolArray = [], vertexQuads = []\<rparr>,
       bucket_icon := \<lparr>placedSymbolArray = [], vertexQuads = []\<rparr>,
       glyphOffsetArray := [],
       lineVertexArray := []\<rparr>"

text \<open>
  Modelled from the spec: \<open>SymbolBucket.generateCollisionDebugBuffers\<close> is not among the
  sources; the driver "triggers generation of debug-visualization buffers (delegated to
  the bucket)".
\<close>

definition generateCollisionDebugBuffers :: "bucket \<Rightarrow> bucket" where
  "generateCollisionDebugBuffers b = b\<lparr>collisionDebugBuffers := True\<rparr>"

text \<open>
  Modelled from the spec: \<open>SymbolBucket.addToLineVertexArray\<close> is not among the sources. It
  appends "the anchor and its line to a shared line-vertex array, obtaining a
  [lineStartIndex, lineLength] reference".
\<close>

definition addToLineVertexArray :: "env \<Rightarrow> bucket \<Rightarrow> anchor \<Rightarrow> line \<Rightarrow> lineArray \<times> bucket" where
  "addToLineVertexArray env b anc lin =
     (let vs = lineVertices env anc lin
      in (\<lparr>lineStartIndex = length (lineVertexArray b), lineLength = length vs\<rparr>,
          b\<lparr>lineVertexArray := lineVertexArray b @ vs\<rparr>))"

text \<open>
  Modelled from the spec: \<open>SymbolBucket.addSymbols\<close> is not among the sources; the bucket
  sink is "append-only, index-stable" and the call writes "offset, vertex, and
  placed-symbol records": one placed-symbol record holding the arguments of the call, the
  quads, and one glyph offset for each quad.
\<close>

datatype buffersRef = TextBuffers | IconBuffers

definition appendSymbols :: "symbolBuffers \<Rightarrow> placedSymbol \<Rightarrow> quad list \<Rightarrow> symbolBuffers" where
  "appendSymbols arrays ps quads =
     arrays\<lparr>placedSymbolArray := placedSymbolArray arrays @ [ps],
            vertexQuads := vertexQuads arrays @ quads\<rparr>"

definition addSymbols ::
  "bucket \<Rightarrow> buffersRef \<Rightarrow> quad list \<Rightarrow> jsnum list option \<Rightarrow> real \<times> real \<Rightarrow> bool \<Rightarrow> feature
     \<Rightarrow> writingModeArg \<Rightarrow> anchor \<Rightarrow> nat \<Rightarrow> nat \<Rightarrow> bucket" where
  "addSymbols b arrays quads sizeData' lineOffset alongLine f wm labelAnchor lineStart lineLen =
     (let ps = \<lparr>ps_anchor = labelAnchor, ps_numQuads = length quads, ps_sizeData = sizeData',
                ps_offset = lineOffset, ps_alongLine = alongLine, ps_featureIndex = feature_index f,
                ps_writingMode = wm, ps_lineStartIndex = lineStart, ps_lineLength = lineLen\<rparr>;
          b' = (case arrays of
                  TextBuffers \<Rightarrow> b\<lparr>bucket_text := appendSymbols (bucket_text b) ps quads\<rparr>
                | IconBuffers \<Rightarrow> b\<lparr>bucket_icon := appendSymbols (bucket_icon b) ps quads\<rparr>)
      in b'\<lparr>glyphOffsetArray := glyphOffsetArray b' @ map (\<lambda>q. fst (glyphOffset q)) quads\<rparr>)"

text \<open>
  Modelled from the spec: the \<open>CollisionFeature\<close> constructor is not among the sources. It
  "produces one or more bounding boxes appended to the shared collision-box store and
  returns the resulting [startIndex, endIndex) range plus feature/bucket tags". The
  geometry of the boxes is the collaborator's (\<open>collisionRects\<close>).
\<close>

definition CollisionFeature ::
  "env \<Rightarrow> collisionBox list \<Rightarrow> collisionFeatureArgs \<Rightarrow> collisionFeature \<times> collisionBox list" where
  "CollisionFeature env boxes args =
     (let new = map (\<lambda>r. \<lparr>box_rect = r, box_featureIndex = cf_featureIndex args,
                           box_sourceLayerIndex = cf_sourceLayerIndex args,
                           box_bucketIndex = cf_bucketIndex args\<rparr>) (collisionRects env args)
      in (\<lparr>boxStartIndex = length boxes, boxEndIndex = length boxes + length new\<rparr>, boxes @ new))"

section \<open>symbol\_layout.js\<close>

subsection \<open>anchorIsTooClose\<close>

text \<open>
  \<open>bucket.compareText\<close> is created as \<open>{}\<close>, so \<open>text in compareText\<close> also holds for the
  property names that every object inherits from \<open>Object.prototype\<close>. For such a text the
  inherited value is a function or the prototype itself: the loop reads \<open>.x\<close> of an
  \<open>undefined\<close> element, or \<open>.push\<close> is not a function, and the call throws a TypeError.
\<close>

definition objectPrototypeKeys :: "string list" where
  "objectPrototypeKeys =
     [''constructor'', ''__defineGetter__'', ''__defineSetter__'', ''hasOwnProperty'',
      ''__lookupGetter__'', ''__lookupSetter__'', ''isPrototypeOf'', ''propertyIsEnumerable'',
      ''toString'', ''valueOf'', ''__proto__'', ''toLocaleString'']"

text \<open>The loop \<open>for (k = otherAnchors.length - 1; k >= 0; k--)\<close>, over the anchors from the last one to the first.\<close>

primrec withinRepeatDistance :: "anchor \<Rightarrow> jsnum \<Rightarrow> anchor list \<Rightarrow> bool" where
  "withinRepeatDistance anc repeatDistance [] = False"
| "withinRepeatDistance anc repeatDistance (other # others) =
     (if js_lt (Num (point_dist anc other)) repeatDistance then True
      else withinRepeatDistance anc repeatDistance others)"

definition anchorIsTooClose :: "bucket \<Rightarrow> string \<Rightarrow> jsnum \<Rightarrow> anchor \<Rightarrow> error + (bool \<times> bucket)" where
  "anchorIsTooClose b txt repeatDistance anc =
     (case compareText b txt of
        None \<Rightarrow>
          if txt \<in> set objectPrototypeKeys then Inl TypeError
          else Inr (False, b\<lparr>compareText := (compareText b)(txt \<mapsto> [] @ [anc])\<rparr>)
      | Some otherAnchors \<Rightarrow>
          if withinRepeatDistance anc repeatDistance (rev otherAnchors) then Inr (True, b)
          else Inr (False, b\<lparr>compareText := (compareText b)(txt \<mapsto> otherAnchors @ [anc])\<rparr>))"

subsection \<open>addTextVertices\<close>

text \<open>
  The packing of the text size (lines 290 to 308): the size data handed to \<open>addSymbols\<close>
  and the bucket after the warning, if there is one. Reading \<open>sizes.compositeTextSizes[0]\<close>
  throws when the driver has not set the composite sizes.
\<close>

definition packTextSize :: "bucket \<Rightarrow> layer \<Rightarrow> feature \<Rightarrow> sizes \<Rightarrow> error + (jsnum list option \<times> bucket)" where
  "packTextSize b lyr f szs =
     (let sizeData' = textSizeData b
      in if functionType sizeData' = Source then
           (let textSizeData' =
                  [js_mul (Num SIZE_PACK_FACTOR) (evaluate (text_size (layout lyr)) f)]
            in Inr (Some textSizeData',
                    if js_lt (Num MAX_PACKED_SIZE) (textSizeData' ! 0)
                    then warnOnce b (textSizeWarning b) else b))
         else if functionType sizeData' = Composite then
           (case compositeTextSizes szs of
              None \<Rightarrow> Inl TypeError
            | Some (size0, size1) \<Rightarrow>
                (let textSizeData' =
                       [js_mul (Num SIZE_PACK_FACTOR) (evaluate size0 f),
                        js_mul (Num SIZE_PACK_FACTOR) (evaluate size1 f)]
                 in Inr (Some textSizeData',
                         if js_lt (Num MAX_PACKED_SIZE) (textSizeData' ! 0)
                            \<or> js_lt (Num MAX_PACKED_SIZE) (textSizeData' ! 1)
                         then warnOnce b (textSizeWarning b) else b)))
         else Inr (None, b))"

definition addTextVertices ::
  "env \<Rightarrow> bucket \<Rightarrow> anchor \<Rightarrow> shaping \<Rightarrow> layer \<Rightarrow> bool \<Rightarrow> feature \<Rightarrow> real \<times> real \<Rightarrow> lineArray
     \<Rightarrow> writingMode \<Rightarrow> int list \<Rightarrow> glyphPositions \<Rightarrow> sizes \<Rightarrow> error + (nat \<times> int list \<times> bucket)" where
  "addTextVertices env b anc shapedText lyr textAlongLine f textOffset lineArr wm
       placedIndices glyphPositionMap szs =
     (let glyphQuads = getGlyphQuads env anc shapedText lyr textAlongLine f glyphPositionMap
      in case packTextSize b lyr f szs of
           Inl e \<Rightarrow> Inl e
         | Inr (textSizeData', b1) \<Rightarrow>
             (let b2 = addSymbols b1 TextBuffers glyphQuads textSizeData' textOffset textAlongLine f
                         (Mode wm) anc (lineStartIndex lineArr) (lineLength lineArr)
              in Inr (length glyphQuads * 4,
                      placedIndices @ [int (length (placedSymbolArray (bucket_text b2))) - 1],
                      b2)))"

subsection \<open>addSymbol\<close>

text \<open>
  The parameter \<open>collisionBoxArray\<close> of the source is \<open>bucket.collisionBoxArray\<close> at its
  only call, so the model has the one array of the bucket. The function is given in three
  parts: the text block, the icon block, and the whole with the symbol instance.
\<close>

text \<open>
  Lines 358 to 375: the text collision feature, the glyph vertex counts of the two
  orientations, the placed text symbol indices and the bucket.
\<close>

definition addSymbol_text ::
  "env \<Rightarrow> bucket \<Rightarrow> anchor \<Rightarrow> line \<Rightarrow> shapedTextOrientations \<Rightarrow> layer \<Rightarrow> nat \<Rightarrow> nat \<Rightarrow> nat
     \<Rightarrow> jsnum \<Rightarrow> jsnum \<Rightarrow> bool \<Rightarrow> real \<times> real \<Rightarrow> lineArray \<Rightarrow> feature \<Rightarrow> glyphPositions \<Rightarrow> sizes
     \<Rightarrow> error + (collisionFeature option \<times> nat \<times> nat \<times> int list \<times> bucket)" where
  "addSymbol_text env b anc lin shapedText lyr featureIndex' sourceLayerIndex' bucketIndex'
       textBoxScale textPadding textAlongLine textOffset lineArr f glyphPositionMap szs =
     (case horizontal shapedText of
        None \<Rightarrow> Inr (None, 0, 0, [], b)
      | Some h \<Rightarrow>
          (let textRotate = evaluate (text_rotate (layout lyr)) f;
               (textCollisionFeature, boxes) =
                  CollisionFeature env (collisionBoxArray b)
                    \<lparr>cf_line = lin, cf_anchor = anc, cf_featureIndex = featureIndex',
                     cf_sourceLayerIndex = sourceLayerIndex', cf_bucketIndex = bucketIndex',
                     cf_shaped = ShapedText h, cf_boxScale = textBoxScale,
                     cf_padding = textPadding, cf_alignLine = textAlongLine,
                     cf_overscaling = overscaling b, cf_rotate = textRotate\<rparr>;
               b1 = b\<lparr>collisionBoxArray := boxes\<rparr>
           in case addTextVertices env b1 anc h lyr textAlongLine f textOffset lineArr
                     (if vertical shapedText \<noteq> None then WM_horizontal else WM_horizontalOnly)
                     [] glyphPositionMap szs of
                Inl e \<Rightarrow> Inl e
              | Inr (n, indices, b2) \<Rightarrow>
                  (case vertical shapedText of
                     None \<Rightarrow> Inr (Some textCollisionFeature, 0 + n, 0, indices, b2)
                   | Some v \<Rightarrow>
                       (case addTextVertices env b2 anc v lyr textAlongLine f textOffset
                               lineArr WM_vertical indices glyphPositionMap szs of
                          Inl e \<Rightarrow> Inl e
                        | Inr (nv, indices', b3) \<Rightarrow>
                            Inr (Some textCollisionFeature, 0 + n, 0 + nv, indices', b3)))))"

text \<open>The packing of the icon size (lines 389 to 407).\<close>

definition packIconSize :: "bucket \<Rightarrow> layer \<Rightarrow> feature \<Rightarrow> sizes \<Rightarrow> error + (jsnum list option \<times> bucket)" where
  "packIconSize b lyr f szs =
     (let sizeData' = iconSizeData b
      in if functionType sizeData' = Source then
           (let iconSizeData' =
                  [js_mul (Num SIZE_PACK_FACTOR) (evaluate (icon_size (layout lyr)) f)]
            in Inr (Some iconSizeData',
                    if js_lt (Num MAX_PACKED_SIZE) (iconSizeData' ! 0)
                    then warnOnce b (iconSizeWarning b) else b))
         else if functionType sizeData' = Composite then
           (case compositeIconSizes szs of
              None \<Rightarrow> Inl TypeError
            | Some (size0, size1) \<Rightarrow>
                (let iconSizeData' =
                       [js_mul (Num SIZE_PACK_FACTOR) (evaluate size0 f),
                        js_mul (Num SIZE_PACK_FACTOR) (evaluate size1 f)]
                 in Inr (Some iconSizeData',
                         if js_lt (Num MAX_PACKED_SIZE) (iconSizeData' ! 0)
                            \<or> js_lt (Num MAX_PACKED_SIZE) (iconSizeData' ! 1)
                         then warnOnce b (iconSizeWarning b) else b)))
         else Inr (None, b))"

text \<open>Lines 380 to 420: the icon collision feature, the icon vertex count and the bucket.\<close>

definition addSymbol_icon ::
  "env \<Rightarrow> bucket \<Rightarrow> anchor \<Rightarrow> line \<Rightarrow> shapedTextOrientations \<Rightarrow> positionedIcon option \<Rightarrow> layer
     \<Rightarrow> nat \<Rightarrow> nat \<Rightarrow> nat \<Rightarrow> jsnum \<Rightarrow> jsnum \<Rightarrow> bool \<Rightarrow> real \<times> real \<Rightarrow> lineArray \<Rightarrow> feature \<Rightarrow> sizes
     \<Rightarrow> error + (collisionFeature option \<times> nat \<times> bucket)" where
  "addSymbol_icon env b anc lin shapedText shapedIcon lyr featureIndex' sourceLayerIndex'
       bucketIndex' iconBoxScale iconPadding iconAlongLine iconOffset lineArr f szs =
     (case shapedIcon of
        None \<Rightarrow> Inr (None, 0, b)
      | Some ic \<Rightarrow>
          (let iconQuads = getIconQuads env anc ic lyr iconAlongLine (horizontal shapedText) f;
               iconRotate = evaluate (icon_rotate (layout lyr)) f;
               (iconCollisionFeature, boxes) =
                  CollisionFeature env (collisionBoxArray b)
                    \<lparr>cf_line = lin, cf_anchor = anc, cf_featureIndex = featureIndex',
                     cf_sourceLayerIndex = sourceLayerIndex', cf_bucketIndex = bucketIndex',
                     cf_shaped = ShapedIcon ic, cf_boxScale = iconBoxScale,
                     cf_padding = iconPadding, cf_alignLine = False,
                     cf_overscaling = overscaling b, cf_rotate = iconRotate\<rparr>;
               b1 = b\<lparr>collisionBoxArray := boxes\<rparr>
           in case packIconSize b1 lyr f szs of
                Inl e \<Rightarrow> Inl e
              | Inr (iconSizeData', b2) \<Rightarrow>
                  Inr (Some iconCollisionFeature, length iconQuads * 4,
                       addSymbols b2 IconBuffers iconQuads iconSizeData' iconOffset
                         iconAlongLine f ModeFalse anc
                         (lineStartIndex lineArr) (lineLength lineArr))))"

definition addSymbol ::
  "env \<Rightarrow> bucket \<Rightarrow> anchor \<Rightarrow> line \<Rightarrow> shapedTextOrientations \<Rightarrow> positionedIcon option \<Rightarrow> layer
     \<Rightarrow> nat \<Rightarrow> nat \<Rightarrow> nat \<Rightarrow> jsnum \<Rightarrow> jsnum \<Rightarrow> bool \<Rightarrow> real \<times> real
     \<Rightarrow> jsnum \<Rightarrow> jsnum \<Rightarrow> bool \<Rightarrow> real \<times> real \<Rightarrow> feature \<Rightarrow> glyphPositions \<Rightarrow> sizes
     \<Rightarrow> error + (symbolInstance \<times> bucket)" where
  "addSymbol env b anc lin shapedText shapedIcon lyr featureIndex' sourceLayerIndex' bucketIndex'
       textBoxScale textPadding textAlongLine textOffset
       iconBoxScale iconPadding iconAlongLine iconOffset f glyphPositionMap szs =
     (let (lineArr, b0) = addToLineVertexArray env b anc lin;
          key' = murmur3 env (case horizontal shapedText of
                                Some h \<Rightarrow> shaping_text h | None \<Rightarrow> [])
      in case addSymbol_text env b0 anc lin shapedText lyr featureIndex' sourceLayerIndex'
                bucketIndex' textBoxScale textPadding textAlongLine textOffset lineArr f
                glyphPositionMap szs of
           Inl e \<Rightarrow> Inl e
         | Inr (textCollisionFeature, numGlyphVertices', numVerticalGlyphVertices', indices, bt) \<Rightarrow>
             (let textBoxStartIndex' =
                    (case textCollisionFeature of
                       Some c \<Rightarrow> boxStartIndex c | None \<Rightarrow> length (collisionBoxArray bt));
                  textBoxEndIndex' =
                    (case textCollisionFeature of
                       Some c \<Rightarrow> boxEndIndex c | None \<Rightarrow> length (collisionBoxArray bt))
              in case addSymbol_icon env bt anc lin shapedText shapedIcon lyr featureIndex'
                        sourceLayerIndex' bucketIndex' iconBoxScale iconPadding iconAlongLine
                        iconOffset lineArr f szs of
                   Inl e \<Rightarrow> Inl e
                 | Inr (iconCollisionFeature, numIconVertices', bi) \<Rightarrow>
                     (let iconBoxStartIndex' =
                            (case iconCollisionFeature of
                               Some c \<Rightarrow> boxStartIndex c | None \<Rightarrow> length (collisionBoxArray bi));
                          iconBoxEndIndex' =
                            (case iconCollisionFeature of
                               Some c \<Rightarrow> boxEndIndex c | None \<Rightarrow> length (collisionBoxArray bi));
                          bw = (if MAX_GLYPHS env \<le> length (glyphOffsetArray bi)
                                then warnOnce bi tooManyGlyphsWarning else bi)
                      in Inr (\<lparr>key = key',
                               textBoxStartIndex = textBoxStartIndex',
                               textBoxEndIndex = textBoxEndIndex',
                               iconBoxStartIndex = iconBoxStartIndex',
                               iconBoxEndIndex = iconBoxEndIndex',
                               anchor = anc,
                               featureIndex = featureIndex',
                               numGlyphVertices = numGlyphVertices',
                               numVerticalGlyphVertices = numVerticalGlyphVertices',
                               numIconVertices = numIconVertices',
                               placedTextSymbolIndices = indices,
                               crossTileID = 0\<rparr>, bw))))"

subsection \<open>addFeature\<close>

text \<open>The variables of \<open>addFeature\<close> that its closure \<open>addSymbolAtAnchor\<close> captures.\<close>

record closure =
  c_feature :: feature
  c_shapedTextOrientations :: shapedTextOrientations
  c_shapedIcon :: "positionedIcon option"
  c_glyphPositionMap :: glyphPositions
  c_sizes :: sizes
  c_textBoxScale :: jsnum
  c_textPadding :: jsnum
  c_textAlongLine :: bool
  c_textOffset :: "real \<times> real"
  c_iconBoxScale :: jsnum
  c_iconPadding :: jsnum
  c_iconAlongLine :: bool
  c_iconOffset :: "real \<times> real"

text \<open>
  \<open>addFeature\<close> has read \<open>bucket.layers[0].layout\<close> before it creates the closure, and the
  pass never changes \<open>bucket.layers\<close>; the empty case below is that same TypeError.
\<close>

definition addSymbolAtAnchor :: "env \<Rightarrow> closure \<Rightarrow> line \<Rightarrow> anchor \<Rightarrow> bucket \<Rightarrow> error + bucket" where
  "addSymbolAtAnchor env c lin anc b =
     (if point_x anc < 0 \<or> EXTENT env \<le> point_x anc \<or> point_y anc < 0 \<or> EXTENT env \<le> point_y anc
      then Inr b
      else case layers b of
             [] \<Rightarrow> Inl TypeError
           | layer0 # _ \<Rightarrow>
               (case addSymbol env b anc lin (c_shapedTextOrientations c) (c_shapedIcon c) layer0
                       (feature_index (c_feature c)) (sourceLayerIndex (c_feature c)) (bucket_index b)
                       (c_textBoxScale c) (c_textPadding c) (c_textAlongLine c) (c_textOffset c)
                       (c_iconBoxScale c) (c_iconPadding c) (c_iconAlongLine c) (c_iconOffset c)
                       (c_feature c) (c_glyphPositionMap c) (c_sizes c) of
                  Inl e \<Rightarrow> Inl e
                | Inr (instance, b') \<Rightarrow>
                    Inr (b'\<lparr>symbolInstances := symbolInstances b' @ [instance]\<rparr>)))"

text \<open>The \<open>textMaxSize\<close> of \<open>addFeature\<close>, with its fallback (lines 171 to 181).\<close>

definition addFeature_textMaxSize :: "sizes \<Rightarrow> feature \<Rightarrow> jsnum" where
  "addFeature_textMaxSize szs f =
     (let layoutTextSize' = evaluate (layoutTextSize szs) f;
          textMaxSize' = evaluate (textMaxSize szs) f
      in if textMaxSize' = Undefined then layoutTextSize' else textMaxSize')"

text \<open>The body of the loop over the anchors of one clipped line, under line placement.\<close>

definition addFeature_lineAnchor ::
  "env \<Rightarrow> closure \<Rightarrow> jsnum \<Rightarrow> line \<Rightarrow> anchor \<Rightarrow> bucket \<Rightarrow> error + bucket" where
  "addFeature_lineAnchor env c textRepeatDistance lin anc b =
     (case horizontal (c_shapedTextOrientations c) of
        None \<Rightarrow> addSymbolAtAnchor env c lin anc b
      | Some shapedText \<Rightarrow>
          (case anchorIsTooClose b (shaping_text shapedText) textRepeatDistance anc of
             Inl e \<Rightarrow> Inl e
           | Inr (tooClose, b') \<Rightarrow>
               if \<not> tooClose then addSymbolAtAnchor env c lin anc b' else Inr b'))"

definition addFeature ::
  "env \<Rightarrow> bucket \<Rightarrow> feature \<Rightarrow> shapedTextOrientations \<Rightarrow> positionedIcon option \<Rightarrow> glyphPositions
     \<Rightarrow> sizes \<Rightarrow> error + bucket" where
  "addFeature env b f shapedText shapedIcon glyphPositionMap szs =
     (let layoutTextSize' = evaluate (layoutTextSize szs) f;
          layoutIconSize' = evaluate (layoutIconSize szs) f;
          textMaxSize' = addFeature_textMaxSize szs f
      in case layers b of
           [] \<Rightarrow> Inl TypeError
         | layer0 # _ \<Rightarrow>
             (let lay = layout layer0;
                  textOffset = evaluate (text_offset lay) f;
                  iconOffset = evaluate (icon_offset lay) f;
                  glyphSize = 24;
                  fontScale = js_div layoutTextSize' (Num glyphSize);
                  textBoxScale = js_mul (tilePixelRatio b) fontScale;
                  textMaxBoxScale = js_div (js_mul (tilePixelRatio b) textMaxSize') (Num glyphSize);
                  iconBoxScale = js_mul (tilePixelRatio b) layoutIconSize';
                  symbolMinDistance = js_mul (tilePixelRatio b) (Num (symbol_spacing lay));
                  textPadding = js_mul (Num (text_padding lay)) (tilePixelRatio b);
                  iconPadding = js_mul (Num (icon_padding lay)) (tilePixelRatio b);
                  textMaxAngle = text_max_angle lay / 180 * pi;
                  textAlongLine = (text_rotation_alignment lay = AlignMap
                                     \<and> symbol_placement lay \<noteq> PlacementPoint);
                  iconAlongLine = (icon_rotation_alignment lay = AlignMap
                                     \<and> symbol_placement lay \<noteq> PlacementPoint);
                  symbolPlacement = symbol_placement lay;
                  textRepeatDistance = js_div symbolMinDistance (Num 2);
                  c = \<lparr>c_feature = f, c_shapedTextOrientations = shapedText,
                       c_shapedIcon = shapedIcon, c_glyphPositionMap = glyphPositionMap,
                       c_sizes = szs, c_textBoxScale = textBoxScale, c_textPadding = textPadding,
                       c_textAlongLine = textAlongLine, c_textOffset = textOffset,
                       c_iconBoxScale = iconBoxScale, c_iconPadding = iconPadding,
                       c_iconAlongLine = iconAlongLine, c_iconOffset = iconOffset\<rparr>
              in if symbolPlacement = PlacementLine then
                   forEach (\<lambda>lin.
                       forEach (addFeature_lineAnchor env c textRepeatDistance lin)
                         (getAnchors env lin symbolMinDistance textMaxAngle
                            (or_else (vertical shapedText) (horizontal shapedText)) shapedIcon
                            glyphSize textMaxBoxScale (overscaling b) (EXTENT env)))
                     (clipLine env (geometry f) 0 0 (EXTENT env) (EXTENT env)) b
                 else if symbolPlacement = PlacementLineCenter then
                   forEach (\<lambda>lin b'.
                       if 1 < length lin then
                         (case getCenterAnchor env lin textMaxAngle
                                 (or_else (vertical shapedText) (horizontal shapedText)) shapedIcon
                                 glyphSize textMaxBoxScale of
                            Some anc \<Rightarrow> addSymbolAtAnchor env c lin anc b'
                          | None \<Rightarrow> Inr b')
                       else Inr b')
                     (geometry f) b
                 else if feature_type f = Polygon then
                   forEach (\<lambda>polygon.
                       (let poi = findPoleOfInaccessibility env polygon 16
                        in addSymbolAtAnchor env c (fst polygon)
                             (Anchor (point_x poi) (point_y poi) 0)))
                     (classifyRings env (geometry f) 0) b
                 else if feature_type f = LineString then
                   forEach (\<lambda>lin b'.
                       case lin of
                         [] \<Rightarrow> Inl TypeError
                       | p0 # _ \<Rightarrow> addSymbolAtAnchor env c lin (Anchor (point_x p0) (point_y p0) 0) b')
                     (geometry f) b
                 else if feature_type f = Point then
                   forEach (\<lambda>points.
                       forEach (\<lambda>p. addSymbolAtAnchor env c [p] (Anchor (point_x p) (point_y p) 0))
                         points)
                     (geometry f) b
                 else Inr b))"

subsection \<open>performSymbolLayout\<close>

text \<open>\<open>Array.prototype.join(',')\<close> on the font names.\<close>

fun join_comma :: "string list \<Rightarrow> string" where
  "join_comma [] = []"
| "join_comma [s] = s"
| "join_comma (s # t # ss) = s @ '','' @ join_comma (t # ss)"

text \<open>The sizes of the pass (lines 75 to 95).\<close>

definition performSymbolLayout_sizes :: "bucket \<Rightarrow> unevaluatedLayout \<Rightarrow> sizes" where
  "performSymbolLayout_sizes b unevaluatedLayoutValues =
     \<lparr>layoutTextSize = unevaluated_text_size unevaluatedLayoutValues (zoom b + 1),
      layoutIconSize = unevaluated_icon_size unevaluatedLayoutValues (zoom b + 1),
      textMaxSize = unevaluated_text_size unevaluatedLayoutValues 18,
      compositeTextSizes =
        (if functionType (textSizeData b) = Composite then
           Some (unevaluated_text_size unevaluatedLayoutValues (zoomRange_min (textSizeData b)),
                 unevaluated_text_size unevaluatedLayoutValues (zoomRange_max (textSizeData b)))
         else None),
      compositeIconSizes =
        (if functionType (iconSizeData b) = Composite then
           Some (unevaluated_icon_size unevaluatedLayoutValues (zoomRange_min (iconSizeData b)),
                 unevaluated_icon_size unevaluatedLayoutValues (zoomRange_max (iconSizeData b)))
         else None)\<rparr>"

text \<open>
  The shaping of one feature's text (lines 97 to 124): \<open>shapedTextOrientations\<close> after the
  \<open>if (text)\<close> block. A text that is absent or empty is falsy and nothing is shaped.
\<close>

definition shapeFeatureText :: "env \<Rightarrow> layoutProperties \<Rightarrow> glyphMap \<Rightarrow> feature \<Rightarrow> shapedTextOrientations" where
  "shapeFeatureText env lay glyphMap' f =
     (let oneEm = 24;
          lineHeight = text_line_height lay * oneEm;
          textAlongLine = (text_rotation_alignment lay = AlignMap
                             \<and> symbol_placement lay \<noteq> PlacementPoint);
          keepUpright = text_keep_upright lay;
          fontstack = join_comma (evaluate (text_font lay) f)
      in case feature_text f of
           None \<Rightarrow> \<lparr>horizontal = None, vertical = None\<rparr>
         | Some txt \<Rightarrow>
             if \<not> text_truthy (Some txt) then \<lparr>horizontal = None, vertical = None\<rparr>
             else
               (let unformattedText = (case txt of
                                         FormattedText t \<Rightarrow> formatted_toString t
                                       | PlainText s \<Rightarrow> s);
                    textOffset = (fst (evaluate (text_offset lay) f) * oneEm,
                                  snd (evaluate (text_offset lay) f) * oneEm);
                    spacing = evaluate (text_letter_spacing lay) f * oneEm;
                    spacingIfAllowed = (if allowsLetterSpacing env unformattedText then spacing else 0);
                    textAnchor = evaluate (text_anchor lay) f;
                    textJustify = evaluate (text_justify lay) f;
                    maxWidth = (if symbol_placement lay = PlacementPoint
                                then evaluate (text_max_width lay) f * oneEm else 0)
                in \<lparr>horizontal =
                       shapeText env txt glyphMap' fontstack maxWidth lineHeight textAnchor
                         textJustify spacingIfAllowed textOffset oneEm WM_horizontal,
                     vertical =
                       (if allowsVerticalWritingMode env unformattedText \<and> textAlongLine
                           \<and> keepUpright
                        then shapeText env txt glyphMap' fontstack maxWidth lineHeight textAnchor
                               textJustify spacingIfAllowed textOffset oneEm WM_vertical
                        else None)\<rparr>))"

text \<open>The icon of one feature and the two flags of the bucket (lines 126 to 145).\<close>

definition shapeFeatureIcon ::
  "env \<Rightarrow> layoutProperties \<Rightarrow> imageMap \<Rightarrow> imagePositions \<Rightarrow> feature \<Rightarrow> bucket
     \<Rightarrow> positionedIcon option \<times> bucket" where
  "shapeFeatureIcon env lay imageMap' imagePositions' f b =
     (case feature_icon f of
        None \<Rightarrow> (None, b)
      | Some ic \<Rightarrow>
          if \<not> icon_truthy (Some ic) then (None, b)
          else case imageMap' ic of
                 None \<Rightarrow> (None, b)
               | Some img \<Rightarrow>
                   (let shapedIcon = shapeIcon env (imagePositions' ic)
                                       (evaluate (icon_offset lay) f) (evaluate (icon_anchor lay) f);
                        b1 = (case sdfIcons b of
                                None \<Rightarrow> b\<lparr>sdfIcons := Some (sdf img)\<rparr>
                              | Some s \<Rightarrow> if s \<noteq> sdf img then warnOnce b mixedSdfWarning else b);
                        b2 = (if image_pixelRatio img \<noteq> pixelRatio b1
                              then b1\<lparr>iconsNeedLinear := True\<rparr>
                              else if constantOr (icon_rotate lay) 1 \<noteq> 0
                              then b1\<lparr>iconsNeedLinear := True\<rparr>
                              else b1)
                    in (Some shapedIcon, b2)))"

text \<open>The body of the loop over \<open>bucket.features\<close>.\<close>

definition performSymbolLayout_feature ::
  "env \<Rightarrow> layoutProperties \<Rightarrow> sizes \<Rightarrow> glyphMap \<Rightarrow> glyphPositions \<Rightarrow> imageMap \<Rightarrow> imagePositions
     \<Rightarrow> feature \<Rightarrow> bucket \<Rightarrow> error + bucket" where
  "performSymbolLayout_feature env lay szs glyphMap' glyphPositions' imageMap' imagePositions' f b =
     (let shapedText = shapeFeatureText env lay glyphMap' f;
          (shapedIcon, b1) = shapeFeatureIcon env lay imageMap' imagePositions' f b
      in if horizontal shapedText \<noteq> None \<or> shapedIcon \<noteq> None
         then addFeature env b1 f shapedText shapedIcon glyphPositions' szs
         else Inr b1)"

definition performSymbolLayout ::
  "env \<Rightarrow> bucket \<Rightarrow> glyphMap \<Rightarrow> glyphPositions \<Rightarrow> imageMap \<Rightarrow> imagePositions \<Rightarrow> bool
     \<Rightarrow> error + bucket" where
  "performSymbolLayout env b glyphMap' glyphPositions' imageMap' imagePositions' showCollisionBoxes =
     (let b1 = (createArrays b)\<lparr>symbolInstances := []\<rparr>;
          tileSize = 512 * overscaling b1;
          b2 = b1\<lparr>tilePixelRatio := js_div (Num (EXTENT env)) (Num tileSize),
                  compareText := Map.empty,
                  iconsNeedLinear := False\<rparr>
      in case layers b2 of
           [] \<Rightarrow> Inl TypeError
         | layer0 # _ \<Rightarrow>
             (let lay = layout layer0;
                  szs = performSymbolLayout_sizes b2 (unevaluated layer0)
              in case forEach (performSymbolLayout_feature env lay szs glyphMap' glyphPositions'
                                 imageMap' imagePositions') (features b2) b2 of
                   Inl e \<Rightarrow> Inl e
                 | Inr b3 \<Rightarrow>
                     Inr (if showCollisionBoxes then generateCollisionDebugBuffers b3 else b3)))"

section \<open>The collision debug renderer (drawCollisionDebug)\<close>

type_synonym mat4 = "real list"

datatype tileID = OverscaledTileID nat nat nat

datatype translateAnchor = TranslateMap | TranslateViewport

text \<open>The debug buffers of a bucket are GPU handles; the renderer only passes them on.\<close>

record collisionBuffers =
  layoutVertexBuffer :: nat
  indexBuffer :: nat
  segments :: nat
  collisionVertexBuffer :: nat
  collisionVertexBufferExt :: nat

text \<open>The fields of \<open>SymbolBucket\<close> that the renderer reads.\<close>

record renderBucket =
  textCollisionBox :: "collisionBuffers option"
  iconCollisionBox :: "collisionBuffers option"
  collisionCircleArray :: "real list"
  placementInvProjMatrix :: mat4
  placementViewportMatrix :: mat4
  getProjection :: string

text \<open>A tile, with the result of \<open>tile.getBucket(layer)\<close>.\<close>

record tile =
  tile_id :: tileID
  getBucket :: "renderBucket option"

record tileBatch =
  circleArray :: "real list"
  circleOffset :: real
  transform :: mat4
  invTransform :: mat4
  projection :: string

text \<open>
  Modelled from the spec: \<open>CollisionCircleLayoutArray\<close> is not among the sources. One
  element is one vertex of the "combined frame-global vertex buffer": the four values of
  its circle and the corner of the quad. \<open>resize\<close> gives that many zeroed elements and
  \<open>emplace\<close> overwrites the element at an index inside the array.
\<close>

record circleVertex =
  cv_x :: jsnum
  cv_y :: jsnum
  cv_radius :: jsnum
  cv_collision :: jsnum
  cv_corner :: nat

definition zeroVertex :: circleVertex where
  "zeroVertex = \<lparr>cv_x = Num 0, cv_y = Num 0, cv_radius = Num 0, cv_collision = Num 0, cv_corner = 0\<rparr>"

definition resize_vertexData :: "nat \<Rightarrow> circleVertex list" where
  "resize_vertexData n = replicate n zeroVertex"

definition emplace :: "circleVertex list \<Rightarrow> nat \<Rightarrow> jsnum \<Rightarrow> jsnum \<Rightarrow> jsnum \<Rightarrow> jsnum \<Rightarrow> nat \<Rightarrow> circleVertex list" where
  "emplace vertexData i v0 v1 v2 v3 v4 =
     (if i < length vertexData
      then vertexData[i := \<lparr>cv_x = v0, cv_y = v1, cv_radius = v2, cv_collision = v3, cv_corner = v4\<rparr>]
      else vertexData)"

text \<open>Reading \<open>array[i]\<close> of an \<open>Array<number>\<close>: \<open>undefined\<close> beyond its length.\<close>

definition js_index :: "real list \<Rightarrow> nat \<Rightarrow> jsnum" where
  "js_index xs i = (if i < length xs then Num (xs ! i) else Undefined)"

text \<open>
  Modelled from the spec: \<open>QuadTriangleArray\<close> is not among the sources. The model keeps
  the \<open>length\<close> that \<open>resize\<close> sets (a JavaScript number) and the stores that
  \<open>createQuadTriangles\<close> makes into the \<open>uint32\<close> view, as pairs of index and value in the
  order of the stores.
\<close>

record quadTriangleArray =
  qt_length :: real
  qt_uint32 :: "(nat \<times> 32 word) list"

record segment =
  vertexOffset :: real
  primitiveOffset :: real
  vertexLength :: real
  primitiveLength :: real

definition simpleSegment :: "real \<Rightarrow> real \<Rightarrow> real \<Rightarrow> real \<Rightarrow> segment" where
  "simpleSegment vo po vl pl =
     \<lparr>vertexOffset = vo, primitiveOffset = po, vertexLength = vl, primitiveLength = pl\<rparr>"

text \<open>The calls that reach the painter, the programs and the GL context, in order.\<close>

datatype glCall =
    GetOrCreateProgram string
  | SetupElevationDraw tileID
  | DrawLines tileID mat4 string collisionBuffers
  | CreateIndexBuffer quadTriangleArray
  | CreateVertexBuffer "circleVertex list"
  | DrawTriangles mat4 mat4 string segment
  | DestroyVertexBuffer
  | DestroyIndexBuffer

text \<open>The module variable \<open>quadTriangles\<close> and the calls issued so far.\<close>

record drawState =
  quadTriangles :: "quadTriangleArray option"
  gl_calls :: "glCall list"

text \<open>The painter, its transform and the imported matrix functions.\<close>

record painter =
  terrain :: bool
  glCoordMatrix :: mat4
  getCollisionDebugTileProjectionMatrix :: "tileID \<Rightarrow> renderBucket \<Rightarrow> mat4"
  translatePosMatrix :: "mat4 \<Rightarrow> tile \<Rightarrow> real \<times> real \<Rightarrow> translateAnchor \<Rightarrow> mat4"
  mat4_mul :: "mat4 \<Rightarrow> mat4 \<Rightarrow> mat4"

subsection \<open>createQuadTriangles\<close>

function quadTrianglesLoop :: "nat \<Rightarrow> real \<Rightarrow> (nat \<times> 32 word) list \<Rightarrow> (nat \<times> 32 word) list" where
  "quadTrianglesLoop i triCount stores =
     (if real i < triCount then
        (let idx = i * 6
         in quadTrianglesLoop (Suc i) triCount
              (stores @ [(idx + 0, of_nat (i * 4 + 0)), (idx + 1, of_nat (i * 4 + 1)),
                         (idx + 2, of_nat (i * 4 + 2)), (idx + 3, of_nat (i * 4 + 2)),
                         (idx + 4, of_nat (i * 4 + 3)), (idx + 5, of_nat (i * 4 + 0))]))
      else stores)"
  by pat_completeness auto
termination
  by (relation "measure (\<lambda>(i, triCount, stores). nat \<lceil>triCount\<rceil> - i)") (auto, linarith)

definition createQuadTriangles :: "real \<Rightarrow> quadTriangleArray" where
  "createQuadTriangles quadCount =
     (let triCount = quadCount * 2
      in \<lparr>qt_length = triCount, qt_uint32 = quadTrianglesLoop 0 triCount []\<rparr>)"

subsection \<open>drawCollisionDebug\<close>

text \<open>The state of the loop over \<open>coords\<close>.\<close>

record coordsState =
  tileBatches :: "tileBatch list"
  circleCount :: real
  circleOffset' :: real
  calls :: "glCall list"

definition coordsLoop_body ::
  "painter \<Rightarrow> (tileID \<Rightarrow> tile) \<Rightarrow> real \<times> real \<Rightarrow> translateAnchor \<Rightarrow> bool \<Rightarrow> tileID
     \<Rightarrow> coordsState \<Rightarrow> coordsState" where
  "coordsLoop_body p getTile translate anchor' isText coord st =
     (let tile' = getTile coord
      in case getBucket tile' of
           None \<Rightarrow> st
         | Some bucket' \<Rightarrow>
             (let tileMatrix = getCollisionDebugTileProjectionMatrix p coord bucket';
                  posMatrix = (if fst translate \<noteq> 0 \<or> snd translate \<noteq> 0
                               then translatePosMatrix p tileMatrix tile' translate anchor'
                               else tileMatrix);
                  buffers = (if isText then textCollisionBox bucket' else iconCollisionBox bucket');
                  circleArray' = collisionCircleArray bucket';
                  st1 = (if 0 < length circleArray' then
                           (let invTransform' =
                                  mat4_mul p (mat4_mul p (placementInvProjMatrix bucket') (glCoordMatrix p))
                                    (placementViewportMatrix bucket');
                                circleCount' = circleCount st + real (length circleArray') / 4
                            in st\<lparr>tileBatches := tileBatches st @
                                     [\<lparr>circleArray = circleArray', circleOffset = circleOffset' st,
                                       transform = posMatrix, invTransform = invTransform',
                                       projection = getProjection bucket'\<rparr>],
                                   circleCount := circleCount',
                                   circleOffset' := circleCount'\<rparr>)
                         else st)
              in case buffers of
                   None \<Rightarrow> st1
                 | Some bufs \<Rightarrow>
                     (let st2 = (if terrain p
                                 then st1\<lparr>calls := calls st1 @ [SetupElevationDraw (tile_id tile')]\<rparr>
                                 else st1)
                      in st2\<lparr>calls := calls st2 @
                                [DrawLines coord posMatrix (getProjection bucket') bufs]\<rparr>)))"

text \<open>The loop \<open>for (let i = 0; i < batch.circleArray.length / 4; i++)\<close> with the running \<open>vertexOffset\<close>.\<close>

function circlesLoop :: "nat \<Rightarrow> real list \<Rightarrow> circleVertex list \<times> nat \<Rightarrow> circleVertex list \<times> nat" where
  "circlesLoop i arr (vertexData, vertexOffset') =
     (if real i < real (length arr) / 4 then
        (let circleIdx = i * 4;
             x = js_index arr (circleIdx + 0);
             y = js_index arr (circleIdx + 1);
             radius = js_index arr (circleIdx + 2);
             collision = js_index arr (circleIdx + 3);
             vd0 = emplace vertexData vertexOffset' x y radius collision 0;
             vd1 = emplace vd0 (vertexOffset' + 1) x y radius collision 1;
             vd2 = emplace vd1 (vertexOffset' + 2) x y radius collision 2;
             vd3 = emplace vd2 (vertexOffset' + 3) x y radius collision 3
         in circlesLoop (Suc i) arr (vd3, vertexOffset' + 4))
      else (vertexData, vertexOffset'))"
  by pat_completeness auto
termination
  by (relation "measure (\<lambda>(i, arr, st). length arr - 4 * i)") auto

definition drawCollisionDebug ::
  "painter \<Rightarrow> (tileID \<Rightarrow> tile) \<Rightarrow> tileID list \<Rightarrow> real \<times> real \<Rightarrow> translateAnchor \<Rightarrow> bool
     \<Rightarrow> drawState \<Rightarrow> drawState" where
  "drawCollisionDebug p getTile coords translate anchor' isText s =
     (let st = fold (coordsLoop_body p getTile translate anchor' isText) coords
                 \<lparr>tileBatches = [], circleCount = 0, circleOffset' = 0,
                  calls = gl_calls s @ [GetOrCreateProgram ''collisionBox'']\<rparr>
      in if \<not> isText \<or> length (tileBatches st) = 0 then s\<lparr>gl_calls := calls st\<rparr>
         else
           (let calls1 = calls st @ [GetOrCreateProgram ''collisionCircle''];
                vertexData0 = resize_vertexData (nat \<lfloor>circleCount st * 4\<rfloor>);
                (vertexData, vertexOffset') =
                   fold (\<lambda>batch. circlesLoop 0 (circleArray batch)) (tileBatches st) (vertexData0, 0);
                quadTriangles' =
                   (case quadTriangles s of
                      None \<Rightarrow> createQuadTriangles (circleCount st)
                    | Some q \<Rightarrow> if qt_length q < circleCount st * 2
                                then createQuadTriangles (circleCount st) else q);
                calls2 = calls1 @ [CreateIndexBuffer quadTriangles', CreateVertexBuffer vertexData];
                calls3 = calls2 @
                   map (\<lambda>batch. DrawTriangles (transform batch) (invTransform batch) (projection batch)
                                  (simpleSegment 0 (circleOffset batch * 2)
                                     (real (length (circleArray batch)))
                                     (real (length (circleArray batch)) / 2)))
                       (tileBatches st)
            in \<lparr>quadTriangles = Some quadTriangles',
                gl_calls = calls3 @ [DestroyVertexBuffer, DestroyIndexBuffer]\<rparr>))"

section \<open>A concrete tile for the examples\<close>

text \<open>
  Simple collaborators: the shaper keeps the text, there is one glyph quad for each
  character, one collision rectangle for each label, and line placement proposes an
  anchor at every vertex of the line.
\<close>

definition example_unformatted :: "ftext \<Rightarrow> string" where
  "example_unformatted t = (case t of FormattedText u \<Rightarrow> formatted_toString u | PlainText s \<Rightarrow> s)"

definition example_env :: env where
  "example_env =
     \<lparr>EXTENT = 8192,
      MAX_GLYPHS = 65535,
      murmur3 = length,
      allowsVerticalWritingMode = (\<lambda>s. s = ''CJK''),
      allowsLetterSpacing = (\<lambda>s. True),
      shapeText = (\<lambda>t gm fontstack maxWidth lineHeight ta tj spacing off oneEm wm.
                     Some \<lparr>shaping_text = example_unformatted t, shaping_bounds = (0, 0, 0, 0)\<rparr>),
      shapeIcon = (\<lambda>pos off an. \<lparr>icon_image = ''marker'', icon_bounds = (0, 0, 0, 0)\<rparr>),
      getGlyphQuads = (\<lambda>anc sh lyr along f gp. map (\<lambda>c. \<lparr>glyphOffset = (0, 0)\<rparr>) (shaping_text sh)),
      getIconQuads = (\<lambda>anc ic lyr along sh f. [\<lparr>glyphOffset = (0, 0)\<rparr>]),
      collisionRects = (\<lambda>args. [(0, 0, 1, 1)]),
      lineVertices = (\<lambda>anc lin. []),
      clipLine = (\<lambda>g x1 y1 x2 y2. g),
      getAnchors = (\<lambda>lin d maxAngle sh ic glyphSize scale ov ext.
                      map (\<lambda>p. Anchor (point_x p) (point_y p) 0) lin),
      getCenterAnchor = (\<lambda>lin maxAngle sh ic glyphSize scale.
                           case lin of [] \<Rightarrow> None | p # _ \<Rightarrow> Some (Anchor (point_x p) (point_y p) 0)),
      classifyRings = (\<lambda>g n. case g of [] \<Rightarrow> [] | r # rs \<Rightarrow> [(r, rs)]),
      findPoleOfInaccessibility =
        (\<lambda>polygon precision. case fst polygon of
                                [] \<Rightarrow> \<lparr>point_x = 0, point_y = 0\<rparr> | p # _ \<Rightarrow> p)\<rparr>"

text \<open>The text size of the example layer is data-driven: it is the feature's index.\<close>

definition example_layout :: "placement \<Rightarrow> layoutProperties" where
  "example_layout pl =
     \<lparr>symbol_placement = pl,
      symbol_spacing = 250,
      text_rotation_alignment = AlignMap,
      icon_rotation_alignment = AlignMap,
      text_keep_upright = True,
      text_line_height = 1.2,
      text_padding = 2,
      icon_padding = 2,
      text_max_angle = 45,
      text_font = ConstantValue [''Open Sans Regular'', ''Arial Unicode MS Regular''],
      text_offset = ConstantValue (0, 0),
      text_letter_spacing = ConstantValue 0,
      text_anchor = ConstantValue ''center'',
      text_justify = ConstantValue ''center'',
      text_max_width = ConstantValue 10,
      text_rotate = ConstantValue 0,
      text_size = FeatureValue (\<lambda>f. Num (real (feature_index f) / 10)),
      icon_offset = ConstantValue (0, 0),
      icon_anchor = ConstantValue ''center'',
      icon_rotate = ConstantValue 0,
      icon_size = ConstantValue (Num 1)\<rparr>"

text \<open>
  Its unevaluated text size has no value at zoom 18 for the features with an odd index,
  and is 16 for the others; below zoom 18 it is 12.
\<close>

definition example_layer :: "placement \<Rightarrow> layer" where
  "example_layer pl =
     \<lparr>layout = example_layout pl,
      unevaluated =
        \<lparr>unevaluated_text_size =
           (\<lambda>z. if z = 18 then FeatureValue (\<lambda>f. if odd (feature_index f) then Undefined else Num 16)
                else ConstantValue (Num 12)),
         unevaluated_icon_size = (\<lambda>z. ConstantValue (Num 1))\<rparr>\<rparr>"

definition example_bucket :: "placement \<Rightarrow> sizeData \<Rightarrow> feature list \<Rightarrow> bucket" where
  "example_bucket pl sd fs =
     \<lparr>features = fs,
      layers = [example_layer pl],
      layerIds = [''poi-label''],
      overscaling = 1,
      zoom = 10,
      pixelRatio = 1,
      bucket_index = 0,
      textSizeData = sd,
      iconSizeData = ConstantSize,
      collisionBoxArray = [],
      sdfIcons = None,
      symbolInstances = [],
      tilePixelRatio = Num 16,
      compareText = Map.empty,
      iconsNeedLinear = False,
      bucket_text = \<lparr>placedSymbolArray = [], vertexQuads = []\<rparr>,
      bucket_icon = \<lparr>placedSymbolArray = [], vertexQuads = []\<rparr>,
      glyphOffsetArray = [],
      lineVertexArray = [],
      collisionDebugBuffers = False,
      warnOnce_calls = []\<rparr>"

definition example_feature :: "nat \<Rightarrow> ftext option \<Rightarrow> string option \<Rightarrow> featureType \<Rightarrow> line list \<Rightarrow> feature" where
  "example_feature i t ic ty g =
     \<lparr>feature_text = t, feature_icon = ic, feature_index = i, sourceLayerIndex = 0,
      geometry = g, feature_type = ty\<rparr>"

definition example_sizes :: "placement \<Rightarrow> sizeData \<Rightarrow> sizes" where
  "example_sizes pl sd =
     performSymbolLayout_sizes (example_bucket pl sd []) (unevaluated (example_layer pl))"

definition example_shaping :: "string \<Rightarrow> shaping" where
  "example_shaping s = \<lparr>shaping_text = s, shaping_bounds = (0, 0, 0, 0)\<rparr>"

definition example_icon :: positionedIcon where
  "example_icon = \<lparr>icon_image = ''marker'', icon_bounds = (0, 0, 0, 0)\<rparr>"

definition example_closure :: "feature \<Rightarrow> shapedTextOrientations \<Rightarrow> positionedIcon option \<Rightarrow> closure" where
  "example_closure f st ic =
     \<lparr>c_feature = f, c_shapedTextOrientations = st, c_shapedIcon = ic,
      c_glyphPositionMap = Map.empty, c_sizes = example_sizes PlacementPoint ConstantSize,
      c_textBoxScale = Num 8, c_textPadding = Num 32, c_textAlongLine = False,
      c_textOffset = (0, 0), c_iconBoxScale = Num 16, c_iconPadding = Num 32,
      c_iconAlongLine = False, c_iconOffset = (0, 0)\<rparr>"

definition example_points :: "line list" where
  "example_points =
     [[\<lparr>point_x = 10, point_y = 10\<rparr>, \<lparr>point_x = 9000, point_y = 10\<rparr>],
      [\<lparr>point_x = 20, point_y = 20\<rparr>]]"

text \<open>
  Two features with the text LAKE along the line \<open>y = 100\<close>; with the example bucket the
  repeat distance is \<open>16 * 250 / 2 = 2000\<close>.
\<close>

definition example_lakes :: "feature list" where
  "example_lakes =
     [example_feature 1 (Some (PlainText ''LAKE'')) None LineString
        [[\<lparr>point_x = 100, point_y = 100\<rparr>, \<lparr>point_x = 110, point_y = 100\<rparr>,
          \<lparr>point_x = 4100, point_y = 100\<rparr>]],
      example_feature 2 (Some (PlainText ''LAKE'')) None LineString
        [[\<lparr>point_x = 105, point_y = 100\<rparr>, \<lparr>point_x = 8000, point_y = 100\<rparr>]]]"

text \<open>
  A town with a label and a marker icon at two points, and the image map with the marker.
\<close>

definition example_images :: imageMap where
  "example_images = [''marker'' \<mapsto> \<lparr>sdf = True, image_pixelRatio = 1\<rparr>]"

definition example_towns :: "feature list" where
  "example_towns =
     [example_feature 1 (Some (PlainText ''TOWN'')) (Some ''marker'') Point
        [[\<lparr>point_x = 10, point_y = 10\<rparr>, \<lparr>point_x = 20, point_y = 20\<rparr>]]]"


section \<open>Predicates used to state the properties\<close>

text \<open>
  Two buckets agree on what the driver sets up for the pass, and on the labels made so
  far: the layout functions below the driver change neither.
\<close>

definition sameSetup :: "bucket \<Rightarrow> bucket \<Rightarrow> bool" where
  "sameSetup b b' \<longleftrightarrow>
     layers b' = layers b \<and> layerIds b' = layerIds b \<and> overscaling b' = overscaling b
     \<and> bucket_index b' = bucket_index b \<and> textSizeData b' = textSizeData b
     \<and> iconSizeData b' = iconSizeData b \<and> tilePixelRatio b' = tilePixelRatio b
     \<and> features b' = features b \<and> zoom b' = zoom b \<and> pixelRatio b' = pixelRatio b"

definition sameLabels :: "bucket \<Rightarrow> bucket \<Rightarrow> bool" where
  "sameLabels b b' \<longleftrightarrow>
     sameSetup b b' \<and> symbolInstances b' = symbolInstances b \<and> compareText b' = compareText b
     \<and> sdfIcons b' = sdfIcons b \<and> iconsNeedLinear b' = iconsNeedLinear b"

definition insideTile :: "env \<Rightarrow> anchor \<Rightarrow> bool" where
  "insideTile env anc \<longleftrightarrow>
     0 \<le> point_x anc \<and> point_x anc < EXTENT env \<and> 0 \<le> point_y anc \<and> point_y anc < EXTENT env"

definition growsInside :: "env \<Rightarrow> bucket \<Rightarrow> bucket \<Rightarrow> bool" where
  "growsInside env b b' \<longleftrightarrow>
     (\<exists>new. symbolInstances b' = symbolInstances b @ new
            \<and> (\<forall>i \<in> set new. insideTile env (anchor i)))"

text \<open>
  An anchor is within the repeat distance of another one: the test of \<open>anchorIsTooClose\<close>.
\<close>

definition tooClose :: "jsnum \<Rightarrow> anchor \<Rightarrow> anchor \<Rightarrow> bool" where
  "tooClose d a other \<longleftrightarrow> js_lt (Num (point_dist a other)) d"

text \<open>The anchors that \<open>bucket.compareText\<close> holds for a text, none when the text is not a key.\<close>

definition recorded :: "bucket \<Rightarrow> string \<Rightarrow> anchor list" where
  "recorded b txt = (case compareText b txt of None \<Rightarrow> [] | Some as \<Rightarrow> as)"

text \<open>
  The horizontal text string that a symbol instance carries: the text of the horizontal
  shaping of the feature with the instance's feature index, if the driver shaped one.
\<close>

definition instanceText ::
  "env \<Rightarrow> layoutProperties \<Rightarrow> glyphMap \<Rightarrow> feature list \<Rightarrow> symbolInstance \<Rightarrow> string option" where
  "instanceText env lay gm fs inst =
     (case find (\<lambda>f. feature_index f = featureIndex inst) fs of
        None \<Rightarrow> None
      | Some f \<Rightarrow> map_option shaping_text (horizontal (shapeFeatureText env lay gm f)))"

definition textAnchors ::
  "env \<Rightarrow> layoutProperties \<Rightarrow> glyphMap \<Rightarrow> feature list \<Rightarrow> string \<Rightarrow> bucket \<Rightarrow> anchor list" where
  "textAnchors env lay gm fs txt b =
     map anchor (filter (\<lambda>i. instanceText env lay gm fs i = Some txt) (symbolInstances b))"

text \<open>
  The invariant of line placement: the anchors of the instances of a text are recorded
  for that text, and none of them is within the repeat distance of an earlier one.
\<close>

definition repeatInvariant ::
  "jsnum \<Rightarrow> env \<Rightarrow> layoutProperties \<Rightarrow> glyphMap \<Rightarrow> feature list \<Rightarrow> bucket \<Rightarrow> bool" where
  "repeatInvariant d env lay gm fs b \<longleftrightarrow>
     (\<forall>txt. set (textAnchors env lay gm fs txt b) \<subseteq> set (recorded b txt)
           \<and> sorted_wrt (\<lambda>other a. \<not> tooClose d a other) (textAnchors env lay gm fs txt b))"

text \<open>
  Two buckets hold the same tile and style: they agree on the fields that the pass reads
  and never writes.
\<close>

definition sameInputs :: "bucket \<Rightarrow> bucket \<Rightarrow> bool" where
  "sameInputs a b \<longleftrightarrow>
     features b = features a \<and> layers b = layers a \<and> layerIds b = layerIds a
     \<and> overscaling b = overscaling a \<and> zoom b = zoom a \<and> pixelRatio b = pixelRatio a
     \<and> bucket_index b = bucket_index a \<and> textSizeData b = textSizeData a
     \<and> iconSizeData b = iconSizeData a"

text \<open>The collision-box indices of a symbol instance and of a collision feature, moved up by \<open>k\<close>.\<close>

definition shiftBoxes :: "nat \<Rightarrow> symbolInstance \<Rightarrow> symbolInstance" where
  "shiftBoxes k i =
     i\<lparr>textBoxStartIndex := textBoxStartIndex i + k, textBoxEndIndex := textBoxEndIndex i + k,
       iconBoxStartIndex := iconBoxStartIndex i + k, iconBoxEndIndex := iconBoxEndIndex i + k\<rparr>"

definition shiftFeature :: "nat \<Rightarrow> collisionFeature \<Rightarrow> collisionFeature" where
  "shiftFeature k c = \<lparr>boxStartIndex = boxStartIndex c + k, boxEndIndex = boxEndIndex c + k\<rparr>"

text \<open>
  The bucket \<open>b\<close> is the bucket \<open>a\<close> with the boxes \<open>p\<close> in front of its collision-box store
  and the box indices of its symbol instances moved up by the length of \<open>p\<close>. The flag
  \<open>sdfIcons\<close>, the debug-buffer flag and the warnings are not compared.
\<close>

definition shiftedRun :: "collisionBox list \<Rightarrow> bucket \<Rightarrow> bucket \<Rightarrow> bool" where
  "shiftedRun p a b \<longleftrightarrow>
     features b = features a \<and> layers b = layers a \<and> layerIds b = layerIds a
     \<and> overscaling b = overscaling a \<and> zoom b = zoom a \<and> pixelRatio b = pixelRatio a
     \<and> bucket_index b = bucket_index a \<and> textSizeData b = textSizeData a
     \<and> iconSizeData b = iconSizeData a
     \<and> collisionBoxArray b = p @ collisionBoxArray a
     \<and> symbolInstances b = map (shiftBoxes (length p)) (symbolInstances a)
     \<and> tilePixelRatio b = tilePixelRatio a \<and> compareText b = compareText a
     \<and> iconsNeedLinear b = iconsNeedLinear a \<and> bucket_text b = bucket_text a
     \<and> bucket_icon b = bucket_icon a \<and> glyphOffsetArray b = glyphOffsetArray a
     \<and> lineVertexArray b = lineVertexArray a"

text \<open>The four collision-box indices of a symbol instance.\<close>

definition boxRanges :: "symbolInstance \<Rightarrow> nat \<times> nat \<times> nat \<times> nat" where
  "boxRanges i = (textBoxStartIndex i, textBoxEndIndex i, iconBoxStartIndex i, iconBoxEndIndex i)"

text \<open>The pass run a second time, on the bucket that the first run has left.\<close>

definition performSymbolLayout_twice ::
  "env \<Rightarrow> bucket \<Rightarrow> glyphMap \<Rightarrow> glyphPositions \<Rightarrow> imageMap \<Rightarrow> imagePositions \<Rightarrow> bool
     \<Rightarrow> error + bucket" where
  "performSymbolLayout_twice env b gm gp im ip showCollisionBoxes =
     (case performSymbolLayout env b gm gp im ip showCollisionBoxes of
        Inl e \<Rightarrow> Inl e
      | Inr b1 \<Rightarrow> performSymbolLayout env b1 gm gp im ip showCollisionBoxes)"


section \<open>Loops and frame properties\<close>

lemmas layout_defs =
  addFeature_def addFeature_textMaxSize_def addFeature_lineAnchor_def addSymbolAtAnchor_def
  addSymbol_def addSymbol_text_def addSymbol_icon_def addTextVertices_def packTextSize_def
  packIconSize_def addSymbols_def appendSymbols_def addToLineVertexArray_def CollisionFeature_def
  anchorIsTooClose_def warnOnce_def Let_def

lemmas example_defs =
  example_env_def example_bucket_def example_layer_def example_layout_def example_feature_def
  example_sizes_def example_shaping_def example_icon_def example_closure_def example_points_def
  example_unformatted_def performSymbolLayout_sizes_def

lemma forEach_invariant:
  assumes "forEach body xs s = Inr s'" and "P s"
      and "\<And>v t t'. v \<in> set xs \<Longrightarrow> P t \<Longrightarrow> body v t = Inr t' \<Longrightarrow> P t'"
  shows "P s'"
  using assms
proof (induction xs arbitrary: s)
  case Nil
  then show ?case by simp
next
  case (Cons v vs)
  from Cons.prems(1) obtain t where t: "body v s = Inr t" and rest: "forEach body vs t = Inr s'"
    by (auto split: sum.splits)
  have "P t" using Cons.prems(3) [of v s t] Cons.prems(2) t by simp
  show ?case
  proof (rule Cons.IH [OF rest \<open>P t\<close>])
    fix w u u' assume "w \<in> set vs" "P u" "body w u = Inr u'"
    then show "P u'" using Cons.prems(3) [of w u u'] by simp
  qed
qed

lemma forEach_append:
  "forEach body (xs @ ys) s =
     (case forEach body xs s of Inl e \<Rightarrow> Inl e | Inr s' \<Rightarrow> forEach body ys s')"
  by (induction xs arbitrary: s) (auto split: sum.splits)

lemma forEach_concat:
  "forEach (\<lambda>vs. forEach body vs) vss s = forEach body (concat vss) s"
  by (induction vss arbitrary: s) (auto simp: forEach_append split: sum.splits)

lemma sameLabels_refl: "sameLabels b b"
  by (simp add: sameLabels_def sameSetup_def)

lemma sameLabels_trans: "sameLabels a b \<Longrightarrow> sameLabels b c \<Longrightarrow> sameLabels a c"
  by (simp add: sameLabels_def sameSetup_def)

lemma packTextSize_frame:
  "packTextSize b lyr f szs = Inr (sd, b') \<Longrightarrow> sameLabels b b' \<and> collisionBoxArray b' = collisionBoxArray b"
  by (auto simp: packTextSize_def Let_def warnOnce_def sameLabels_def sameSetup_def
           split: if_splits option.splits prod.splits)

lemma packIconSize_frame:
  "packIconSize b lyr f szs = Inr (sd, b') \<Longrightarrow> sameLabels b b' \<and> collisionBoxArray b' = collisionBoxArray b"
  by (auto simp: packIconSize_def Let_def warnOnce_def sameLabels_def sameSetup_def
           split: if_splits option.splits prod.splits)

lemma addSymbols_frame:
  "sameLabels b (addSymbols b r q sd off al f wm anc ls ll)
   \<and> collisionBoxArray (addSymbols b r q sd off al f wm anc ls ll) = collisionBoxArray b"
  by (cases r) (simp_all add: addSymbols_def Let_def sameLabels_def sameSetup_def)

lemma addTextVertices_frame:
  assumes "addTextVertices env b anc sh lyr al f off la wm idx gpm szs = Inr (n, idx', b')"
  shows "sameLabels b b' \<and> collisionBoxArray b' = collisionBoxArray b"
proof -
  from assms obtain sd b1 where p: "packTextSize b lyr f szs = Inr (sd, b1)"
    and b': "b' = addSymbols b1 TextBuffers (getGlyphQuads env anc sh lyr al f gpm) sd off al f
                    (Mode wm) anc (lineStartIndex la) (lineLength la)"
    by (auto simp: addTextVertices_def Let_def split: sum.splits prod.splits)
  show ?thesis
    using packTextSize_frame [OF p] addSymbols_frame [of b1] sameLabels_trans [of b b1 b']
    by (simp add: b')
qed

lemma addSymbol_text_frame:
  assumes "addSymbol_text env b anc lin st lyr fi sli bi tbs tp tal toff la f gpm szs
             = Inr (tcf, n, nv, idx, b')"
  shows "sameLabels b b'"
proof (cases "horizontal st")
  case None
  then show ?thesis using assms by (simp add: addSymbol_text_def sameLabels_refl)
next
  case (Some h)
  define b1 where "b1 = b\<lparr>collisionBoxArray := snd (CollisionFeature env (collisionBoxArray b)
                    \<lparr>cf_line = lin, cf_anchor = anc, cf_featureIndex = fi,
                     cf_sourceLayerIndex = sli, cf_bucketIndex = bi,
                     cf_shaped = ShapedText h, cf_boxScale = tbs,
                     cf_padding = tp, cf_alignLine = tal,
                     cf_overscaling = overscaling b, cf_rotate = evaluate (text_rotate (layout lyr)) f\<rparr>)\<rparr>"
  have l1: "sameLabels b b1" by (simp add: b1_def sameLabels_def sameSetup_def)
  from assms Some obtain n0 idx0 b2 where
    tv: "addTextVertices env b1 anc h lyr tal f toff la
           (if vertical st \<noteq> None then WM_horizontal else WM_horizontalOnly) [] gpm szs
         = Inr (n0, idx0, b2)"
    by (auto simp: addSymbol_text_def Let_def b1_def split: prod.splits sum.splits)
  have l2: "sameLabels b1 b2" using addTextVertices_frame [OF tv] by simp
  show ?thesis
  proof (cases "vertical st")
    case None
    then have "b' = b2" using assms Some tv
      by (auto simp: addSymbol_text_def Let_def b1_def split: prod.splits sum.splits)
    then show ?thesis using l1 l2 sameLabels_trans by blast
  next
    case (Some v)
    then obtain n1 idx1 where
      tv2: "addTextVertices env b2 anc v lyr tal f toff la WM_vertical idx0 gpm szs = Inr (n1, idx1, b')"
      using assms \<open>horizontal st = Some h\<close> tv
      by (auto simp: addSymbol_text_def Let_def b1_def split: prod.splits sum.splits)
    have "sameLabels b2 b'" using addTextVertices_frame [OF tv2] by simp
    then show ?thesis using l1 l2 sameLabels_trans by blast
  qed
qed

lemma addSymbol_icon_frame:
  assumes "addSymbol_icon env b anc lin st ic lyr fi sli bi ibs ip ial ioff la f szs
             = Inr (icf, n, b')"
  shows "sameLabels b b'"
proof (cases ic)
  case None
  then show ?thesis using assms by (simp add: addSymbol_icon_def sameLabels_refl)
next
  case (Some i)
  define b1 where "b1 = b\<lparr>collisionBoxArray := snd (CollisionFeature env (collisionBoxArray b)
                    \<lparr>cf_line = lin, cf_anchor = anc, cf_featureIndex = fi,
                     cf_sourceLayerIndex = sli, cf_bucketIndex = bi,
                     cf_shaped = ShapedIcon i, cf_boxScale = ibs,
                     cf_padding = ip, cf_alignLine = False,
                     cf_overscaling = overscaling b, cf_rotate = evaluate (icon_rotate (layout lyr)) f\<rparr>)\<rparr>"
  have l1: "sameLabels b b1" by (simp add: b1_def sameLabels_def sameSetup_def)
  from assms Some obtain sd b2 where
    p: "packIconSize b1 lyr f szs = Inr (sd, b2)"
    and b': "b' = addSymbols b2 IconBuffers (getIconQuads env anc i lyr ial (horizontal st) f) sd ioff
                     ial f ModeFalse anc (lineStartIndex la) (lineLength la)"
    by (auto simp: addSymbol_icon_def Let_def b1_def split: prod.splits sum.splits)
  have l2: "sameLabels b1 b2" using packIconSize_frame [OF p] by simp
  have l3: "sameLabels b2 b'" using addSymbols_frame [of b2] by (simp add: b')
  show ?thesis using l1 l2 l3 sameLabels_trans by blast
qed

lemma addSymbol_frame:
  assumes "addSymbol env b anc lin st ic lyr fi sli bi tbs tp tal toff ibs ip ial ioff f gpm szs
             = Inr (inst, b')"
  shows "anchor inst = anc \<and> featureIndex inst = fi \<and> sameLabels b b'"
proof -
  define b0 where "b0 = snd (addToLineVertexArray env b anc lin)"
  define la where "la = fst (addToLineVertexArray env b anc lin)"
  have l0: "sameLabels b b0"
    by (simp add: b0_def addToLineVertexArray_def Let_def sameLabels_def sameSetup_def)
  from assms obtain tcf n nv idx bt where
    t: "addSymbol_text env b0 anc lin st lyr fi sli bi tbs tp tal toff la f gpm szs
          = Inr (tcf, n, nv, idx, bt)"
    by (auto simp: addSymbol_def Let_def b0_def la_def split: prod.splits sum.splits)
  from assms t obtain icf ni bi' where
    i: "addSymbol_icon env bt anc lin st ic lyr fi sli bi ibs ip ial ioff la f szs = Inr (icf, ni, bi')"
    by (auto simp: addSymbol_def Let_def b0_def la_def split: prod.splits sum.splits)
  have b': "b' = (if MAX_GLYPHS env \<le> length (glyphOffsetArray bi')
                  then warnOnce bi' tooManyGlyphsWarning else bi')"
    and inst: "anchor inst = anc \<and> featureIndex inst = fi"
    using assms t i
    by (auto simp: addSymbol_def Let_def b0_def la_def split: prod.splits sum.splits)
  have l3: "sameLabels bi' b'" by (simp add: b' warnOnce_def sameLabels_def sameSetup_def)
  show ?thesis
    using inst l0 addSymbol_text_frame [OF t] addSymbol_icon_frame [OF i] l3 sameLabels_trans
    by blast
qed

lemma growsInside_refl: "growsInside env b b"
  by (simp add: growsInside_def)

lemma addSymbolAtAnchor_outside:
  "\<not> insideTile env anc \<Longrightarrow> addSymbolAtAnchor env c lin anc b = Inr b"
  by (auto simp: addSymbolAtAnchor_def insideTile_def)

lemma addSymbolAtAnchor_inside:
  assumes "addSymbolAtAnchor env c lin anc b = Inr b'" and "insideTile env anc"
  shows "\<exists>inst b1. anchor inst = anc \<and> featureIndex inst = feature_index (c_feature c)
           \<and> sameLabels b b1 \<and> b' = b1\<lparr>symbolInstances := symbolInstances b @ [inst]\<rparr>"
proof -
  from assms obtain layer0 ls where ly: "layers b = layer0 # ls"
    by (cases "layers b") (auto simp: addSymbolAtAnchor_def insideTile_def)
  from assms ly obtain inst b1 where
    a: "addSymbol env b anc lin (c_shapedTextOrientations c) (c_shapedIcon c) layer0
          (feature_index (c_feature c)) (sourceLayerIndex (c_feature c)) (bucket_index b)
          (c_textBoxScale c) (c_textPadding c) (c_textAlongLine c) (c_textOffset c)
          (c_iconBoxScale c) (c_iconPadding c) (c_iconAlongLine c) (c_iconOffset c)
          (c_feature c) (c_glyphPositionMap c) (c_sizes c) = Inr (inst, b1)"
    and b': "b' = b1\<lparr>symbolInstances := symbolInstances b1 @ [inst]\<rparr>"
    by (auto simp: addSymbolAtAnchor_def insideTile_def split: sum.splits prod.splits)
  from addSymbol_frame [OF a] have "anchor inst = anc" "featureIndex inst = feature_index (c_feature c)"
    "sameLabels b b1" by simp_all
  moreover from \<open>sameLabels b b1\<close> have "symbolInstances b1 = symbolInstances b"
    by (simp add: sameLabels_def)
  ultimately show ?thesis using b' by auto
qed

lemma addSymbolAtAnchor_grows:
  assumes "addSymbolAtAnchor env c lin anc b = Inr b'" and "growsInside env b0 b"
  shows "growsInside env b0 b'"
proof (cases "insideTile env anc")
  case False
  then show ?thesis using assms addSymbolAtAnchor_outside [of env anc c lin b] by simp
next
  case True
  from addSymbolAtAnchor_inside [OF assms(1) True] obtain inst b1 where
    "anchor inst = anc" "b' = b1\<lparr>symbolInstances := symbolInstances b @ [inst]\<rparr>" by blast
  then show ?thesis using assms(2) True by (auto simp: growsInside_def)
qed

lemma anchorIsTooClose_frame:
  assumes "anchorIsTooClose b t d anc = Inr (r, b')"
  shows "sameSetup b b' \<and> symbolInstances b' = symbolInstances b
         \<and> sdfIcons b' = sdfIcons b \<and> iconsNeedLinear b' = iconsNeedLinear b
         \<and> collisionBoxArray b' = collisionBoxArray b"
  using assms
  by (auto simp: anchorIsTooClose_def sameSetup_def split: option.splits if_splits)

lemma addFeature_lineAnchor_grows:
  assumes "addFeature_lineAnchor env c d lin anc b = Inr b'" and "growsInside env b0 b"
  shows "growsInside env b0 b'"
proof (cases "horizontal (c_shapedTextOrientations c)")
  case None
  then show ?thesis using assms addSymbolAtAnchor_grows by (simp add: addFeature_lineAnchor_def)
next
  case (Some h)
  from assms(1) Some obtain r b1 where
    tc: "anchorIsTooClose b (shaping_text h) d anc = Inr (r, b1)"
    and rest: "(if \<not> r then addSymbolAtAnchor env c lin anc b1 else Inr b1) = Inr b'"
    by (auto simp: addFeature_lineAnchor_def split: sum.splits prod.splits)
  have "growsInside env b0 b1"
    using anchorIsTooClose_frame [OF tc] assms(2) by (simp add: growsInside_def)
  then show ?thesis using rest addSymbolAtAnchor_grows [of env c lin anc b1 b' b0]
    by (cases r) auto
qed

lemma addFeature_branches:
  assumes "layers b = layer0 # ls"
  shows "\<exists>c d smd tmbs.
           c_feature c = f \<and> c_shapedTextOrientations c = st \<and> c_shapedIcon c = ic
           \<and> d = js_div smd (Num 2)
           \<and> smd = js_mul (tilePixelRatio b) (Num (symbol_spacing (layout layer0)))
           \<and> tmbs = js_div (js_mul (tilePixelRatio b) (addFeature_textMaxSize szs f)) (Num 24)
           \<and> addFeature env b f st ic gpm szs =
             (if symbol_placement (layout layer0) = PlacementLine then
                forEach (\<lambda>lin. forEach (addFeature_lineAnchor env c d lin)
                           (getAnchors env lin smd (text_max_angle (layout layer0) / 180 * pi)
                              (or_else (vertical st) (horizontal st)) ic 24 tmbs (overscaling b)
                              (EXTENT env)))
                  (clipLine env (geometry f) 0 0 (EXTENT env) (EXTENT env)) b
              else if symbol_placement (layout layer0) = PlacementLineCenter then
                forEach (\<lambda>lin b'.
                    if 1 < length lin then
                      (case getCenterAnchor env lin (text_max_angle (layout layer0) / 180 * pi)
                              (or_else (vertical st) (horizontal st)) ic 24 tmbs of
                         Some anc \<Rightarrow> addSymbolAtAnchor env c lin anc b'
                       | None \<Rightarrow> Inr b')
                    else Inr b')
                  (geometry f) b
              else if feature_type f = Polygon then
                forEach (\<lambda>polygon.
                    addSymbolAtAnchor env c (fst polygon)
                      (Anchor (point_x (findPoleOfInaccessibility env polygon 16))
                              (point_y (findPoleOfInaccessibility env polygon 16)) 0))
                  (classifyRings env (geometry f) 0) b
              else if feature_type f = LineString then
                forEach (\<lambda>lin b'.
                    case lin of
                      [] \<Rightarrow> Inl TypeError
                    | p0 # _ \<Rightarrow> addSymbolAtAnchor env c lin (Anchor (point_x p0) (point_y p0) 0) b')
                  (geometry f) b
              else if feature_type f = Point then
                forEach (\<lambda>p. addSymbolAtAnchor env c [p] (Anchor (point_x p) (point_y p) 0))
                  (concat (geometry f)) b
              else Inr b)"
  using assms
  apply (simp only: addFeature_def Let_def list.case forEach_concat)
  apply (intro exI conjI)
        prefer 7
        apply (rule refl)
       apply simp_all
  done

lemma point_loop_anchors:
  assumes "forEach (\<lambda>p. addSymbolAtAnchor env c [p] (Anchor (point_x p) (point_y p) 0)) ps b = Inr b'"
  shows "\<exists>new. symbolInstances b' = symbolInstances b @ new
           \<and> map anchor new = filter (insideTile env) (map (\<lambda>p. Anchor (point_x p) (point_y p) 0) ps)"
  using assms
proof (induction ps arbitrary: b)
  case Nil
  then show ?case by simp
next
  case (Cons p ps)
  let ?a = "Anchor (point_x p) (point_y p) 0"
  from Cons.prems obtain b1 where
    s1: "addSymbolAtAnchor env c [p] ?a b = Inr b1"
    and rest: "forEach (\<lambda>p. addSymbolAtAnchor env c [p] (Anchor (point_x p) (point_y p) 0)) ps b1 = Inr b'"
    by (auto split: sum.splits)
  from Cons.IH [OF rest] obtain new where
    n: "symbolInstances b' = symbolInstances b1 @ new"
       "map anchor new = filter (insideTile env) (map (\<lambda>p. Anchor (point_x p) (point_y p) 0) ps)"
    by blast
  show ?case
  proof (cases "insideTile env ?a")
    case False
    then have "b1 = b" using s1 addSymbolAtAnchor_outside [of env ?a c "[p]" b] by simp
    then show ?thesis using n False by simp
  next
    case True
    from addSymbolAtAnchor_inside [OF s1 True] obtain inst b2 where
      "anchor inst = ?a" "b1 = b2\<lparr>symbolInstances := symbolInstances b @ [inst]\<rparr>" by blast
    then have "symbolInstances b' = symbolInstances b @ (inst # new)"
      "map anchor (inst # new) = filter (insideTile env) (map (\<lambda>p. Anchor (point_x p) (point_y p) 0) (p # ps))"
      using n True by simp_all
    then show ?thesis by blast
  qed
qed

lemma addFeature_invariant:
  assumes "addFeature env b f st ic gpm szs = Inr b'"
      and r: "P b"
      and lineStep: "\<And>c lin anc t t' layer0 ls.
                   layers b = layer0 # ls \<Longrightarrow> symbol_placement (layout layer0) = PlacementLine
                   \<Longrightarrow> c_feature c = f \<Longrightarrow> c_shapedTextOrientations c = st \<Longrightarrow> c_shapedIcon c = ic
                   \<Longrightarrow> P t
                   \<Longrightarrow> addFeature_lineAnchor env c
                         (js_div (js_mul (tilePixelRatio b) (Num (symbol_spacing (layout layer0)))) (Num 2))
                         lin anc t = Inr t'
                   \<Longrightarrow> P t'"
      and other: "\<And>c lin anc t t' layer0 ls.
                   layers b = layer0 # ls \<Longrightarrow> symbol_placement (layout layer0) \<noteq> PlacementLine
                   \<Longrightarrow> c_feature c = f \<Longrightarrow> c_shapedTextOrientations c = st \<Longrightarrow> c_shapedIcon c = ic
                   \<Longrightarrow> P t \<Longrightarrow> addSymbolAtAnchor env c lin anc t = Inr t' \<Longrightarrow> P t'"
  shows "P b'"
proof -
  from assms(1) obtain layer0 ls where ly: "layers b = layer0 # ls"
    by (cases "layers b") (auto simp: addFeature_def Let_def)
  from addFeature_branches [OF ly, where f = f and st = st and ic = ic and env = env and gpm = gpm and szs = szs] obtain c d smd tmbs where
    c: "c_feature c = f" "c_shapedTextOrientations c = st" "c_shapedIcon c = ic"
    and d: "d = js_div (js_mul (tilePixelRatio b) (Num (symbol_spacing (layout layer0)))) (Num 2)"
    and eq: "addFeature env b f st ic gpm szs =
             (if symbol_placement (layout layer0) = PlacementLine then
                forEach (\<lambda>lin. forEach (addFeature_lineAnchor env c d lin)
                           (getAnchors env lin smd (text_max_angle (layout layer0) / 180 * pi)
                              (or_else (vertical st) (horizontal st)) ic 24 tmbs (overscaling b)
                              (EXTENT env)))
                  (clipLine env (geometry f) 0 0 (EXTENT env) (EXTENT env)) b
              else if symbol_placement (layout layer0) = PlacementLineCenter then
                forEach (\<lambda>lin b'.
                    if 1 < length lin then
                      (case getCenterAnchor env lin (text_max_angle (layout layer0) / 180 * pi)
                              (or_else (vertical st) (horizontal st)) ic 24 tmbs of
                         Some anc \<Rightarrow> addSymbolAtAnchor env c lin anc b'
                       | None \<Rightarrow> Inr b')
                    else Inr b')
                  (geometry f) b
              else if feature_type f = Polygon then
                forEach (\<lambda>polygon.
                    addSymbolAtAnchor env c (fst polygon)
                      (Anchor (point_x (findPoleOfInaccessibility env polygon 16))
                              (point_y (findPoleOfInaccessibility env polygon 16)) 0))
                  (classifyRings env (geometry f) 0) b
              else if feature_type f = LineString then
                forEach (\<lambda>lin b'.
                    case lin of
                      [] \<Rightarrow> Inl TypeError
                    | p0 # _ \<Rightarrow> addSymbolAtAnchor env c lin (Anchor (point_x p0) (point_y p0) 0) b')
                  (geometry f) b
              else if feature_type f = Point then
                forEach (\<lambda>p. addSymbolAtAnchor env c [p] (Anchor (point_x p) (point_y p) 0))
                  (concat (geometry f)) b
              else Inr b)"
    by blast
  consider (line) "symbol_placement (layout layer0) = PlacementLine"
    | (center) "symbol_placement (layout layer0) = PlacementLineCenter"
    | (point) "symbol_placement (layout layer0) = PlacementPoint"
    by (cases "symbol_placement (layout layer0)") auto
  then show ?thesis
  proof cases
    case line
    with eq assms(1) have
      "forEach (\<lambda>lin. forEach (addFeature_lineAnchor env c d lin)
                           (getAnchors env lin smd (text_max_angle (layout layer0) / 180 * pi)
                              (or_else (vertical st) (horizontal st)) ic 24 tmbs (overscaling b)
                              (EXTENT env)))
                  (clipLine env (geometry f) 0 0 (EXTENT env) (EXTENT env)) b = Inr b'"
      by simp
    then show ?thesis
    proof (rule forEach_invariant [where P = P, OF _ r])
      fix lin t t'
      assume "P t"
        and "forEach (addFeature_lineAnchor env c d lin)
               (getAnchors env lin smd (text_max_angle (layout layer0) / 180 * pi)
                  (or_else (vertical st) (horizontal st)) ic 24 tmbs (overscaling b) (EXTENT env)) t
             = Inr t'"
      then show "P t'"
        using forEach_invariant [where P = P and body = "addFeature_lineAnchor env c d lin"]
              lineStep [OF ly line c] d
        by blast
    qed
  next
    case center
    then have np: "symbol_placement (layout layer0) \<noteq> PlacementLine" by simp
    note sym = other [OF ly np c]
    from center eq assms(1) have
      "forEach (\<lambda>lin b'.
                    if 1 < length lin then
                      (case getCenterAnchor env lin (text_max_angle (layout layer0) / 180 * pi)
                              (or_else (vertical st) (horizontal st)) ic 24 tmbs of
                         Some anc \<Rightarrow> addSymbolAtAnchor env c lin anc b'
                       | None \<Rightarrow> Inr b')
                    else Inr b')
                  (geometry f) b = Inr b'"
      by simp
    then show ?thesis
    proof (rule forEach_invariant [where P = P, OF _ r])
      fix lin t t'
      assume "P t"
        and "(if 1 < length lin then
                (case getCenterAnchor env lin (text_max_angle (layout layer0) / 180 * pi)
                        (or_else (vertical st) (horizontal st)) ic 24 tmbs of
                   Some anc \<Rightarrow> addSymbolAtAnchor env c lin anc t
                 | None \<Rightarrow> Inr t)
              else Inr t) = Inr t'"
      then show "P t'"
        using sym by (auto split: if_splits option.splits)
    qed
  next
    case point
    then have np: "symbol_placement (layout layer0) \<noteq> PlacementLine" by simp
    note sym = other [OF ly np c]
    consider (polygon) "feature_type f = Polygon" | (linestring) "feature_type f = LineString"
      | (pt) "feature_type f = Point" | (unknown) "feature_type f = Unknown"
      by (cases "feature_type f") auto
    then show ?thesis
    proof cases
      case polygon
      with point eq assms(1) have
        "forEach (\<lambda>polygon.
                    addSymbolAtAnchor env c (fst polygon)
                      (Anchor (point_x (findPoleOfInaccessibility env polygon 16))
                              (point_y (findPoleOfInaccessibility env polygon 16)) 0))
                  (classifyRings env (geometry f) 0) b = Inr b'"
        by simp
      then show ?thesis
        by (rule forEach_invariant [where P = P, OF _ r])
           (rule sym)
    next
      case linestring
      with point eq assms(1) have
        "forEach (\<lambda>lin b'.
                    case lin of
                      [] \<Rightarrow> Inl TypeError
                    | p0 # _ \<Rightarrow> addSymbolAtAnchor env c lin (Anchor (point_x p0) (point_y p0) 0) b')
                  (geometry f) b = Inr b'"
        by simp
      then show ?thesis
      proof (rule forEach_invariant [where P = P, OF _ r])
        fix lin t t'
        assume "P t"
          and "(case lin of [] \<Rightarrow> Inl TypeError
                | p0 # _ \<Rightarrow> addSymbolAtAnchor env c lin (Anchor (point_x p0) (point_y p0) 0) t) = Inr t'"
        then show "P t'"
          using sym by (auto split: list.splits)
      qed
    next
      case pt
      with point eq assms(1) have
        "forEach (\<lambda>p. addSymbolAtAnchor env c [p] (Anchor (point_x p) (point_y p) 0))
                  (concat (geometry f)) b = Inr b'"
        by simp
      then show ?thesis
        by (rule forEach_invariant [where P = P, OF _ r])
           (rule sym)
    next
      case unknown
      with point eq assms(1) have "b' = b" by simp
      then show ?thesis using r by simp
    qed
  qed
qed

lemma addFeature_grows:
  assumes "addFeature env b f st ic gpm szs = Inr b'"
  shows "growsInside env b b'"
  by (rule addFeature_invariant [OF assms, where P = "growsInside env b"])
     (auto intro: growsInside_refl addFeature_lineAnchor_grows addSymbolAtAnchor_grows)

section \<open>The repeat distance under line placement\<close>

lemma withinRepeatDistance_iff:
  "withinRepeatDistance a d xs \<longleftrightarrow> (\<exists>other \<in> set xs. tooClose d a other)"
  by (induction xs) (auto simp: tooClose_def)

lemma anchorIsTooClose_result:
  assumes "anchorIsTooClose b txt d a = Inr (r, b')"
  shows "r = (\<exists>other \<in> set (recorded b txt). tooClose d a other)
         \<and> b' = (if r then b
                 else b\<lparr>compareText := (compareText b)(txt \<mapsto> recorded b txt @ [a])\<rparr>)"
  using assms
  by (auto simp: anchorIsTooClose_def recorded_def withinRepeatDistance_iff
           split: option.splits if_splits)

lemma anchorIsTooClose_defined:
  assumes "txt \<notin> set objectPrototypeKeys"
  shows "anchorIsTooClose b txt d a =
           (if \<exists>other \<in> set (recorded b txt). tooClose d a other then Inr (True, b)
            else Inr (False, b\<lparr>compareText := (compareText b)(txt \<mapsto> recorded b txt @ [a])\<rparr>))"
  using assms
  by (auto simp: anchorIsTooClose_def recorded_def withinRepeatDistance_iff
           split: option.splits if_splits)

lemma find_feature_index:
  assumes "distinct (map feature_index fs)" and "f \<in> set fs"
  shows "find (\<lambda>g. feature_index g = feature_index f) fs = Some f"
  using assms
  by (induction fs) (auto simp: image_iff)

lemma instanceText_of_feature:
  assumes "distinct (map feature_index fs)" and "f \<in> set fs"
      and "featureIndex inst = feature_index f"
  shows "instanceText env lay gm fs inst
           = map_option shaping_text (horizontal (shapeFeatureText env lay gm f))"
  using find_feature_index [OF assms(1,2)] assms(3) by (simp add: instanceText_def)

lemma sorted_wrt_filter_nth:
  assumes "sorted_wrt R (map g (filter p xs))" and "i < j" and "j < length xs"
      and "p (xs ! i)" and "p (xs ! j)"
  shows "R (g (xs ! i)) (g (xs ! j))"
  using assms
proof (induction xs arbitrary: i j)
  case Nil
  then show ?case by simp
next
  case (Cons x xs)
  show ?case
  proof (cases i)
    case 0
    with Cons.prems obtain j' where j: "j = Suc j'" "j' < length xs" by (cases j) auto
    with Cons.prems 0 have "g (xs ! j') \<in> set (map g (filter p xs))" by auto
    with Cons.prems 0 j show ?thesis by auto
  next
    case (Suc i')
    with Cons.prems obtain j' where j: "j = Suc j'" "j' < length xs" "i' < j'" by (cases j) auto
    from Cons.prems(1) have "sorted_wrt R (map g (filter p xs))" by (auto split: if_splits)
    from Cons.IH [OF this, of i' j'] Cons.prems Suc j show ?thesis by simp
  qed
qed


lemma addSymbolAtAnchor_effect:
  assumes "addSymbolAtAnchor env c lin anc v = Inr v'"
  shows "sameSetup v v' \<and> compareText v' = compareText v
         \<and> (symbolInstances v' = symbolInstances v
              \<or> (\<exists>inst. anchor inst = anc \<and> featureIndex inst = feature_index (c_feature c)
                         \<and> symbolInstances v' = symbolInstances v @ [inst]))"
proof (cases "insideTile env anc")
  case False
  then have "v' = v" using assms addSymbolAtAnchor_outside [of env anc c lin v] by simp
  then show ?thesis by (simp add: sameSetup_def)
next
  case True
  from addSymbolAtAnchor_inside [OF assms True] obtain inst b1 where
    "anchor inst = anc" "featureIndex inst = feature_index (c_feature c)" "sameLabels v b1"
    "v' = b1\<lparr>symbolInstances := symbolInstances v @ [inst]\<rparr>"
    by blast
  then show ?thesis by (auto simp: sameLabels_def sameSetup_def)
qed

lemma textAnchors_same:
  "symbolInstances v' = symbolInstances v \<Longrightarrow> textAnchors env lay gm fs txt v' = textAnchors env lay gm fs txt v"
  by (simp add: textAnchors_def)

lemma textAnchors_snoc:
  assumes "symbolInstances v' = symbolInstances v @ [inst]"
  shows "textAnchors env lay gm fs txt v'
           = textAnchors env lay gm fs txt v
             @ (if instanceText env lay gm fs inst = Some txt then [anchor inst] else [])"
  using assms by (simp add: textAnchors_def)

lemma recorded_same:
  "compareText v' = compareText v \<Longrightarrow> recorded v' txt = recorded v txt"
  by (simp add: recorded_def)

lemma addFeature_lineAnchor_repeat:
  assumes run: "addFeature_lineAnchor env c d lin anc u = Inr u'"
      and fs: "distinct (map feature_index fs)" "c_feature c \<in> set fs"
      and st: "c_shapedTextOrientations c = shapeFeatureText env lay gm (c_feature c)"
      and inv: "repeatInvariant d env lay gm fs u"
  shows "repeatInvariant d env lay gm fs u' \<and> sameSetup u u'"
proof -
  let ?T = "map_option shaping_text (horizontal (shapeFeatureText env lay gm (c_feature c)))"
  have label: "\<And>inst. featureIndex inst = feature_index (c_feature c)
                 \<Longrightarrow> instanceText env lay gm fs inst = ?T"
    using instanceText_of_feature [OF fs] by simp
  show ?thesis
  proof (cases "horizontal (c_shapedTextOrientations c)")
    case None
    then have T: "?T = None" using st by simp
    from run None have a: "addSymbolAtAnchor env c lin anc u = Inr u'"
      by (simp add: addFeature_lineAnchor_def)
    from addSymbolAtAnchor_effect [OF a] have
      same: "sameSetup u u'" and ct: "compareText u' = compareText u"
      and si: "symbolInstances u' = symbolInstances u
               \<or> (\<exists>inst. anchor inst = anc \<and> featureIndex inst = feature_index (c_feature c)
                         \<and> symbolInstances u' = symbolInstances u @ [inst])"
      by simp_all
    have "\<And>txt. textAnchors env lay gm fs txt u' = textAnchors env lay gm fs txt u"
      using si label T by (auto simp: textAnchors_def)
    then show ?thesis using inv same recorded_same [OF ct] by (simp add: repeatInvariant_def)
  next
    case (Some h)
    let ?t0 = "shaping_text h"
    have T: "?T = Some ?t0" using st Some by simp
    from run Some obtain r u1 where
      tc: "anchorIsTooClose u ?t0 d anc = Inr (r, u1)"
      and rest: "(if \<not> r then addSymbolAtAnchor env c lin anc u1 else Inr u1) = Inr u'"
      by (auto simp: addFeature_lineAnchor_def split: sum.splits prod.splits)
    note res = anchorIsTooClose_result [OF tc]
    show ?thesis
    proof (cases r)
      case True
      then have "u' = u" using res rest by simp
      then show ?thesis using inv by (simp add: sameSetup_def)
    next
      case False
      then have far: "\<forall>other \<in> set (recorded u ?t0). \<not> tooClose d anc other"
        and u1: "u1 = u\<lparr>compareText := (compareText u)(?t0 \<mapsto> recorded u ?t0 @ [anc])\<rparr>"
        using res by simp_all
      from rest False have a: "addSymbolAtAnchor env c lin anc u1 = Inr u'" by simp
      from addSymbolAtAnchor_effect [OF a] have
        same: "sameSetup u1 u'" and ct: "compareText u' = compareText u1"
        and si: "symbolInstances u' = symbolInstances u1
                 \<or> (\<exists>inst. anchor inst = anc \<and> featureIndex inst = feature_index (c_feature c)
                           \<and> symbolInstances u' = symbolInstances u1 @ [inst])"
        by simp_all
      have rec: "\<And>txt. recorded u' txt
                   = (if txt = ?t0 then recorded u ?t0 @ [anc] else recorded u txt)"
        using ct u1 by (simp add: recorded_def)
      have s1: "symbolInstances u1 = symbolInstances u" using u1 by simp
      have ta: "\<And>txt. textAnchors env lay gm fs txt u' = textAnchors env lay gm fs txt u
                  \<or> (txt = ?t0 \<and> textAnchors env lay gm fs txt u'
                                   = textAnchors env lay gm fs txt u @ [anc])"
        using si s1 label T by (auto simp: textAnchors_def split: if_splits)
      have "repeatInvariant d env lay gm fs u'"
        unfolding repeatInvariant_def
      proof (intro allI conjI)
        fix tx
        from inv have sub: "set (textAnchors env lay gm fs tx u) \<subseteq> set (recorded u tx)"
          and sorted: "sorted_wrt (\<lambda>other a. \<not> tooClose d a other) (textAnchors env lay gm fs tx u)"
          by (simp_all add: repeatInvariant_def)
        show "set (textAnchors env lay gm fs tx u') \<subseteq> set (recorded u' tx)"
          using ta [of tx] sub rec [of tx] by auto
        show "sorted_wrt (\<lambda>other a. \<not> tooClose d a other) (textAnchors env lay gm fs tx u')"
          using ta [of tx] sub sorted far by (auto simp: sorted_wrt_append subset_iff)
      qed
      moreover have "sameSetup u u'" using same u1 by (simp add: sameSetup_def)
      ultimately show ?thesis by simp
    qed
  qed
qed


lemma sameSetup_refl: "sameSetup b b"
  by (simp add: sameSetup_def)

lemma sameSetup_trans: "sameSetup a b \<Longrightarrow> sameSetup b c \<Longrightarrow> sameSetup a c"
  by (simp add: sameSetup_def)

lemma shapeFeatureIcon_frame:
  assumes "shapeFeatureIcon env lay im ip f b = (ic, b1)"
  shows "sameSetup b b1 \<and> symbolInstances b1 = symbolInstances b \<and> compareText b1 = compareText b
         \<and> collisionBoxArray b1 = collisionBoxArray b"
  using assms
  by (auto simp: shapeFeatureIcon_def Let_def warnOnce_def sameSetup_def
           split: option.splits if_splits)

lemma repeatInvariant_same:
  assumes "symbolInstances v' = symbolInstances v" and "compareText v' = compareText v"
  shows "repeatInvariant d env lay gm fs v' = repeatInvariant d env lay gm fs v"
  using assms by (simp add: repeatInvariant_def textAnchors_def recorded_def)

lemma performSymbolLayout_feature_repeat:
  assumes run: "performSymbolLayout_feature env lay szs gm gp im ip f t = Inr t'"
      and ly: "layers t = layer0 # ls" "layout layer0 = lay" "symbol_placement lay = PlacementLine"
      and fs: "distinct (map feature_index fs)" "f \<in> set fs"
      and d: "d = js_div (js_mul (tilePixelRatio t) (Num (symbol_spacing lay))) (Num 2)"
      and inv: "repeatInvariant d env lay gm fs t"
  shows "repeatInvariant d env lay gm fs t' \<and> sameSetup t t'"
proof -
  obtain ic t1 where i: "shapeFeatureIcon env lay im ip f t = (ic, t1)"
    by (cases "shapeFeatureIcon env lay im ip f t") auto
  note fr = shapeFeatureIcon_frame [OF i]
  have inv1: "repeatInvariant d env lay gm fs t1"
    using inv fr repeatInvariant_same [of t1 t] by simp
  have s1: "sameSetup t t1" using fr by simp
  let ?st = "shapeFeatureText env lay gm f"
  let ?P = "\<lambda>u. repeatInvariant d env lay gm fs u \<and> sameSetup t1 u"
  show ?thesis
  proof (cases "horizontal ?st \<noteq> None \<or> ic \<noteq> None")
    case False
    then have "t' = t1" using run i by (simp add: performSymbolLayout_feature_def Let_def)
    then show ?thesis using inv1 s1 by simp
  next
    case True
    then have a: "addFeature env t1 f ?st ic gp szs = Inr t'"
      using run i by (simp add: performSymbolLayout_feature_def Let_def)
    have "?P t'"
    proof (rule addFeature_invariant [OF a, where P = ?P])
      show "?P t1" using inv1 sameSetup_refl by simp
    next
      fix c lin anc u u' layer0' ls'
      assume l1: "layers t1 = layer0' # ls'"
        and c: "c_feature c = f" "c_shapedTextOrientations c = ?st"
        and P: "?P u"
        and step: "addFeature_lineAnchor env c
                     (js_div (js_mul (tilePixelRatio t1) (Num (symbol_spacing (layout layer0')))) (Num 2))
                     lin anc u = Inr u'"
      have "layer0' = layer0" using l1 ly(1) s1 by (simp add: sameSetup_def)
      moreover have "tilePixelRatio t1 = tilePixelRatio t" using s1 by (simp add: sameSetup_def)
      ultimately have step': "addFeature_lineAnchor env c d lin anc u = Inr u'"
        using step d ly(2) by simp
      have "repeatInvariant d env lay gm fs u' \<and> sameSetup u u'"
        by (rule addFeature_lineAnchor_repeat [OF step' fs(1)]) (use c fs(2) P in simp_all)
      then show "?P u'" using P sameSetup_trans by blast
    next
      fix c lin anc u u' layer0' ls'
      assume "layers t1 = layer0' # ls'" and "symbol_placement (layout layer0') \<noteq> PlacementLine"
      then have False using ly s1 by (simp add: sameSetup_def)
      then show "?P u'" ..
    qed
    then show ?thesis using s1 sameSetup_trans by blast
  qed
qed

lemma performSymbolLayout_repeat:
  assumes run: "performSymbolLayout env b gm gp im ip showBoxes = Inr b'"
      and ly: "layers b = layer0 # ls" "symbol_placement (layout layer0) = PlacementLine"
      and fs: "distinct (map feature_index (features b))"
  shows "repeatInvariant
           (js_div (js_mul (tilePixelRatio b') (Num (symbol_spacing (layout layer0)))) (Num 2))
           env (layout layer0) gm (features b) b'"
proof -
  define b2 where "b2 = (createArrays b)\<lparr>symbolInstances := [],
                     tilePixelRatio := js_div (Num (EXTENT env)) (Num (512 * overscaling b)),
                     compareText := Map.empty, iconsNeedLinear := False\<rparr>"
  define d where "d = js_div (js_mul (tilePixelRatio b2) (Num (symbol_spacing (layout layer0)))) (Num 2)"
  let ?lay = "layout layer0"
  let ?szs = "performSymbolLayout_sizes b2 (unevaluated layer0)"
  let ?P = "\<lambda>u. repeatInvariant d env ?lay gm (features b) u \<and> sameSetup b2 u"
  have l2: "layers b2 = layer0 # ls" and f2: "features b2 = features b"
    using ly by (simp_all add: b2_def createArrays_def)
  from run obtain b3 where
    loop: "forEach (performSymbolLayout_feature env ?lay ?szs gm gp im ip) (features b) b2 = Inr b3"
    and b': "b' = (if showBoxes then generateCollisionDebugBuffers b3 else b3)"
    using l2 f2
    by (auto simp: performSymbolLayout_def Let_def b2_def createArrays_def split: sum.splits)
  have "?P b3"
  proof (rule forEach_invariant [OF loop, where P = ?P])
    show "?P b2"
      by (simp add: repeatInvariant_def textAnchors_def sameSetup_refl b2_def)
  next
    fix f u u'
    assume f: "f \<in> set (features b)" and P: "?P u"
      and step: "performSymbolLayout_feature env ?lay ?szs gm gp im ip f u = Inr u'"
    have lu: "layers u = layer0 # ls" and tu: "tilePixelRatio u = tilePixelRatio b2"
      using P l2 by (simp_all add: sameSetup_def)
    have "repeatInvariant d env ?lay gm (features b) u' \<and> sameSetup u u'"
      by (rule performSymbolLayout_feature_repeat [OF step lu refl ly(2) fs f])
         (use P tu in \<open>simp_all add: d_def\<close>)
    then show "?P u'" using P sameSetup_trans by blast
  qed
  moreover have "symbolInstances b' = symbolInstances b3" "compareText b' = compareText b3"
    "tilePixelRatio b' = tilePixelRatio b3"
    by (simp_all add: b' generateCollisionDebugBuffers_def)
  ultimately show ?thesis
    using repeatInvariant_same [of b' b3] by (simp add: d_def sameSetup_def)
qed

lemma point_dist_same_y:
  "point_y p = point_y q \<Longrightarrow> point_dist p q = \<bar>point_x q - point_x p\<bar>"
  by (simp add: point_dist_def)

lemmas driver_defs =
  performSymbolLayout_def performSymbolLayout_feature_def performSymbolLayout_sizes_def
  shapeFeatureText_def shapeFeatureIcon_def createArrays_def generateCollisionDebugBuffers_def

section \<open>The collision boxes of a symbol\<close>

lemma packIconSize_total:
  assumes "functionType (iconSizeData b) \<noteq> Composite \<or> compositeIconSizes szs \<noteq> None"
  shows "\<exists>sd b1. packIconSize b lyr f szs = Inr (sd, b1)"
  using assms
  by (auto simp: packIconSize_def Let_def split: option.splits prod.splits)

lemma addSymbol_text_boxes:
  assumes "addSymbol_text env b anc lin st lyr fi sli bi tbs tp tal toff la f gpm szs
             = Inr (tcf, n, nv, idx, bt)"
  shows "sameLabels b bt
         \<and> (case horizontal st of
              None \<Rightarrow> tcf = None \<and> n = 0 \<and> nv = 0 \<and> idx = [] \<and> bt = b
            | Some h \<Rightarrow>
                tcf = Some (fst (CollisionFeature env (collisionBoxArray b)
                       \<lparr>cf_line = lin, cf_anchor = anc, cf_featureIndex = fi,
                        cf_sourceLayerIndex = sli, cf_bucketIndex = bi,
                        cf_shaped = ShapedText h, cf_boxScale = tbs,
                        cf_padding = tp, cf_alignLine = tal,
                        cf_overscaling = overscaling b,
                        cf_rotate = evaluate (text_rotate (layout lyr)) f\<rparr>))
                \<and> collisionBoxArray bt
                    = snd (CollisionFeature env (collisionBoxArray b)
                       \<lparr>cf_line = lin, cf_anchor = anc, cf_featureIndex = fi,
                        cf_sourceLayerIndex = sli, cf_bucketIndex = bi,
                        cf_shaped = ShapedText h, cf_boxScale = tbs,
                        cf_padding = tp, cf_alignLine = tal,
                        cf_overscaling = overscaling b,
                        cf_rotate = evaluate (text_rotate (layout lyr)) f\<rparr>))"
proof (cases "horizontal st")
  case None
  then show ?thesis using assms by (simp add: addSymbol_text_def sameLabels_refl)
next
  case (Some h)
  let ?cf = "CollisionFeature env (collisionBoxArray b)
                       \<lparr>cf_line = lin, cf_anchor = anc, cf_featureIndex = fi,
                        cf_sourceLayerIndex = sli, cf_bucketIndex = bi,
                        cf_shaped = ShapedText h, cf_boxScale = tbs,
                        cf_padding = tp, cf_alignLine = tal,
                        cf_overscaling = overscaling b,
                        cf_rotate = evaluate (text_rotate (layout lyr)) f\<rparr>"
  define b1 where "b1 = b\<lparr>collisionBoxArray := snd ?cf\<rparr>"
  from assms Some obtain n0 idx0 b2 where
    tv: "addTextVertices env b1 anc h lyr tal f toff la
           (if vertical st \<noteq> None then WM_horizontal else WM_horizontalOnly) [] gpm szs
         = Inr (n0, idx0, b2)"
    and tcf: "tcf = Some (fst ?cf)"
    by (auto simp: addSymbol_text_def Let_def b1_def split: prod.splits sum.splits option.splits)
  have c2: "collisionBoxArray b2 = snd ?cf" using addTextVertices_frame [OF tv] by (simp add: b1_def)
  have "collisionBoxArray bt = snd ?cf"
  proof (cases "vertical st")
    case None
    then have "bt = b2" using assms Some tv
      by (auto simp: addSymbol_text_def Let_def b1_def split: prod.splits sum.splits)
    then show ?thesis using c2 by simp
  next
    case (Some v)
    then obtain n1 idx1 where
      tv2: "addTextVertices env b2 anc v lyr tal f toff la WM_vertical idx0 gpm szs = Inr (n1, idx1, bt)"
      using assms \<open>horizontal st = Some h\<close> tv
      by (auto simp: addSymbol_text_def Let_def b1_def split: prod.splits sum.splits)
    then show ?thesis using addTextVertices_frame [OF tv2] c2 by simp
  qed
  then show ?thesis using Some tcf addSymbol_text_frame [OF assms]
    by simp
qed

lemma addSymbol_icon_Some:
  assumes "addSymbol_icon env b anc lin st (Some ic) lyr fi sli bi ibs ip ial ioff la f szs
             = Inr (icf, n, b')"
  shows "icf = Some (fst (CollisionFeature env (collisionBoxArray b)
                \<lparr>cf_line = lin, cf_anchor = anc, cf_featureIndex = fi,
                 cf_sourceLayerIndex = sli, cf_bucketIndex = bi,
                 cf_shaped = ShapedIcon ic, cf_boxScale = ibs,
                 cf_padding = ip, cf_alignLine = False,
                 cf_overscaling = overscaling b,
                 cf_rotate = evaluate (icon_rotate (layout lyr)) f\<rparr>))
         \<and> collisionBoxArray b'
             = snd (CollisionFeature env (collisionBoxArray b)
                \<lparr>cf_line = lin, cf_anchor = anc, cf_featureIndex = fi,
                 cf_sourceLayerIndex = sli, cf_bucketIndex = bi,
                 cf_shaped = ShapedIcon ic, cf_boxScale = ibs,
                 cf_padding = ip, cf_alignLine = False,
                 cf_overscaling = overscaling b,
                 cf_rotate = evaluate (icon_rotate (layout lyr)) f\<rparr>)
         \<and> n = length (getIconQuads env anc ic lyr ial (horizontal st) f) * 4
         \<and> (\<exists>ps. placedSymbolArray (bucket_icon b') = placedSymbolArray (bucket_icon b) @ [ps]
                  \<and> ps_alongLine ps = ial
                  \<and> ps_numQuads ps = length (getIconQuads env anc ic lyr ial (horizontal st) f))
         \<and> glyphOffsetArray b' = glyphOffsetArray b
              @ map (\<lambda>q. fst (glyphOffset q)) (getIconQuads env anc ic lyr ial (horizontal st) f)"
proof -
  let ?cf = "CollisionFeature env (collisionBoxArray b)
                \<lparr>cf_line = lin, cf_anchor = anc, cf_featureIndex = fi,
                 cf_sourceLayerIndex = sli, cf_bucketIndex = bi,
                 cf_shaped = ShapedIcon ic, cf_boxScale = ibs,
                 cf_padding = ip, cf_alignLine = False,
                 cf_overscaling = overscaling b,
                 cf_rotate = evaluate (icon_rotate (layout lyr)) f\<rparr>"
  define b1 where "b1 = b\<lparr>collisionBoxArray := snd ?cf\<rparr>"
  from assms obtain sd b2 where
    p: "packIconSize b1 lyr f szs = Inr (sd, b2)"
    and b': "b' = addSymbols b2 IconBuffers (getIconQuads env anc ic lyr ial (horizontal st) f) sd ioff
                     ial f ModeFalse anc (lineStartIndex la) (lineLength la)"
    and icf: "icf = Some (fst ?cf)"
    and n: "n = length (getIconQuads env anc ic lyr ial (horizontal st) f) * 4"
    by (auto simp: addSymbol_icon_def Let_def b1_def split: prod.splits sum.splits)
  have b2: "collisionBoxArray b2 = snd ?cf" "bucket_icon b2 = bucket_icon b"
      "glyphOffsetArray b2 = glyphOffsetArray b"
    using p
    by (auto simp: packIconSize_def Let_def warnOnce_def b1_def
             split: if_splits option.splits prod.splits)
  show ?thesis
    using icf n b2 by (simp add: b' addSymbols_def appendSymbols_def Let_def)
qed

lemma addSymbol_icon_total:
  assumes "functionType (iconSizeData b) \<noteq> Composite \<or> compositeIconSizes szs \<noteq> None"
  shows "\<exists>icf n b'. addSymbol_icon env b anc lin st ic lyr fi sli bi ibs ip ial ioff la f szs
                       = Inr (icf, n, b')"
proof (cases ic)
  case None
  then show ?thesis by (simp add: addSymbol_icon_def)
next
  case (Some i)
  let ?b1 = "b\<lparr>collisionBoxArray := snd (CollisionFeature env (collisionBoxArray b)
                \<lparr>cf_line = lin, cf_anchor = anc, cf_featureIndex = fi,
                 cf_sourceLayerIndex = sli, cf_bucketIndex = bi,
                 cf_shaped = ShapedIcon i, cf_boxScale = ibs,
                 cf_padding = ip, cf_alignLine = False,
                 cf_overscaling = overscaling b,
                 cf_rotate = evaluate (icon_rotate (layout lyr)) f\<rparr>)\<rparr>"
  from assms have "functionType (iconSizeData ?b1) \<noteq> Composite \<or> compositeIconSizes szs \<noteq> None"
    by simp
  from packIconSize_total [OF this, of lyr f] obtain sd b2 where
    "packIconSize ?b1 lyr f szs = Inr (sd, b2)" by blast
  then show ?thesis using Some
    by (auto simp: addSymbol_icon_def Let_def split: prod.splits)
qed

lemma addTextVertices_icon_buffers:
  assumes "addTextVertices env b anc sh lyr al f off la wm idx gpm szs = Inr (n, idx', b')"
  shows "bucket_icon b' = bucket_icon b"
  using assms
  by (auto simp: addTextVertices_def packTextSize_def Let_def addSymbols_def warnOnce_def
           split: if_splits option.splits prod.splits sum.splits)

lemma addSymbol_text_icon_buffers:
  assumes "addSymbol_text env b anc lin st lyr fi sli bi tbs tp tal toff la f gpm szs
             = Inr (tcf, n, nv, idx, bt)"
  shows "bucket_icon bt = bucket_icon b"
proof (cases "horizontal st")
  case None
  then show ?thesis using assms by (simp add: addSymbol_text_def)
next
  case (Some h)
  define b1 where "b1 = b\<lparr>collisionBoxArray := snd (CollisionFeature env (collisionBoxArray b)
                    \<lparr>cf_line = lin, cf_anchor = anc, cf_featureIndex = fi,
                     cf_sourceLayerIndex = sli, cf_bucketIndex = bi,
                     cf_shaped = ShapedText h, cf_boxScale = tbs,
                     cf_padding = tp, cf_alignLine = tal,
                     cf_overscaling = overscaling b, cf_rotate = evaluate (text_rotate (layout lyr)) f\<rparr>)\<rparr>"
  from assms Some obtain n0 idx0 b2 where
    tv: "addTextVertices env b1 anc h lyr tal f toff la
           (if vertical st \<noteq> None then WM_horizontal else WM_horizontalOnly) [] gpm szs
         = Inr (n0, idx0, b2)"
    by (auto simp: addSymbol_text_def Let_def b1_def split: prod.splits sum.splits)
  have i2: "bucket_icon b2 = bucket_icon b"
    using addTextVertices_icon_buffers [OF tv] by (simp add: b1_def)
  show ?thesis
  proof (cases "vertical st")
    case None
    then have "bt = b2" using assms Some tv
      by (auto simp: addSymbol_text_def Let_def b1_def split: prod.splits sum.splits)
    then show ?thesis using i2 by simp
  next
    case (Some v)
    then obtain n1 idx1 where
      tv2: "addTextVertices env b2 anc v lyr tal f toff la WM_vertical idx0 gpm szs = Inr (n1, idx1, bt)"
      using assms \<open>horizontal st = Some h\<close> tv
      by (auto simp: addSymbol_text_def Let_def b1_def split: prod.splits sum.splits)
    then show ?thesis using addTextVertices_icon_buffers [OF tv2] i2 by simp
  qed
qed

section \<open>The pass from two states of the collision-box store\<close>

lemma packTextSize_shifted:
  "shiftedRun p a b \<Longrightarrow>
   rel_sum (=) (rel_prod (=) (shiftedRun p)) (packTextSize a lyr f szs) (packTextSize b lyr f szs)"
  by (auto simp: packTextSize_def Let_def warnOnce_def shiftedRun_def split: option.splits)

lemma packIconSize_shifted:
  "shiftedRun p a b \<Longrightarrow>
   rel_sum (=) (rel_prod (=) (shiftedRun p)) (packIconSize a lyr f szs) (packIconSize b lyr f szs)"
  by (auto simp: packIconSize_def Let_def warnOnce_def shiftedRun_def split: option.splits)

lemma addSymbols_shifted:
  "shiftedRun p a b \<Longrightarrow>
   shiftedRun p (addSymbols a r q sd off al f wm anc ls ll) (addSymbols b r q sd off al f wm anc ls ll)"
  by (cases r) (simp_all add: addSymbols_def Let_def shiftedRun_def)

lemma addTextVertices_shifted:
  assumes "shiftedRun p a b"
  shows "rel_sum (=) (rel_prod (=) (rel_prod (=) (shiftedRun p)))
           (addTextVertices env a anc sh lyr al f off la wm idx gpm szs)
           (addTextVertices env b anc sh lyr al f off la wm idx gpm szs)"
proof -
  have same: "\<And>x y. shiftedRun p x y \<Longrightarrow> bucket_text y = bucket_text x"
    by (simp add: shiftedRun_def)
  show ?thesis
    using packTextSize_shifted [OF assms, of lyr f szs]
    by (cases "packTextSize a lyr f szs"; cases "packTextSize b lyr f szs")
       (auto simp: addTextVertices_def Let_def addSymbols_shifted same [OF addSymbols_shifted])
qed


lemma rel_sum_bind:
  assumes "rel_sum (=) R x y"
      and "\<And>u v. R u v \<Longrightarrow> rel_sum (=) S (k u) (k' v)"
  shows "rel_sum (=) S (case x of Inl e \<Rightarrow> Inl e | Inr u \<Rightarrow> k u)
                       (case y of Inl e \<Rightarrow> Inl e | Inr v \<Rightarrow> k' v)"
  using assms by (cases x; cases y) auto

lemma forEach_shifted:
  assumes "\<And>v s t. v \<in> set xs \<Longrightarrow> R s t \<Longrightarrow> rel_sum (=) R (body v s) (body' v t)"
      and "R s t"
  shows "rel_sum (=) R (forEach body xs s) (forEach body' xs t)"
  using assms
proof (induction xs arbitrary: s t)
  case Nil
  then show ?case by simp
next
  case (Cons v vs)
  have head: "rel_sum (=) R (body v s) (body' v t)"
    using Cons.prems(1) [of v s t] Cons.prems(2) by simp
  have tail: "\<And>u w. R u w \<Longrightarrow> rel_sum (=) R (forEach body vs u) (forEach body' vs w)"
    using Cons.IH Cons.prems(1) by simp
  show ?case
    unfolding forEach.simps by (rule rel_sum_bind [OF head tail])
qed

lemma CollisionFeature_shifted:
  "CollisionFeature env (p @ boxes) args =
     (shiftFeature (length p) (fst (CollisionFeature env boxes args)),
      p @ snd (CollisionFeature env boxes args))"
  by (simp add: CollisionFeature_def Let_def shiftFeature_def)

lemma collisionBoxes_shifted:
  assumes "shiftedRun p a b"
  shows "shiftedRun p (a\<lparr>collisionBoxArray := snd (CollisionFeature env (collisionBoxArray a) args)\<rparr>)
                      (b\<lparr>collisionBoxArray := snd (CollisionFeature env (collisionBoxArray b) args)\<rparr>)"
    and "fst (CollisionFeature env (collisionBoxArray b) args)
           = shiftFeature (length p) (fst (CollisionFeature env (collisionBoxArray a) args))"
    and "overscaling b = overscaling a"
  using assms by (simp_all add: shiftedRun_def CollisionFeature_shifted)

lemma addSymbol_text_shifted:
  assumes "shiftedRun p a b"
  shows "rel_sum (=)
           (rel_prod (\<lambda>c d. d = map_option (shiftFeature (length p)) c)
              (rel_prod (=) (rel_prod (=) (rel_prod (=) (shiftedRun p)))))
           (addSymbol_text env a anc lin st lyr fi sli bi tbs tp tal toff la f gpm szs)
           (addSymbol_text env b anc lin st lyr fi sli bi tbs tp tal toff la f gpm szs)"
proof (cases "horizontal st")
  case None
  then show ?thesis using assms by (simp add: addSymbol_text_def)
next
  case (Some h)
  show ?thesis
    unfolding addSymbol_text_def Let_def split_beta Some option.case
              collisionBoxes_shifted(2,3) [OF assms]
    apply (rule rel_sum_bind [OF addTextVertices_shifted [OF collisionBoxes_shifted(1) [OF assms]]])
    subgoal for u v
      apply (cases "vertical st")
       apply (simp add: rel_prod_sel)
      apply (clarsimp simp: rel_prod_sel)
      apply (rule rel_sum_bind [OF addTextVertices_shifted])
       apply assumption
      apply (simp add: rel_prod_sel)
      done
    done
qed


lemma addSymbol_icon_shifted:
  assumes "shiftedRun p a b"
  shows "rel_sum (=)
           (rel_prod (\<lambda>c d. d = map_option (shiftFeature (length p)) c)
              (rel_prod (=) (shiftedRun p)))
           (addSymbol_icon env a anc lin st ic lyr fi sli bi ibs ip ial ioff la f szs)
           (addSymbol_icon env b anc lin st ic lyr fi sli bi ibs ip ial ioff la f szs)"
proof (cases ic)
  case None
  then show ?thesis using assms by (simp add: addSymbol_icon_def)
next
  case (Some i)
  show ?thesis
    unfolding addSymbol_icon_def Let_def split_beta Some option.case
              collisionBoxes_shifted(2,3) [OF assms]
    apply (rule rel_sum_bind [OF packIconSize_shifted [OF collisionBoxes_shifted(1) [OF assms]]])
    apply (simp add: rel_prod_sel addSymbols_shifted)
    done
qed

lemma addToLineVertexArray_shifted:
  assumes "shiftedRun p a b"
  shows "fst (addToLineVertexArray env b anc lin) = fst (addToLineVertexArray env a anc lin)"
    and "shiftedRun p (snd (addToLineVertexArray env a anc lin)) (snd (addToLineVertexArray env b anc lin))"
  using assms by (simp_all add: addToLineVertexArray_def Let_def shiftedRun_def)

lemma boxIndex_shifted:
  assumes "shiftedRun p a b"
  shows "(case map_option (shiftFeature (length p)) c of
            Some c \<Rightarrow> boxStartIndex c | None \<Rightarrow> length (collisionBoxArray b))
         = (case c of Some c \<Rightarrow> boxStartIndex c | None \<Rightarrow> length (collisionBoxArray a)) + length p"
    and "(case map_option (shiftFeature (length p)) c of
            Some c \<Rightarrow> boxEndIndex c | None \<Rightarrow> length (collisionBoxArray b))
         = (case c of Some c \<Rightarrow> boxEndIndex c | None \<Rightarrow> length (collisionBoxArray a)) + length p"
  using assms by (cases c; simp add: shiftedRun_def shiftFeature_def)+

lemma warnGlyphs_shifted:
  assumes "shiftedRun p a b"
  shows "shiftedRun p (if n \<le> length (glyphOffsetArray a) then warnOnce a m else a)
                      (if n \<le> length (glyphOffsetArray b) then warnOnce b m else b)"
  using assms by (simp add: shiftedRun_def warnOnce_def)

lemma addSymbol_shifted:
  assumes "shiftedRun p a b"
  shows "rel_sum (=) (rel_prod (\<lambda>i j. j = shiftBoxes (length p) i) (shiftedRun p))
           (addSymbol env a anc lin st ic lyr fi sli bi tbs tp tal toff ibs ip ial ioff f gpm szs)
           (addSymbol env b anc lin st ic lyr fi sli bi tbs tp tal toff ibs ip ial ioff f gpm szs)"
  unfolding addSymbol_def Let_def split_beta addToLineVertexArray_shifted(1) [OF assms]
  apply (rule rel_sum_bind [OF addSymbol_text_shifted [OF addToLineVertexArray_shifted(2) [OF assms]]])
  subgoal for u v
    apply (clarsimp simp: rel_prod_sel)
    apply (rule rel_sum_bind [OF addSymbol_icon_shifted])
     apply assumption
    subgoal for u' v'
      apply (clarsimp simp: rel_prod_sel boxIndex_shifted warnGlyphs_shifted)
      apply (auto simp: shiftBoxes_def shiftFeature_def shiftedRun_def split: option.splits)
      done
    done
  done

lemma addSymbolAtAnchor_shifted:
  assumes "shiftedRun p a b"
  shows "rel_sum (=) (shiftedRun p) (addSymbolAtAnchor env c lin anc a) (addSymbolAtAnchor env c lin anc b)"
proof -
  have eqs: "layers b = layers a" "bucket_index b = bucket_index a"
    using assms by (simp_all add: shiftedRun_def)
  have push: "\<And>x y i. shiftedRun p x y \<Longrightarrow>
      shiftedRun p (x\<lparr>symbolInstances := symbolInstances x @ [i]\<rparr>)
                   (y\<lparr>symbolInstances := symbolInstances y @ [shiftBoxes (length p) i]\<rparr>)"
    by (simp add: shiftedRun_def)
  show ?thesis
  proof (cases "point_x anc < 0 \<or> EXTENT env \<le> point_x anc \<or> point_y anc < 0 \<or> EXTENT env \<le> point_y anc")
    case True
    then show ?thesis using assms by (simp add: addSymbolAtAnchor_def)
  next
    case False
    show ?thesis
    proof (cases "layers a")
      case Nil
      then show ?thesis using False eqs by (simp add: addSymbolAtAnchor_def)
    next
      case (Cons layer0 ls)
      show ?thesis
        unfolding addSymbolAtAnchor_def eqs Cons list.case if_not_P [OF False]
        apply (rule rel_sum_bind [OF addSymbol_shifted [OF assms]])
        apply (clarsimp simp: rel_prod_sel split_beta push)
        done
    qed
  qed
qed

lemma anchorIsTooClose_shifted:
  "shiftedRun p a b \<Longrightarrow>
   rel_sum (=) (rel_prod (=) (shiftedRun p))
     (anchorIsTooClose a txt d anc) (anchorIsTooClose b txt d anc)"
  by (auto simp: anchorIsTooClose_def shiftedRun_def split: option.splits)

lemma addFeature_lineAnchor_shifted:
  assumes "shiftedRun p a b"
  shows "rel_sum (=) (shiftedRun p)
           (addFeature_lineAnchor env c d lin anc a) (addFeature_lineAnchor env c d lin anc b)"
proof (cases "horizontal (c_shapedTextOrientations c)")
  case None
  then show ?thesis using addSymbolAtAnchor_shifted [OF assms] by (simp add: addFeature_lineAnchor_def)
next
  case (Some h)
  show ?thesis
    unfolding addFeature_lineAnchor_def Some option.case
    apply (rule rel_sum_bind [OF anchorIsTooClose_shifted [OF assms]])
    apply (auto simp: addSymbolAtAnchor_shifted)
    done
qed


lemma addFeature_shifted:
  assumes "shiftedRun p a b"
  shows "rel_sum (=) (shiftedRun p) (addFeature env a f st ic gpm szs) (addFeature env b f st ic gpm szs)"
proof -
  have eqs: "layers b = layers a" "tilePixelRatio b = tilePixelRatio a" "overscaling b = overscaling a"
    using assms by (simp_all add: shiftedRun_def)
  show ?thesis
  proof (cases "layers a")
    case Nil
    then show ?thesis using eqs by (simp add: addFeature_def Let_def)
  next
    case (Cons layer0 ls)
    show ?thesis
      unfolding addFeature_def Let_def eqs Cons list.case
      by (auto intro!: forEach_shifted addFeature_lineAnchor_shifted addSymbolAtAnchor_shifted assms
               split: option.splits list.splits)
  qed
qed

lemma shapeFeatureIcon_shifted:
  assumes "shiftedRun p a b"
  shows "fst (shapeFeatureIcon env lay im ip f b) = fst (shapeFeatureIcon env lay im ip f a)"
    and "shiftedRun p (snd (shapeFeatureIcon env lay im ip f a)) (snd (shapeFeatureIcon env lay im ip f b))"
  using assms
  by (auto simp: shapeFeatureIcon_def Let_def shiftedRun_def warnOnce_def split: option.splits)

lemma performSymbolLayout_feature_shifted:
  assumes "shiftedRun p a b"
  shows "rel_sum (=) (shiftedRun p)
           (performSymbolLayout_feature env lay szs gm gp im ip f a)
           (performSymbolLayout_feature env lay szs gm gp im ip f b)"
  unfolding performSymbolLayout_feature_def Let_def split_beta shapeFeatureIcon_shifted(1) [OF assms]
  using shapeFeatureIcon_shifted(2) [OF assms] addFeature_shifted
  by simp

lemma performSymbolLayout_shifted:
  assumes "sameInputs a b" and "collisionBoxArray b = p @ collisionBoxArray a"
  shows "rel_sum (=) (shiftedRun p)
           (performSymbolLayout env a gm gp im ip scb) (performSymbolLayout env b gm gp im ip scb)"
proof -
  define a1 where "a1 = (createArrays a)\<lparr>symbolInstances := []\<rparr>"
  define a2 where "a2 = a1\<lparr>tilePixelRatio := js_div (Num (EXTENT env)) (Num (512 * overscaling a1)),
                          compareText := Map.empty, iconsNeedLinear := False\<rparr>"
  define b1 where "b1 = (createArrays b)\<lparr>symbolInstances := []\<rparr>"
  define b2 where "b2 = b1\<lparr>tilePixelRatio := js_div (Num (EXTENT env)) (Num (512 * overscaling b1)),
                          compareText := Map.empty, iconsNeedLinear := False\<rparr>"
  have init: "shiftedRun p a2 b2"
    using assms
    by (simp add: a2_def b2_def a1_def b1_def createArrays_def shiftedRun_def sameInputs_def)
  have eqs: "layers b2 = layers a2" "features b2 = features a2"
    "performSymbolLayout_sizes b2 = performSymbolLayout_sizes a2"
    using init by (simp_all add: shiftedRun_def performSymbolLayout_sizes_def fun_eq_iff)
  have debug: "\<And>x y. shiftedRun p x y \<Longrightarrow>
                 shiftedRun p (generateCollisionDebugBuffers x) (generateCollisionDebugBuffers y)"
    by (simp add: shiftedRun_def generateCollisionDebugBuffers_def)
  have a: "performSymbolLayout env a gm gp im ip scb =
     (case layers a2 of [] \<Rightarrow> Inl TypeError
      | layer0 # _ \<Rightarrow>
         (case forEach (performSymbolLayout_feature env (layout layer0)
                          (performSymbolLayout_sizes a2 (unevaluated layer0)) gm gp im ip)
                 (features a2) a2 of
            Inl e \<Rightarrow> Inl e
          | Inr b3 \<Rightarrow> Inr (if scb then generateCollisionDebugBuffers b3 else b3)))"
    unfolding performSymbolLayout_def Let_def a2_def a1_def by (rule refl)
  have b: "performSymbolLayout env b gm gp im ip scb =
     (case layers a2 of [] \<Rightarrow> Inl TypeError
      | layer0 # _ \<Rightarrow>
         (case forEach (performSymbolLayout_feature env (layout layer0)
                          (performSymbolLayout_sizes a2 (unevaluated layer0)) gm gp im ip)
                 (features a2) b2 of
            Inl e \<Rightarrow> Inl e
          | Inr b3 \<Rightarrow> Inr (if scb then generateCollisionDebugBuffers b3 else b3)))"
    unfolding eqs [symmetric]
    unfolding performSymbolLayout_def Let_def b2_def b1_def by (rule refl)
  show ?thesis
  proof (cases "layers a2")
    case Nil
    then show ?thesis by (simp add: a b)
  next
    case (Cons layer0 ls)
    show ?thesis
      unfolding a b Cons list.case
      apply (rule rel_sum_bind [OF forEach_shifted [OF performSymbolLayout_feature_shifted init]])
       apply assumption
      apply (simp add: debug)
      done
  qed
qed


lemma addFeature_lineAnchor_setup:
  assumes "addFeature_lineAnchor env c d lin anc t = Inr t'"
  shows "sameSetup t t'"
proof (cases "horizontal (c_shapedTextOrientations c)")
  case None
  then show ?thesis using assms addSymbolAtAnchor_effect by (simp add: addFeature_lineAnchor_def)
next
  case (Some h)
  from assms Some obtain r t1 where
    tc: "anchorIsTooClose t (shaping_text h) d anc = Inr (r, t1)"
    and rest: "(if \<not> r then addSymbolAtAnchor env c lin anc t1 else Inr t1) = Inr t'"
    by (auto simp: addFeature_lineAnchor_def split: sum.splits prod.splits)
  have "sameSetup t t1" using anchorIsTooClose_frame [OF tc] by simp
  moreover have "sameSetup t1 t'"
    using rest addSymbolAtAnchor_effect [of env c lin anc t1 t'] sameSetup_refl
    by (cases r) auto
  ultimately show ?thesis by (rule sameSetup_trans)
qed

lemma addFeature_setup:
  assumes "addFeature env b f st ic gpm szs = Inr b'"
  shows "sameSetup b b'"
proof (rule addFeature_invariant [OF assms, where P = "sameSetup b"])
  show "sameSetup b b" by (rule sameSetup_refl)
next
  fix c lin anc t t' d
  assume "sameSetup b t" and "addFeature_lineAnchor env c d lin anc t = Inr t'"
  then show "sameSetup b t'" using addFeature_lineAnchor_setup sameSetup_trans by blast
next
  fix c lin anc t t'
  assume "sameSetup b t" and "addSymbolAtAnchor env c lin anc t = Inr t'"
  then show "sameSetup b t'" using addSymbolAtAnchor_effect sameSetup_trans by blast
qed

lemma performSymbolLayout_feature_setup:
  assumes "performSymbolLayout_feature env lay szs gm gp im ip f t = Inr t'"
  shows "sameSetup t t'"
proof -
  obtain ic t1 where i: "shapeFeatureIcon env lay im ip f t = (ic, t1)"
    by (cases "shapeFeatureIcon env lay im ip f t") auto
  have s1: "sameSetup t t1" using shapeFeatureIcon_frame [OF i] by simp
  show ?thesis
  proof (cases "horizontal (shapeFeatureText env lay gm f) \<noteq> None \<or> ic \<noteq> None")
    case False
    then have "t' = t1" using assms i by (simp add: performSymbolLayout_feature_def Let_def)
    then show ?thesis using s1 by simp
  next
    case True
    then have "addFeature env t1 f (shapeFeatureText env lay gm f) ic gp szs = Inr t'"
      using assms i by (simp add: performSymbolLayout_feature_def Let_def)
    then show ?thesis using addFeature_setup s1 sameSetup_trans by blast
  qed
qed

lemma performSymbolLayout_inputs:
  assumes "performSymbolLayout env b gm gp im ip scb = Inr b'"
  shows "sameInputs b b'"
proof -
  define b1 where "b1 = (createArrays b)\<lparr>symbolInstances := []\<rparr>"
  define b2 where "b2 = b1\<lparr>tilePixelRatio := js_div (Num (EXTENT env)) (Num (512 * overscaling b1)),
                          compareText := Map.empty, iconsNeedLinear := False\<rparr>"
  have run: "(case layers b2 of [] \<Rightarrow> Inl TypeError
      | layer0 # _ \<Rightarrow>
         (case forEach (performSymbolLayout_feature env (layout layer0)
                          (performSymbolLayout_sizes b2 (unevaluated layer0)) gm gp im ip)
                 (features b2) b2 of
            Inl e \<Rightarrow> Inl e
          | Inr b3 \<Rightarrow> Inr (if scb then generateCollisionDebugBuffers b3 else b3))) = Inr b'"
    using assms unfolding performSymbolLayout_def Let_def b2_def b1_def .
  then obtain layer0 ls where ly: "layers b2 = layer0 # ls"
    by (cases "layers b2") auto
  from run ly obtain b3 where
    loop: "forEach (performSymbolLayout_feature env (layout layer0)
                      (performSymbolLayout_sizes b2 (unevaluated layer0)) gm gp im ip)
             (features b2) b2 = Inr b3"
    and b': "b' = (if scb then generateCollisionDebugBuffers b3 else b3)"
    by (auto split: sum.splits)
  have "sameSetup b2 b3"
    by (rule forEach_invariant [OF loop, where P = "sameSetup b2"])
       (use sameSetup_refl sameSetup_trans performSymbolLayout_feature_setup in blast)+
  then show ?thesis
    by (simp add: sameInputs_def sameSetup_def b' b2_def b1_def createArrays_def
          generateCollisionDebugBuffers_def)
qed

lemma shiftBoxes_eq: "shiftBoxes k i = shiftBoxes k' i \<longleftrightarrow> k = k'"
  by (auto simp: shiftBoxes_def dest: arg_cong [where f = textBoxStartIndex])

lemma map_shiftBoxes_eq:
  "map (shiftBoxes k) rel = map (shiftBoxes k') rel \<longleftrightarrow> k = k' \<or> rel = []"
  by (cases rel) (auto simp: shiftBoxes_eq)


section \<open>Size packing in addTextVertices\<close>

text \<open>
  C1: for a bucket whose text-size data has function type \<open>source\<close>, \<open>addTextVertices\<close>
  returns normally; when the evaluated text size \<open>v\<close> is 256 or above it hands the
  text-size warning to \<open>warnOnce\<close> exactly once, when \<open>v\<close> is 255.9 it hands nothing to
  \<open>warnOnce\<close>; and in every case the packed value \<open>256 * v\<close>, in range or not, is the size
  data of the placed symbol that \<open>addSymbols\<close> appends to the text buffers.
\<close>

theorem addTextVertices_source_overflow_warning:
  assumes "functionType (textSizeData b) = Source"
      and "evaluate (text_size (layout lyr)) f = Num v"
  shows "\<exists>b'. addTextVertices env b anc shapedText lyr textAlongLine f textOffset lineArr wm
                 placedIndices glyphPositionMap szs
               = Inr (length (getGlyphQuads env anc shapedText lyr textAlongLine f glyphPositionMap) * 4,
                      placedIndices @ [int (length (placedSymbolArray (bucket_text b)))], b')
          \<and> (256 \<le> v \<longrightarrow> warnOnce_calls b' = warnOnce_calls b @ [textSizeWarning b])
          \<and> (v = 255.9 \<longrightarrow> warnOnce_calls b' = warnOnce_calls b)
          \<and> (\<exists>ps. placedSymbolArray (bucket_text b') = placedSymbolArray (bucket_text b) @ [ps]
                  \<and> ps_sizeData ps = Some [Num (256 * v)]
                  \<and> ps_anchor ps = anc \<and> ps_writingMode ps = Mode wm)"
  using assms
  by (simp add: addTextVertices_def packTextSize_def Let_def addSymbols_def appendSymbols_def warnOnce_def
        js_mul_def SIZE_PACK_FACTOR_def MAX_PACKED_SIZE_def)

theorem addTextVertices_source_overflow_warning_witness:
  \<open>functionType (textSizeData (example_bucket PlacementPoint SourceSize [])) = Source
   \<and> evaluate (text_size (layout (example_layer PlacementPoint)))
        (example_feature 2560 (Some (PlainText ''A'')) None Point []) = Num 256
   \<and> (\<exists>b'. addTextVertices example_env (example_bucket PlacementPoint SourceSize [])
               (Anchor 10 10 0) (example_shaping ''A'') (example_layer PlacementPoint) False
               (example_feature 2560 (Some (PlainText ''A'')) None Point []) (0, 0)
               \<lparr>lineStartIndex = 0, lineLength = 0\<rparr> WM_horizontalOnly [] Map.empty
               (example_sizes PlacementPoint SourceSize)
             = Inr (4, [0], b')
           \<and> warnOnce_calls b' = [''poi-label: Value for "text-size" is >= 256. Reduce your "text-size".''])
   \<and> evaluate (text_size (layout (example_layer PlacementPoint)))
        (example_feature 2559 (Some (PlainText ''A'')) None Point []) = Num 255.9
   \<and> (\<exists>b'. addTextVertices example_env (example_bucket PlacementPoint SourceSize [])
               (Anchor 10 10 0) (example_shaping ''A'') (example_layer PlacementPoint) False
               (example_feature 2559 (Some (PlainText ''A'')) None Point []) (0, 0)
               \<lparr>lineStartIndex = 0, lineLength = 0\<rparr> WM_horizontalOnly [] Map.empty
               (example_sizes PlacementPoint SourceSize)
             = Inr (4, [0], b')
           \<and> warnOnce_calls b' = [])\<close>
  using addTextVertices_source_overflow_warning
    [of "example_bucket PlacementPoint SourceSize []" "example_layer PlacementPoint"
        "example_feature 2560 (Some (PlainText ''A'')) None Point []" 256
        example_env "Anchor 10 10 0" "example_shaping ''A''" False "(0, 0)"
        "\<lparr>lineStartIndex = 0, lineLength = 0\<rparr>" WM_horizontalOnly "[]" Map.empty
        "example_sizes PlacementPoint SourceSize"]
    addTextVertices_source_overflow_warning
    [of "example_bucket PlacementPoint SourceSize []" "example_layer PlacementPoint"
        "example_feature 2559 (Some (PlainText ''A'')) None Point []" "255.9"
        example_env "Anchor 10 10 0" "example_shaping ''A''" False "(0, 0)"
        "\<lparr>lineStartIndex = 0, lineLength = 0\<rparr>" WM_horizontalOnly "[]" Map.empty
        "example_sizes PlacementPoint SourceSize"]
  by (auto simp: example_bucket_def example_layer_def example_layout_def example_feature_def
        example_env_def example_shaping_def textSizeWarning_def layerId0_def)

section \<open>Point placement and the tile bounds\<close>

text \<open>
  C2: with symbol placement \<open>point\<close> and a feature of type \<open>Point\<close>, \<open>addFeature\<close> is the loop
  that calls \<open>addSymbolAtAnchor\<close> once for each input point, with the anchor at that point
  and rotation 0, and when it returns the anchors of the new symbol instances are the
  candidates inside the tile, in order. For every placement mode, \<open>addSymbolAtAnchor\<close>
  returns the bucket unchanged for an anchor whose x or y is outside \<open>[0, EXTENT)\<close>, and
  every symbol instance that \<open>addFeature\<close> appends has its anchor inside the tile.
\<close>

theorem addFeature_point_candidates_and_tile_bounds:
  "(layers b = layer0 # ls \<and> symbol_placement (layout layer0) = PlacementPoint \<and> feature_type f = Point
      \<longrightarrow> (\<exists>c. c_feature c = f \<and> c_shapedTextOrientations c = st \<and> c_shapedIcon c = ic
               \<and> addFeature env b f st ic gpm szs
                   = forEach (\<lambda>p. addSymbolAtAnchor env c [p] (Anchor (point_x p) (point_y p) 0))
                       (concat (geometry f)) b)
          \<and> (\<forall>b'. addFeature env b f st ic gpm szs = Inr b'
                 \<longrightarrow> (\<exists>new. symbolInstances b' = symbolInstances b @ new
                            \<and> map anchor new
                                = filter (insideTile env)
                                    (map (\<lambda>p. Anchor (point_x p) (point_y p) 0) (concat (geometry f))))))
   \<and> (\<not> insideTile env anc \<longrightarrow> addSymbolAtAnchor env c' lin anc b = Inr b)
   \<and> (\<forall>b'. addFeature env b f st ic gpm szs = Inr b'
          \<longrightarrow> (\<exists>new. symbolInstances b' = symbolInstances b @ new
                     \<and> (\<forall>i \<in> set new. insideTile env (anchor i))))"
proof (intro conjI impI allI)
  assume h: "layers b = layer0 # ls \<and> symbol_placement (layout layer0) = PlacementPoint
             \<and> feature_type f = Point"
  from addFeature_branches [where b = b and ?layer0.0 = layer0 and ls = ls and f = f and st = st and ic = ic and env = env and gpm = gpm and szs = szs] h
  obtain c where c: "c_feature c = f" "c_shapedTextOrientations c = st" "c_shapedIcon c = ic"
    and eq: "addFeature env b f st ic gpm szs
             = forEach (\<lambda>p. addSymbolAtAnchor env c [p] (Anchor (point_x p) (point_y p) 0))
                 (concat (geometry f)) b"
    by auto
  then show "\<exists>c. c_feature c = f \<and> c_shapedTextOrientations c = st \<and> c_shapedIcon c = ic
               \<and> addFeature env b f st ic gpm szs
                   = forEach (\<lambda>p. addSymbolAtAnchor env c [p] (Anchor (point_x p) (point_y p) 0))
                       (concat (geometry f)) b"
    by blast
  fix b' assume "addFeature env b f st ic gpm szs = Inr b'"
  with eq show "\<exists>new. symbolInstances b' = symbolInstances b @ new
                   \<and> map anchor new
                       = filter (insideTile env)
                           (map (\<lambda>p. Anchor (point_x p) (point_y p) 0) (concat (geometry f)))"
    using point_loop_anchors [of env c "concat (geometry f)" b b'] by simp
next
  assume "\<not> insideTile env anc"
  then show "addSymbolAtAnchor env c' lin anc b = Inr b" by (rule addSymbolAtAnchor_outside)
next
  fix b' assume "addFeature env b f st ic gpm szs = Inr b'"
  then show "\<exists>new. symbolInstances b' = symbolInstances b @ new
                  \<and> (\<forall>i \<in> set new. insideTile env (anchor i))"
    using addFeature_grows [of env b f st ic gpm szs b'] by (simp add: growsInside_def)
qed

theorem addFeature_point_candidates_and_tile_bounds_witness:
  "layers (example_bucket PlacementPoint ConstantSize []) = example_layer PlacementPoint # []
   \<and> symbol_placement (layout (example_layer PlacementPoint)) = PlacementPoint
   \<and> feature_type (example_feature 7 (Some (PlainText ''A'')) None Point example_points) = Point
   \<and> \<not> insideTile example_env (Anchor 9000 10 0)
   \<and> addSymbolAtAnchor example_env
        (example_closure (example_feature 7 (Some (PlainText ''A'')) None Point example_points)
           \<lparr>horizontal = Some (example_shaping ''A''), vertical = None\<rparr> None)
        [\<lparr>point_x = 9000, point_y = 10\<rparr>] (Anchor 9000 10 0)
        (example_bucket PlacementPoint ConstantSize [])
      = Inr (example_bucket PlacementPoint ConstantSize [])
   \<and> (\<exists>b'. addFeature example_env (example_bucket PlacementPoint ConstantSize [])
               (example_feature 7 (Some (PlainText ''A'')) None Point example_points)
               \<lparr>horizontal = Some (example_shaping ''A''), vertical = None\<rparr> None Map.empty
               (example_sizes PlacementPoint ConstantSize) = Inr b'
           \<and> map anchor (symbolInstances b') = [Anchor 10 10 0, Anchor 20 20 0])"
proof -
  let ?b = "example_bucket PlacementPoint ConstantSize []"
  let ?f = "example_feature 7 (Some (PlainText ''A'')) None Point example_points"
  let ?st = "\<lparr>horizontal = Some (example_shaping ''A''), vertical = None\<rparr>"
  have h1: "layers ?b = example_layer PlacementPoint # []"
    and h2: "symbol_placement (layout (example_layer PlacementPoint)) = PlacementPoint"
    and h3: "feature_type ?f = Point"
    by (simp_all add: example_defs)
  have out: "\<not> insideTile example_env (Anchor 9000 10 0)"
    by (simp add: insideTile_def example_env_def Anchor_def)
  obtain b' where ev: "addFeature example_env ?b ?f ?st None Map.empty
                         (example_sizes PlacementPoint ConstantSize) = Inr b'"
    by (simp add: layout_defs example_defs Anchor_def js_mul_def js_div_def)
  note T = addFeature_point_candidates_and_tile_bounds
             [where b = ?b and ?layer0.0 = "example_layer PlacementPoint" and ls = "[]" and f = ?f
                and st = ?st and ic = None and env = example_env and gpm = Map.empty
                and szs = "example_sizes PlacementPoint ConstantSize"
                and anc = "Anchor 9000 10 0" and c' = "example_closure ?f ?st None"
                and lin = "[\<lparr>point_x = 9000, point_y = 10\<rparr>]"]
  from T [THEN conjunct1, THEN mp, OF conjI [OF h1 conjI [OF h2 h3]], THEN conjunct2, THEN spec,
          THEN mp, OF ev]
  obtain new where
    "symbolInstances b' = symbolInstances ?b @ new"
    "map anchor new = filter (insideTile example_env)
                        (map (\<lambda>p. Anchor (point_x p) (point_y p) 0) (concat (geometry ?f)))"
    by blast
  then have anchors: "map anchor (symbolInstances b') = [Anchor 10 10 0, Anchor 20 20 0]"
    by (simp add: example_defs insideTile_def Anchor_def)
  have same: "addSymbolAtAnchor example_env (example_closure ?f ?st None)
        [\<lparr>point_x = 9000, point_y = 10\<rparr>] (Anchor 9000 10 0) ?b = Inr ?b"
    by (rule T [THEN conjunct2, THEN conjunct1, THEN mp, OF out])
  show ?thesis
    by (intro conjI exI [of _ b']) (rule h1 h2 h3 out same ev anchors)+
qed

section \<open>Repeated texts under line placement\<close>

text \<open>
  C3: under symbol placement \<open>line\<close>, after a pass over a bucket whose features have
  distinct indices, any two symbol instances that carry the same horizontal text string
  have anchors that are not closer than \<open>symbolMinDistance / 2\<close>, where
  \<open>symbolMinDistance\<close> is the tile pixel ratio times the symbol spacing, whatever its
  value. The tie-break: for a feature with a horizontal text shape, an anchor that is within
  \<open>symbolMinDistance / 2\<close> of an anchor already recorded for the same text is dropped with
  the bucket unchanged; any other anchor is recorded for the text and then handed to
  \<open>addSymbolAtAnchor\<close>.
\<close>

theorem line_placement_repeat_distance:
  "(performSymbolLayout env b gm gp im ip showBoxes = Inr b'
      \<and> layers b = layer0 # ls \<and> symbol_placement (layout layer0) = PlacementLine
      \<and> distinct (map feature_index (features b))
      \<and> i < j \<and> j < length (symbolInstances b')
      \<and> instanceText env (layout layer0) gm (features b) (symbolInstances b' ! i) = Some label
      \<and> instanceText env (layout layer0) gm (features b) (symbolInstances b' ! j) = Some label
    \<longrightarrow> \<not> js_lt (Num (point_dist (anchor (symbolInstances b' ! j)) (anchor (symbolInstances b' ! i))))
             (js_div (js_mul (tilePixelRatio b') (Num (symbol_spacing (layout layer0)))) (Num 2)))
   \<and> (horizontal (c_shapedTextOrientations c) = Some h \<and> shaping_text h \<notin> set objectPrototypeKeys
    \<longrightarrow> addFeature_lineAnchor env c d lin anc u
          = (if \<exists>other \<in> set (recorded u (shaping_text h)). js_lt (Num (point_dist anc other)) d
             then Inr u
             else addSymbolAtAnchor env c lin anc
                    (u\<lparr>compareText := (compareText u)(shaping_text h \<mapsto>
                                          recorded u (shaping_text h) @ [anc])\<rparr>)))"
proof (intro conjI impI)
  assume a: "performSymbolLayout env b gm gp im ip showBoxes = Inr b'
      \<and> layers b = layer0 # ls \<and> symbol_placement (layout layer0) = PlacementLine
      \<and> distinct (map feature_index (features b))
      \<and> i < j \<and> j < length (symbolInstances b')
      \<and> instanceText env (layout layer0) gm (features b) (symbolInstances b' ! i) = Some label
      \<and> instanceText env (layout layer0) gm (features b) (symbolInstances b' ! j) = Some label"
  let ?d = "js_div (js_mul (tilePixelRatio b') (Num (symbol_spacing (layout layer0)))) (Num 2)"
  from a have "repeatInvariant ?d env (layout layer0) gm (features b) b'"
    using performSymbolLayout_repeat [of env b gm gp im ip showBoxes b' layer0 ls] by simp
  then have "sorted_wrt (\<lambda>other a. \<not> tooClose ?d a other)
               (map anchor (filter (\<lambda>k. instanceText env (layout layer0) gm (features b) k = Some label)
                              (symbolInstances b')))"
    by (simp add: repeatInvariant_def textAnchors_def)
  from sorted_wrt_filter_nth [OF this, of i j] a
  have "\<not> tooClose ?d (anchor (symbolInstances b' ! j)) (anchor (symbolInstances b' ! i))"
    by simp
  then show "\<not> js_lt (Num (point_dist (anchor (symbolInstances b' ! j)) (anchor (symbolInstances b' ! i)))) ?d"
    by (simp add: tooClose_def)
next
  assume "horizontal (c_shapedTextOrientations c) = Some h \<and> shaping_text h \<notin> set objectPrototypeKeys"
  then show "addFeature_lineAnchor env c d lin anc u
          = (if \<exists>other \<in> set (recorded u (shaping_text h)). js_lt (Num (point_dist anc other)) d
             then Inr u
             else addSymbolAtAnchor env c lin anc
                    (u\<lparr>compareText := (compareText u)(shaping_text h \<mapsto>
                                          recorded u (shaping_text h) @ [anc])\<rparr>))"
    using anchorIsTooClose_defined [of "shaping_text h" u d anc]
    by (simp add: addFeature_lineAnchor_def tooClose_def)
qed

theorem line_placement_repeat_distance_witness:
  "(\<exists>b'. performSymbolLayout example_env (example_bucket PlacementLine ConstantSize example_lakes)
            Map.empty Map.empty Map.empty Map.empty False = Inr b'
         \<and> map anchor (symbolInstances b') = [Anchor 100 100 0, Anchor 4100 100 0, Anchor 8000 100 0]
         \<and> instanceText example_env (layout (example_layer PlacementLine)) Map.empty example_lakes
              (symbolInstances b' ! 1) = Some ''LAKE''
         \<and> instanceText example_env (layout (example_layer PlacementLine)) Map.empty example_lakes
              (symbolInstances b' ! 2) = Some ''LAKE''
         \<and> js_div (js_mul (tilePixelRatio b') (Num 250)) (Num 2) = Num 2000
         \<and> \<not> js_lt (Num (point_dist (anchor (symbolInstances b' ! 2)) (anchor (symbolInstances b' ! 1))))
                (Num 2000))
   \<and> addFeature_lineAnchor example_env
        (example_closure (example_feature 1 (Some (PlainText ''LAKE'')) None LineString [])
           \<lparr>horizontal = Some (example_shaping ''LAKE''), vertical = None\<rparr> None)
        (Num 2000) [] (Anchor 110 100 0)
        ((example_bucket PlacementLine ConstantSize [])
           \<lparr>compareText := [''LAKE'' \<mapsto> [Anchor 100 100 0]]\<rparr>)
      = Inr ((example_bucket PlacementLine ConstantSize [])
               \<lparr>compareText := [''LAKE'' \<mapsto> [Anchor 100 100 0]]\<rparr>)"
proof -
  let ?b = "example_bucket PlacementLine ConstantSize example_lakes"
  let ?lay = "layout (example_layer PlacementLine)"
  let ?c = "example_closure (example_feature 1 (Some (PlainText ''LAKE'')) None LineString [])
              \<lparr>horizontal = Some (example_shaping ''LAKE''), vertical = None\<rparr> None"
  let ?u = "(example_bucket PlacementLine ConstantSize [])
              \<lparr>compareText := [''LAKE'' \<mapsto> [Anchor 100 100 0]]\<rparr>"
  obtain b' where ev: "performSymbolLayout example_env ?b Map.empty Map.empty Map.empty Map.empty False = Inr b'"
    and anchors: "map anchor (symbolInstances b') = [Anchor 100 100 0, Anchor 4100 100 0, Anchor 8000 100 0]"
    and indices: "map featureIndex (symbolInstances b') = [1, 1, 2]"
    and ratio: "tilePixelRatio b' = Num 16"
    by (simp add: driver_defs layout_defs example_defs example_lakes_def Anchor_def js_mul_def
          js_div_def point_dist_same_y objectPrototypeKeys_def)
  from indices have len: "length (symbolInstances b') = 3"
    using length_map [of featureIndex "symbolInstances b'"] by simp
  have f1: "featureIndex (symbolInstances b' ! 1) = 1" and f2: "featureIndex (symbolInstances b' ! 2) = 2"
    using nth_map [of 1 "symbolInstances b'" featureIndex] nth_map [of 2 "symbolInstances b'" featureIndex]
          indices len by simp_all
  have t1: "instanceText example_env ?lay Map.empty example_lakes (symbolInstances b' ! 1) = Some ''LAKE''"
    and t2: "instanceText example_env ?lay Map.empty example_lakes (symbolInstances b' ! 2) = Some ''LAKE''"
    using f1 f2
    by (simp_all add: instanceText_def example_lakes_def shapeFeatureText_def example_defs Let_def)
  have d: "js_div (js_mul (tilePixelRatio b') (Num 250)) (Num 2) = Num 2000"
    using ratio by (simp add: js_div_def js_mul_def)
  have h: "layers ?b = example_layer PlacementLine # []"
      "symbol_placement ?lay = PlacementLine"
      "distinct (map feature_index (features ?b))"
      "symbol_spacing ?lay = 250"
      "features ?b = example_lakes"
    by (simp_all add: example_defs example_lakes_def)
  note T = line_placement_repeat_distance
             [where env = example_env and b = ?b and gm = Map.empty and gp = Map.empty
                and im = Map.empty and ip = Map.empty and showBoxes = False and b' = b'
                and ?layer0.0 = "example_layer PlacementLine" and ls = "[]" and i = 1 and j = 2
                and label = "''LAKE''" and c = ?c and h = "example_shaping ''LAKE''"
                and d = "Num 2000" and lin = "[]" and anc = "Anchor 110 100 0" and u = ?u]
  have far: "\<not> js_lt (Num (point_dist (anchor (symbolInstances b' ! 2)) (anchor (symbolInstances b' ! 1))))
                (Num 2000)"
    using T [THEN conjunct1] ev h len t1 t2 d by simp
  have hc: "horizontal (c_shapedTextOrientations ?c) = Some (example_shaping ''LAKE'')
            \<and> shaping_text (example_shaping ''LAKE'') \<notin> set objectPrototypeKeys"
    by (simp add: example_closure_def example_shaping_def objectPrototypeKeys_def)
  have dropped: "addFeature_lineAnchor example_env ?c (Num 2000) [] (Anchor 110 100 0) ?u = Inr ?u"
    using T [THEN conjunct2, THEN mp, OF hc]
    by (simp add: recorded_def example_shaping_def Anchor_def point_dist_same_y)
  show ?thesis
    by (intro conjI exI [of _ b']) (rule ev anchors t1 t2 d far dropped)+
qed

section \<open>Features with an icon and no text\<close>

text \<open>
  C4: for a feature with an icon shape and no horizontal text shape, \<open>addSymbolAtAnchor\<close> at
  an anchor inside the tile returns normally whenever the icon sizes it needs are set, and
  appends exactly one symbol instance. Its \<open>textBoxStartIndex\<close> and \<open>textBoxEndIndex\<close> are
  both the length of the collision-box array on entry, its glyph vertex counts are 0 and it
  has no placed text symbol; its icon range runs from that length to the length of the
  array after the icon's collision feature, and \<open>numIconVertices\<close> is four for each icon quad.
\<close>

theorem icon_only_symbol_instance:
  assumes ly: "layers b = layer0 # ls"
      and noText: "horizontal (c_shapedTextOrientations c) = None"
      and icon: "c_shapedIcon c = Some ic"
      and inside: "insideTile env anc"
      and sz: "functionType (iconSizeData b) \<noteq> Composite \<or> compositeIconSizes (c_sizes c) \<noteq> None"
  shows "\<exists>inst b'. addSymbolAtAnchor env c lin anc b = Inr b'
           \<and> symbolInstances b' = symbolInstances b @ [inst]
           \<and> anchor inst = anc
           \<and> textBoxStartIndex inst = length (collisionBoxArray b)
           \<and> textBoxEndIndex inst = length (collisionBoxArray b)
           \<and> numGlyphVertices inst = 0
           \<and> numVerticalGlyphVertices inst = 0
           \<and> placedTextSymbolIndices inst = []
           \<and> iconBoxStartIndex inst = length (collisionBoxArray b)
           \<and> iconBoxEndIndex inst = length (collisionBoxArray b')
           \<and> numIconVertices inst
               = length (getIconQuads env anc ic layer0 (c_iconAlongLine c) None (c_feature c)) * 4"
proof -
  let ?st = "c_shapedTextOrientations c"
  let ?f = "c_feature c"
  define la where "la = fst (addToLineVertexArray env b anc lin)"
  define b0 where "b0 = snd (addToLineVertexArray env b anc lin)"
  have lv: "addToLineVertexArray env b anc lin = (la, b0)" by (simp add: la_def b0_def)
  have b0: "collisionBoxArray b0 = collisionBoxArray b" "iconSizeData b0 = iconSizeData b"
      "symbolInstances b0 = symbolInstances b"
    by (simp_all add: b0_def addToLineVertexArray_def Let_def)
  have t: "addSymbol_text env b0 anc lin ?st layer0 (feature_index ?f) (sourceLayerIndex ?f)
             (bucket_index b) (c_textBoxScale c) (c_textPadding c) (c_textAlongLine c)
             (c_textOffset c) la ?f (c_glyphPositionMap c) (c_sizes c)
           = Inr (None, 0, 0, [], b0)"
    using noText by (simp add: addSymbol_text_def)
  from sz b0 have "functionType (iconSizeData b0) \<noteq> Composite \<or> compositeIconSizes (c_sizes c) \<noteq> None"
    by simp
  from addSymbol_icon_total [OF this, where env = env and anc = anc and lin = lin and st = ?st
         and ic = "Some ic" and lyr = layer0 and fi = "feature_index ?f"
         and sli = "sourceLayerIndex ?f" and bi = "bucket_index b" and ibs = "c_iconBoxScale c"
         and ip = "c_iconPadding c" and ial = "c_iconAlongLine c" and ioff = "c_iconOffset c"
         and la = la and f = ?f]
  obtain icf n bi where
    i: "addSymbol_icon env b0 anc lin ?st (Some ic) layer0 (feature_index ?f) (sourceLayerIndex ?f)
          (bucket_index b) (c_iconBoxScale c) (c_iconPadding c) (c_iconAlongLine c)
          (c_iconOffset c) la ?f (c_sizes c) = Inr (icf, n, bi)"
    by blast
  note ics = addSymbol_icon_Some [OF i]
  let ?cf = "CollisionFeature env (collisionBoxArray b0)
                \<lparr>cf_line = lin, cf_anchor = anc, cf_featureIndex = feature_index ?f,
                 cf_sourceLayerIndex = sourceLayerIndex ?f, cf_bucketIndex = bucket_index b,
                 cf_shaped = ShapedIcon ic, cf_boxScale = c_iconBoxScale c,
                 cf_padding = c_iconPadding c, cf_alignLine = False,
                 cf_overscaling = overscaling b0,
                 cf_rotate = evaluate (icon_rotate (layout layer0)) ?f\<rparr>"
  from ics have icf: "icf = Some (fst ?cf)" and cbi: "collisionBoxArray bi = snd ?cf"
    and n: "n = length (getIconQuads env anc ic layer0 (c_iconAlongLine c) None ?f) * 4"
    using noText by simp_all
  have start: "boxStartIndex (fst ?cf) = length (collisionBoxArray b)"
    and stop: "boxEndIndex (fst ?cf) = length (snd ?cf)"
    using b0 by (simp_all add: CollisionFeature_def Let_def)
  have tb: "length (collisionBoxArray b0) = length (collisionBoxArray b)" using b0 by simp
  define bw where "bw = (if MAX_GLYPHS env \<le> length (glyphOffsetArray bi)
                          then warnOnce bi tooManyGlyphsWarning else bi)"
  have bw: "collisionBoxArray bw = snd ?cf" "symbolInstances bw = symbolInstances b"
    using cbi addSymbol_icon_frame [OF i] b0
    by (simp_all add: bw_def warnOnce_def sameLabels_def)
  define inst where "inst =
     \<lparr>key = murmur3 env [],
      textBoxStartIndex = length (collisionBoxArray b0),
      textBoxEndIndex = length (collisionBoxArray b0),
      iconBoxStartIndex = boxStartIndex (fst ?cf),
      iconBoxEndIndex = boxEndIndex (fst ?cf),
      anchor = anc,
      featureIndex = feature_index ?f,
      numGlyphVertices = 0,
      numVerticalGlyphVertices = 0,
      numIconVertices = n,
      placedTextSymbolIndices = [],
      crossTileID = 0\<rparr>"
  have a: "addSymbol env b anc lin ?st (c_shapedIcon c) layer0 (feature_index ?f) (sourceLayerIndex ?f)
             (bucket_index b) (c_textBoxScale c) (c_textPadding c) (c_textAlongLine c) (c_textOffset c)
             (c_iconBoxScale c) (c_iconPadding c) (c_iconAlongLine c) (c_iconOffset c)
             ?f (c_glyphPositionMap c) (c_sizes c) = Inr (inst, bw)"
    using noText
    by (simp add: addSymbol_def lv t i icon icf inst_def bw_def)
  have r: "addSymbolAtAnchor env c lin anc b = Inr (bw\<lparr>symbolInstances := symbolInstances bw @ [inst]\<rparr>)"
    using inside ly a by (simp add: addSymbolAtAnchor_def insideTile_def not_le not_less)
  show ?thesis
    by (rule exI [of _ inst], rule exI [of _ "bw\<lparr>symbolInstances := symbolInstances bw @ [inst]\<rparr>"])
       (simp add: r bw inst_def tb start stop n)
qed

theorem icon_only_symbol_instance_witness:
  "layers (example_bucket PlacementPoint ConstantSize []) = example_layer PlacementPoint # []
   \<and> insideTile example_env (Anchor 10 10 0)
   \<and> (\<exists>inst b'. addSymbolAtAnchor example_env
                     (example_closure (example_feature 3 None (Some ''marker'') Point example_points)
                        \<lparr>horizontal = None, vertical = None\<rparr> (Some example_icon))
                     [\<lparr>point_x = 10, point_y = 10\<rparr>] (Anchor 10 10 0)
                     (example_bucket PlacementPoint ConstantSize []) = Inr b'
          \<and> symbolInstances b' = [inst]
          \<and> textBoxStartIndex inst = 0 \<and> textBoxEndIndex inst = 0
          \<and> numGlyphVertices inst = 0
          \<and> iconBoxStartIndex inst = 0 \<and> iconBoxEndIndex inst = 1
          \<and> numIconVertices inst = 4)"
proof -
  let ?b = "example_bucket PlacementPoint ConstantSize []"
  let ?c = "example_closure (example_feature 3 None (Some ''marker'') Point example_points)
              \<lparr>horizontal = None, vertical = None\<rparr> (Some example_icon)"
  let ?lin = "[\<lparr>point_x = 10, point_y = 10\<rparr>]"
  have h1: "layers ?b = example_layer PlacementPoint # []"
    and h2: "horizontal (c_shapedTextOrientations ?c) = None"
    and h3: "c_shapedIcon ?c = Some example_icon"
    and h5: "functionType (iconSizeData ?b) \<noteq> Composite \<or> compositeIconSizes (c_sizes ?c) \<noteq> None"
    and cb: "collisionBoxArray ?b = []" "symbolInstances ?b = []"
    by (simp_all add: example_defs)
  have h4: "insideTile example_env (Anchor 10 10 0)"
    by (simp add: insideTile_def example_env_def Anchor_def)
  have q: "getIconQuads example_env (Anchor 10 10 0) example_icon (example_layer PlacementPoint)
             (c_iconAlongLine ?c) None (c_feature ?c) = [\<lparr>glyphOffset = (0, 0)\<rparr>]"
    by (simp add: example_env_def)
  obtain b0 where ev: "addSymbolAtAnchor example_env ?c ?lin (Anchor 10 10 0) ?b = Inr b0"
    and len: "length (collisionBoxArray b0) = 1"
    by (simp add: layout_defs example_defs Anchor_def js_mul_def js_div_def)
  from icon_only_symbol_instance [OF h1 h2 h3 h4 h5, of ?lin] obtain inst b' where
    r: "addSymbolAtAnchor example_env ?c ?lin (Anchor 10 10 0) ?b = Inr b'"
       "symbolInstances b' = symbolInstances ?b @ [inst]"
       "textBoxStartIndex inst = length (collisionBoxArray ?b)"
       "textBoxEndIndex inst = length (collisionBoxArray ?b)"
       "numGlyphVertices inst = 0"
       "iconBoxStartIndex inst = length (collisionBoxArray ?b)"
       "iconBoxEndIndex inst = length (collisionBoxArray b')"
       "numIconVertices inst
          = length (getIconQuads example_env (Anchor 10 10 0) example_icon (example_layer PlacementPoint)
                      (c_iconAlongLine ?c) None (c_feature ?c)) * 4"
    by blast
  from r(1) ev have "b' = b0" by simp
  with r len cb q have
    "symbolInstances b' = [inst]" "textBoxStartIndex inst = 0" "textBoxEndIndex inst = 0"
    "numGlyphVertices inst = 0" "iconBoxStartIndex inst = 0" "iconBoxEndIndex inst = 1"
    "numIconVertices inst = 4"
    by simp_all
  with r(1) h1 h4 show ?thesis by blast
qed

section \<open>The collision feature of an icon\<close>

text \<open>
  C5: when \<open>addSymbol\<close> returns for a symbol with an icon shape, the collision boxes of the
  bucket are the boxes after the text block followed by what the \<open>CollisionFeature\<close>
  constructor makes for the icon with the align-to-line flag \<open>false\<close>, whatever
  \<open>iconAlongLine\<close> is; the icon's box range is the range of that collision feature. The
  icon quads and the placed icon symbol do get \<open>iconAlongLine\<close>.
\<close>

theorem icon_collision_feature_never_aligned:
  assumes "addSymbol env b anc lin st (Some ic) lyr fi sli bi tbs tp tal toff ibs ip ial ioff f gpm szs
             = Inr (inst, b')"
  shows "\<exists>boxesAfterText iconFeature.
           boxesAfterText
             = (case horizontal st of
                  None \<Rightarrow> collisionBoxArray b
                | Some h \<Rightarrow>
                    snd (CollisionFeature env (collisionBoxArray b)
                           \<lparr>cf_line = lin, cf_anchor = anc, cf_featureIndex = fi,
                            cf_sourceLayerIndex = sli, cf_bucketIndex = bi,
                            cf_shaped = ShapedText h, cf_boxScale = tbs,
                            cf_padding = tp, cf_alignLine = tal,
                            cf_overscaling = overscaling b,
                            cf_rotate = evaluate (text_rotate (layout lyr)) f\<rparr>))
           \<and> iconFeature
               = CollisionFeature env boxesAfterText
                   \<lparr>cf_line = lin, cf_anchor = anc, cf_featureIndex = fi,
                    cf_sourceLayerIndex = sli, cf_bucketIndex = bi,
                    cf_shaped = ShapedIcon ic, cf_boxScale = ibs,
                    cf_padding = ip, cf_alignLine = False,
                    cf_overscaling = overscaling b,
                    cf_rotate = evaluate (icon_rotate (layout lyr)) f\<rparr>
           \<and> collisionBoxArray b' = snd iconFeature
           \<and> iconBoxStartIndex inst = boxStartIndex (fst iconFeature)
           \<and> iconBoxEndIndex inst = boxEndIndex (fst iconFeature)
           \<and> (\<exists>ps. placedSymbolArray (bucket_icon b') = placedSymbolArray (bucket_icon b) @ [ps]
                    \<and> ps_alongLine ps = ial
                    \<and> ps_numQuads ps = length (getIconQuads env anc ic lyr ial (horizontal st) f))"
proof -
  define la where "la = fst (addToLineVertexArray env b anc lin)"
  define b0 where "b0 = snd (addToLineVertexArray env b anc lin)"
  have b0: "collisionBoxArray b0 = collisionBoxArray b" "overscaling b0 = overscaling b"
      "bucket_icon b0 = bucket_icon b"
    by (simp_all add: b0_def addToLineVertexArray_def Let_def)
  from assms obtain tcf n nv idx bt where
    t: "addSymbol_text env b0 anc lin st lyr fi sli bi tbs tp tal toff la f gpm szs
          = Inr (tcf, n, nv, idx, bt)"
    by (auto simp: addSymbol_def Let_def b0_def la_def split: prod.splits sum.splits)
  from assms t obtain icf ni bi' where
    i: "addSymbol_icon env bt anc lin st (Some ic) lyr fi sli bi ibs ip ial ioff la f szs = Inr (icf, ni, bi')"
    by (auto simp: addSymbol_def Let_def b0_def la_def split: prod.splits sum.splits)
  have b': "b' = (if MAX_GLYPHS env \<le> length (glyphOffsetArray bi')
                  then warnOnce bi' tooManyGlyphsWarning else bi')"
    and inst: "iconBoxStartIndex inst = (case icf of Some c \<Rightarrow> boxStartIndex c
                                         | None \<Rightarrow> length (collisionBoxArray bi'))"
              "iconBoxEndIndex inst = (case icf of Some c \<Rightarrow> boxEndIndex c
                                       | None \<Rightarrow> length (collisionBoxArray bi'))"
    using assms t i
    by (auto simp: addSymbol_def Let_def b0_def la_def split: prod.splits sum.splits)
  let ?boxes = "case horizontal st of
                  None \<Rightarrow> collisionBoxArray b
                | Some h \<Rightarrow>
                    snd (CollisionFeature env (collisionBoxArray b)
                           \<lparr>cf_line = lin, cf_anchor = anc, cf_featureIndex = fi,
                            cf_sourceLayerIndex = sli, cf_bucketIndex = bi,
                            cf_shaped = ShapedText h, cf_boxScale = tbs,
                            cf_padding = tp, cf_alignLine = tal,
                            cf_overscaling = overscaling b,
                            cf_rotate = evaluate (text_rotate (layout lyr)) f\<rparr>)"
  have bt: "collisionBoxArray bt = ?boxes"
    using addSymbol_text_boxes [OF t] b0 by (auto split: option.splits)
  have ot: "overscaling bt = overscaling b" "bucket_icon bt = bucket_icon b"
    using addSymbol_text_boxes [OF t] addSymbol_text_icon_buffers [OF t] b0
    by (simp_all add: sameLabels_def sameSetup_def)
  let ?cf = "CollisionFeature env ?boxes
                   \<lparr>cf_line = lin, cf_anchor = anc, cf_featureIndex = fi,
                    cf_sourceLayerIndex = sli, cf_bucketIndex = bi,
                    cf_shaped = ShapedIcon ic, cf_boxScale = ibs,
                    cf_padding = ip, cf_alignLine = False,
                    cf_overscaling = overscaling b,
                    cf_rotate = evaluate (icon_rotate (layout lyr)) f\<rparr>"
  note ics = addSymbol_icon_Some [OF i, unfolded bt ot]
  from ics have icf: "icf = Some (fst ?cf)" and cbi: "collisionBoxArray bi' = snd ?cf"
    by simp_all
  from ics obtain ps where ps: "placedSymbolArray (bucket_icon bi') = placedSymbolArray (bucket_icon b) @ [ps]"
    "ps_alongLine ps = ial" "ps_numQuads ps = length (getIconQuads env anc ic lyr ial (horizontal st) f)"
    by blast
  have "collisionBoxArray b' = snd ?cf" "bucket_icon b' = bucket_icon bi'"
    using cbi by (simp_all add: b' warnOnce_def)
  with icf inst ps show ?thesis by auto
qed

theorem icon_collision_feature_never_aligned_witness:
  "\<exists>inst b' ps.
      addSymbol example_env (example_bucket PlacementLine ConstantSize []) (Anchor 10 10 0)
        [\<lparr>point_x = 10, point_y = 10\<rparr>] \<lparr>horizontal = None, vertical = None\<rparr> (Some example_icon)
        (example_layer PlacementLine) 3 0 0 (Num 8) (Num 32) True (0, 0) (Num 16) (Num 32) True (0, 0)
        (example_feature 3 None (Some ''marker'') LineString []) Map.empty
        (example_sizes PlacementLine ConstantSize) = Inr (inst, b')
      \<and> collisionBoxArray b'
          = snd (CollisionFeature example_env []
                   \<lparr>cf_line = [\<lparr>point_x = 10, point_y = 10\<rparr>], cf_anchor = Anchor 10 10 0,
                    cf_featureIndex = 3, cf_sourceLayerIndex = 0, cf_bucketIndex = 0,
                    cf_shaped = ShapedIcon example_icon, cf_boxScale = Num 16,
                    cf_padding = Num 32, cf_alignLine = False, cf_overscaling = 1,
                    cf_rotate = 0\<rparr>)
      \<and> placedSymbolArray (bucket_icon b') = [ps] \<and> ps_alongLine ps = True"
proof -
  let ?b = "example_bucket PlacementLine ConstantSize []"
  let ?st = "\<lparr>horizontal = None, vertical = None\<rparr>"
  obtain inst b' where
    ev: "addSymbol example_env ?b (Anchor 10 10 0)
        [\<lparr>point_x = 10, point_y = 10\<rparr>] ?st (Some example_icon)
        (example_layer PlacementLine) 3 0 0 (Num 8) (Num 32) True (0, 0) (Num 16) (Num 32) True (0, 0)
        (example_feature 3 None (Some ''marker'') LineString []) Map.empty
        (example_sizes PlacementLine ConstantSize) = Inr (inst, b')"
    by (simp add: layout_defs example_defs Anchor_def js_mul_def js_div_def)
  have v: "horizontal ?st = None" "collisionBoxArray ?b = []" "overscaling ?b = 1"
    "placedSymbolArray (bucket_icon ?b) = []"
    "evaluate (icon_rotate (layout (example_layer PlacementLine)))
       (example_feature 3 None (Some ''marker'') LineString []) = 0"
    by (simp_all add: example_defs)
  from icon_collision_feature_never_aligned [OF ev] v obtain ps where
    "collisionBoxArray b'
          = snd (CollisionFeature example_env []
                   \<lparr>cf_line = [\<lparr>point_x = 10, point_y = 10\<rparr>], cf_anchor = Anchor 10 10 0,
                    cf_featureIndex = 3, cf_sourceLayerIndex = 0, cf_bucketIndex = 0,
                    cf_shaped = ShapedIcon example_icon, cf_boxScale = Num 16,
                    cf_padding = Num 32, cf_alignLine = False, cf_overscaling = 1,
                    cf_rotate = 0\<rparr>)"
    "placedSymbolArray (bucket_icon b') = [ps]" "ps_alongLine ps = True"
    by auto
  with ev show ?thesis by blast
qed

section \<open>Writing modes\<close>



section \<open>The maximum text size\<close>



section \<open>Running the pass again\<close>

text \<open>
  C8, as amended: the pass creates the bucket's arrays and its list of symbol instances
  anew, but it appends to the collision-box store of the bucket without resetting it. So
  for two buckets with the same tile and style, and the same maps and collaborators, the
  two runs throw the same error or return the same symbol instances in the same order,
  with the same placed-symbol indices, text and icon buffers, glyph offsets and line
  vertices, and the same new boxes; the collision-box indices of an instance are the
  length of the store on entry plus an index that is the same in both runs. The two lists
  of instances are equal exactly when the two stores have the same length on entry, or
  when there is no instance. The pass leaves the tile and the style as they are, so this
  holds for a run on the bucket that an earlier run has left.
\<close>

theorem performSymbolLayout_same_up_to_box_offset:
  assumes "sameInputs a b"
  shows "(\<exists>e. performSymbolLayout env a gm gp im ip scb = Inl e
            \<and> performSymbolLayout env b gm gp im ip scb = Inl e)
         \<or> (\<exists>a' b' rel new.
               performSymbolLayout env a gm gp im ip scb = Inr a'
             \<and> performSymbolLayout env b gm gp im ip scb = Inr b'
             \<and> symbolInstances a' = map (shiftBoxes (length (collisionBoxArray a))) rel
             \<and> symbolInstances b' = map (shiftBoxes (length (collisionBoxArray b))) rel
             \<and> collisionBoxArray a' = collisionBoxArray a @ new
             \<and> collisionBoxArray b' = collisionBoxArray b @ new
             \<and> bucket_text b' = bucket_text a' \<and> bucket_icon b' = bucket_icon a'
             \<and> glyphOffsetArray b' = glyphOffsetArray a'
             \<and> lineVertexArray b' = lineVertexArray a'
             \<and> sameInputs a a' \<and> sameInputs b b'
             \<and> (symbolInstances b' = symbolInstances a'
                  \<longleftrightarrow> length (collisionBoxArray b) = length (collisionBoxArray a) \<or> rel = []))"
proof -
  define z where "z = a\<lparr>collisionBoxArray := []\<rparr>"
  have oa: "sameInputs z a" "collisionBoxArray a = collisionBoxArray a @ collisionBoxArray z"
    and ob: "sameInputs z b" "collisionBoxArray b = collisionBoxArray b @ collisionBoxArray z"
    using assms by (simp_all add: z_def sameInputs_def)
  note ra = performSymbolLayout_shifted [OF oa, of env gm gp im ip scb]
  note rb = performSymbolLayout_shifted [OF ob, of env gm gp im ip scb]
  show ?thesis
  proof (cases "performSymbolLayout env z gm gp im ip scb")
    case (Inl e)
    then show ?thesis using ra rb
      by (cases "performSymbolLayout env a gm gp im ip scb";
          cases "performSymbolLayout env b gm gp im ip scb") simp_all
  next
    case (Inr z')
    from Inr ra obtain a' where a': "performSymbolLayout env a gm gp im ip scb = Inr a'"
      and sa: "shiftedRun (collisionBoxArray a) z' a'"
      by (cases "performSymbolLayout env a gm gp im ip scb") simp_all
    from Inr rb obtain b' where b': "performSymbolLayout env b gm gp im ip scb = Inr b'"
      and sb: "shiftedRun (collisionBoxArray b) z' b'"
      by (cases "performSymbolLayout env b gm gp im ip scb") simp_all
    have "symbolInstances a' = map (shiftBoxes (length (collisionBoxArray a))) (symbolInstances z')"
      "symbolInstances b' = map (shiftBoxes (length (collisionBoxArray b))) (symbolInstances z')"
      "collisionBoxArray a' = collisionBoxArray a @ collisionBoxArray z'"
      "collisionBoxArray b' = collisionBoxArray b @ collisionBoxArray z'"
      "bucket_text b' = bucket_text a'" "bucket_icon b' = bucket_icon a'"
      "glyphOffsetArray b' = glyphOffsetArray a'" "lineVertexArray b' = lineVertexArray a'"
      using sa sb by (simp_all add: shiftedRun_def)
    moreover have "sameInputs a a'" "sameInputs b b'"
      using performSymbolLayout_inputs [OF a'] performSymbolLayout_inputs [OF b'] by simp_all
    moreover have "symbolInstances b' = symbolInstances a'
        \<longleftrightarrow> length (collisionBoxArray b) = length (collisionBoxArray a) \<or> symbolInstances z' = []"
      using sa sb map_shiftBoxes_eq [of "length (collisionBoxArray b)" "symbolInstances z'"
                                       "length (collisionBoxArray a)"]
      by (simp add: shiftedRun_def)
    ultimately show ?thesis using a' b' by blast
  qed
qed

theorem performSymbolLayout_same_up_to_box_offset_witness:
  "\<exists>b1 b2 rel.
      performSymbolLayout example_env (example_bucket PlacementPoint ConstantSize example_towns)
        Map.empty Map.empty example_images Map.empty False = Inr b1
    \<and> sameInputs (example_bucket PlacementPoint ConstantSize example_towns) b1
    \<and> sdfIcons (example_bucket PlacementPoint ConstantSize example_towns) = None
    \<and> sdfIcons b1 = Some True
    \<and> performSymbolLayout example_env b1 Map.empty Map.empty example_images Map.empty False = Inr b2
    \<and> symbolInstances b1 = map (shiftBoxes 0) rel
    \<and> symbolInstances b2 = map (shiftBoxes 4) rel
    \<and> symbolInstances b2 \<noteq> symbolInstances b1
    \<and> bucket_text b2 = bucket_text b1 \<and> bucket_icon b2 = bucket_icon b1"
proof -
  let ?b = "example_bucket PlacementPoint ConstantSize example_towns"
  obtain b1 where
    ev: "performSymbolLayout example_env ?b Map.empty Map.empty example_images Map.empty False = Inr b1"
    and inp: "sameInputs ?b b1"
    and len: "length (collisionBoxArray b1) = 4"
    and sdf': "sdfIcons b1 = Some True"
    and two: "length (symbolInstances b1) = 2"
    by (simp add: driver_defs layout_defs example_defs example_towns_def example_images_def
          Anchor_def js_mul_def js_div_def sameInputs_def)
  have len0: "length (collisionBoxArray ?b) = 0" and sdf0: "sdfIcons ?b = None"
    by (simp_all add: example_defs)
  obtain b2 rel where
    r2: "performSymbolLayout example_env b1 Map.empty Map.empty example_images Map.empty False = Inr b2"
    and i1: "symbolInstances b1 = map (shiftBoxes (length (collisionBoxArray ?b))) rel"
    and i2: "symbolInstances b2 = map (shiftBoxes (length (collisionBoxArray b1))) rel"
    and bt: "bucket_text b2 = bucket_text b1" and bi: "bucket_icon b2 = bucket_icon b1"
    and eq: "symbolInstances b2 = symbolInstances b1
               \<longleftrightarrow> length (collisionBoxArray b1) = length (collisionBoxArray ?b) \<or> rel = []"
    using performSymbolLayout_same_up_to_box_offset
            [OF inp, of example_env Map.empty Map.empty example_images Map.empty False]
  proof (elim disjE exE conjE)
    fix e
    assume "performSymbolLayout example_env ?b Map.empty Map.empty example_images Map.empty False = Inl e"
    then show ?thesis using ev by simp
  next
    fix a' b' rel new
    assume "performSymbolLayout example_env ?b Map.empty Map.empty example_images Map.empty False = Inr a'"
    then have a': "a' = b1" using ev by simp
    assume "performSymbolLayout example_env b1 Map.empty Map.empty example_images Map.empty False = Inr b'"
       "symbolInstances a' = map (shiftBoxes (length (collisionBoxArray ?b))) rel"
       "symbolInstances b' = map (shiftBoxes (length (collisionBoxArray b1))) rel"
       "bucket_text b' = bucket_text a'" "bucket_icon b' = bucket_icon a'"
       "symbolInstances b' = symbolInstances a'
          \<longleftrightarrow> length (collisionBoxArray b1) = length (collisionBoxArray ?b) \<or> rel = []"
    then show ?thesis using that [of b' rel] unfolding a' by blast
  qed
  from i1 two have "rel \<noteq> []" by auto
  then have ne: "symbolInstances b2 \<noteq> symbolInstances b1" using eq len len0 by simp
  show ?thesis
    by (intro exI [of _ b1] exI [of _ b2] exI [of _ rel] conjI)
       (use ev inp sdf0 sdf' r2 i1 i2 ne bt bi len len0 in simp_all)
qed

text \<open>
  C8, as the claim states it, fails for the second of two runs on one bucket: the town
  with its label and its marker at two points gets the box ranges 0 to 2 and 2 to 4 in
  the first run, and 4 to 6 and 6 to 8 in the second.
\<close>

theorem performSymbolLayout_second_run_other_box_ranges:
  "map_sum id (map boxRanges \<circ> symbolInstances)
     (performSymbolLayout example_env (example_bucket PlacementPoint ConstantSize example_towns)
        Map.empty Map.empty example_images Map.empty False)
     = Inr [(0, 1, 1, 2), (2, 3, 3, 4)]
   \<and> map_sum id (map boxRanges \<circ> symbolInstances)
       (performSymbolLayout_twice example_env (example_bucket PlacementPoint ConstantSize example_towns)
          Map.empty Map.empty example_images Map.empty False)
     = Inr [(4, 5, 5, 6), (6, 7, 7, 8)]
   \<and> map_sum id symbolInstances
       (performSymbolLayout_twice example_env (example_bucket PlacementPoint ConstantSize example_towns)
          Map.empty Map.empty example_images Map.empty False)
     \<noteq> map_sum id symbolInstances
         (performSymbolLayout example_env (example_bucket PlacementPoint ConstantSize example_towns)
            Map.empty Map.empty example_images Map.empty False)"
proof -
  let ?one = "performSymbolLayout example_env (example_bucket PlacementPoint ConstantSize example_towns)
                Map.empty Map.empty example_images Map.empty False"
  let ?two = "performSymbolLayout_twice example_env (example_bucket PlacementPoint ConstantSize example_towns)
                Map.empty Map.empty example_images Map.empty False"
  have one: "map_sum id (map boxRanges \<circ> symbolInstances) ?one = Inr [(0, 1, 1, 2), (2, 3, 3, 4)]"
    by (simp add: driver_defs layout_defs example_defs example_towns_def example_images_def
          Anchor_def js_mul_def js_div_def boxRanges_def)
  have two: "map_sum id (map boxRanges \<circ> symbolInstances) ?two = Inr [(4, 5, 5, 6), (6, 7, 7, 8)]"
    by (simp add: performSymbolLayout_twice_def driver_defs layout_defs example_defs
          example_towns_def example_images_def Anchor_def js_mul_def js_div_def boxRanges_def)
  have "map_sum id symbolInstances ?two \<noteq> map_sum id symbolInstances ?one"
  proof
    assume "map_sum id symbolInstances ?two = map_sum id symbolInstances ?one"
    then have "map_sum id (map boxRanges) (map_sum id symbolInstances ?two)
                 = map_sum id (map boxRanges) (map_sum id symbolInstances ?one)"
      by simp
    then have "map_sum id (map boxRanges \<circ> symbolInstances) ?two
                 = map_sum id (map boxRanges \<circ> symbolInstances) ?one"
      by (simp only: sum.map_comp id_comp)
    then show False using one two by simp
  qed
  with one two show ?thesis by simp
qed

end
